(* ===== verification/Secrets_Prelude.thy ===== *)
theory Secrets_Prelude
  imports Main "HOL-Library.AList"
begin

text \<open>
  Shared vocabulary of the development: the fact collections the component
  theories fill, the types that name identifiers, tokens and JavaScript
  values that may be \<^verbatim>\<open>undefined\<close>, the error kinds of the application, and
  the generic lemmas on \<open>find\<close>, association lists and sums that the
  component proofs rest on.
\<close>

section \<open>Fact collections\<close>

named_theorems store_defs \<open>unfolding rules of the document store operations\<close>
named_theorems session_defs \<open>unfolding rules of the session manager\<close>
named_theorems strategy_defs \<open>unfolding rules of the authentication strategies\<close>
named_theorems handler_defs \<open>unfolding rules of the route handlers\<close>
named_theorems frame \<open>equations for the parts of the state an operation leaves alone\<close>
named_theorems inv_keep \<open>preservation lemmas of the state invariants\<close>

section \<open>Identifiers and JavaScript values\<close>

text \<open>
  A Mongo \<^verbatim>\<open>ObjectId\<close> and a session id are opaque and only ever compared
  for equality; both are drawn from counters, so they are natural numbers.
  A request field or an environment variable is a string or \<^verbatim>\<open>undefined\<close>.
\<close>

type_synonym object_id = nat
type_synonym token = nat
type_synonym js_string = "string option"

text \<open>JavaScript truthiness of a string-or-undefined: \<^verbatim>\<open>!x\<close> holds for
  \<^verbatim>\<open>undefined\<close> and for the empty string.\<close>

definition truthy :: "js_string \<Rightarrow> bool" where
  "truthy x = (case x of None \<Rightarrow> False | Some s \<Rightarrow> s \<noteq> [])"

text \<open>\<^verbatim>\<open>===\<close> on two string-or-undefined values: \<^verbatim>\<open>undefined === undefined\<close>
  is true, a string equals only the same string.\<close>

definition strict_eq :: "js_string \<Rightarrow> js_string \<Rightarrow> bool" where
  "strict_eq a b = (case a of
      None \<Rightarrow> (case b of None \<Rightarrow> True | Some _ \<Rightarrow> False)
    | Some s \<Rightarrow> (case b of None \<Rightarrow> False | Some t \<Rightarrow> s = t))"

lemma truthy_simps [simp]:
  "truthy None = False"
  "truthy (Some s) = (s \<noteq> [])"
  by (simp_all add: truthy_def)

lemma truthy_SomeE: "truthy x \<Longrightarrow> \<exists>s. x = Some s \<and> s \<noteq> []"
  by (cases x) simp_all

lemma strict_eq_iff [simp]: "strict_eq a b \<longleftrightarrow> a = b"
  by (simp add: strict_eq_def split: option.splits)

section \<open>Error kinds\<close>

text \<open>The error kinds the application distinguishes. A fallible operation
  returns \<open>error + 'a\<close> with \<open>Inl\<close> for the failure.\<close>

datatype error =
    DuplicateUsername
  | InvalidCredentials
  | MissingCredentials
  | StoreUnavailable
  | AuthProviderFailure
  | Unauthenticated

type_synonym 'a result = "error + 'a"

definition is_ok :: "'a result \<Rightarrow> bool" where
  "is_ok r = (case r of Inl _ \<Rightarrow> False | Inr _ \<Rightarrow> True)"

lemma is_ok_simps [simp]: "is_ok (Inl e) = False" "is_ok (Inr x) = True"
  by (simp_all add: is_ok_def)

lemma is_ok_iff: "is_ok r \<longleftrightarrow> (\<exists>x. r = Inr x)"
  by (cases r) simp_all

section \<open>Lists searched with \<open>find\<close>\<close>

lemma find_SomeD: "find P xs = Some x \<Longrightarrow> x \<in> set xs \<and> P x"
  by (induction xs) (auto split: if_splits)

lemma find_append:
  "find P (xs @ ys) = (case find P xs of None \<Rightarrow> find P ys | Some x \<Rightarrow> Some x)"
  by (induction xs) auto

lemma find_snoc_None [simp]:
  "find P xs = None \<Longrightarrow> find P (xs @ [y]) = (if P y then Some y else None)"
  by (simp add: find_append)

lemma find_snoc_Some [simp]:
  "find P xs = Some x \<Longrightarrow> find P (xs @ ys) = Some x"
  by (simp add: find_append)

lemma find_NoneD: "find P xs = None \<Longrightarrow> x \<in> set xs \<Longrightarrow> \<not> P x"
  by (auto simp: find_None_iff)

lemma find_unique:
  assumes "distinct (map f xs)" and "x \<in> set xs"
  shows "find (\<lambda>y. f y = f x) xs = Some x"
  using assms by (induction xs) (auto simp: image_iff)

lemma filter_snoc: "filter P (xs @ [y]) = (if P y then filter P xs @ [y] else filter P xs)"
  by simp

section \<open>Association lists\<close>

text \<open>The session store is an association list read with \<open>map_of\<close>, written
  by consing a binding and erased with \<open>AList.delete\<close>.\<close>

lemma map_of_delete_same [simp]: "map_of (AList.delete k al) k = None"
  by (simp add: delete_conv')

lemma map_of_delete_iff:
  "map_of (AList.delete k al) k' = (if k' = k then None else map_of al k')"
  by (simp add: delete_conv')

lemma fst_set_delete: "fst ` set (AList.delete k al) = fst ` set al - {k}"
  by (induction al) (auto simp: AList.delete_eq image_iff)

lemma map_of_fresh:
  fixes n :: nat
  assumes "\<forall>k \<in> fst ` set al. k < n"
  shows "map_of al n = None"
  using assms by (force simp: map_of_eq_None_iff)

lemma distinct_delete_keys:
  "distinct (map fst al) \<Longrightarrow> distinct (map fst (AList.delete k al))"
  by (rule distinct_delete)

lemma set_delete_subset: "set (AList.delete k al) \<subseteq> set al"
  by (auto simp: AList.delete_eq)

end
