(* ===== verification/Store.thy ===== *)
theory Store
  imports Secrets_Prelude
begin

text \<open>
  The two Mongo collections of \<^verbatim>\<open>src/index.js\<close>: the schemas \<^verbatim>\<open>userModal\<close>
  and \<^verbatim>\<open>secretsModel\<close> as records, the database as a record of two document
  lists and the counter that object ids are drawn from, and the collection
  operations the application calls: constructing a document, saving it,
  \<^verbatim>\<open>Secret.find({})\<close>, \<^verbatim>\<open>findOne\<close> and the \<^verbatim>\<open>findOrCreate\<close> plugin.

  Lemmas: the frame of each operation, the key-uniqueness and freshness
  invariant \<open>db_inv\<close> with its preservation by every write, lookup after
  insert, and idempotence of \<open>findOrCreate\<close>.
\<close>

section \<open>Documents\<close>

text \<open>
  \<^verbatim>\<open>userModal\<close> declares \<^verbatim>\<open>username\<close>, \<^verbatim>\<open>password\<close>, \<^verbatim>\<open>googleId\<close> and
  \<^verbatim>\<open>facebookId\<close>, all optional strings. The local-authentication plugin
  applied to the schema adds the fields \<^verbatim>\<open>salt\<close> and \<^verbatim>\<open>hash\<close>; every
  document carries the \<^verbatim>\<open>_id\<close> it was constructed with.
\<close>

record user_doc =
  u_id :: object_id
  username :: js_string
  password :: js_string
  googleId :: js_string
  facebookId :: js_string
  salt :: js_string
  hash :: js_string

record secret_doc =
  s_id :: object_id
  secret :: js_string
  userId :: "object_id option"

record db =
  users :: "user_doc list"
  secrets :: "secret_doc list"
  next_oid :: object_id

definition empty_db :: db where
  "empty_db = \<lparr>users = [], secrets = [], next_oid = 0\<rparr>"

section \<open>Constructing and saving documents\<close>

text \<open>\<^verbatim>\<open>new Model({...})\<close> assigns the document a fresh object id at
  construction, whether or not the document is saved later.\<close>

definition alloc_oid :: "db \<Rightarrow> object_id \<times> db" where
  "alloc_oid d = (next_oid d, d\<lparr>next_oid := Suc (next_oid d)\<rparr>)"

definition blank_user :: "object_id \<Rightarrow> user_doc" where
  "blank_user i = \<lparr>u_id = i, username = None, password = None, googleId = None,
     facebookId = None, salt = None, hash = None\<rparr>"

definition save_user :: "user_doc \<Rightarrow> db \<Rightarrow> db" where
  "save_user u d = d\<lparr>users := users d @ [u]\<rparr>"

definition save_secret :: "secret_doc \<Rightarrow> db \<Rightarrow> db" where
  "save_secret s d = d\<lparr>secrets := secrets d @ [s]\<rparr>"

text \<open>\<^verbatim>\<open>Secret.find({})\<close>: every document of the collection, in insertion
  order.\<close>

definition find_secrets :: "db \<Rightarrow> secret_doc list" where
  "find_secrets d = secrets d"

lemmas [store_defs] =
  alloc_oid_def blank_user_def save_user_def save_secret_def find_secrets_def

section \<open>Queries by field\<close>

text \<open>
  A query object such as \<^verbatim>\<open>{username: n, googleId: g}\<close> is a list of
  field--value pairs. A document matches when it agrees with the query on
  every listed field; an \<^verbatim>\<open>undefined\<close> value matches a field that is unset.
\<close>

datatype user_field = Username | GoogleId | FacebookId

type_synonym conditions = "(user_field \<times> js_string) list"

fun get_field :: "user_field \<Rightarrow> user_doc \<Rightarrow> js_string" where
  "get_field Username u = username u"
| "get_field GoogleId u = googleId u"
| "get_field FacebookId u = facebookId u"

fun set_field :: "user_field \<Rightarrow> js_string \<Rightarrow> user_doc \<Rightarrow> user_doc" where
  "set_field Username v u = u\<lparr>username := v\<rparr>"
| "set_field GoogleId v u = u\<lparr>googleId := v\<rparr>"
| "set_field FacebookId v u = u\<lparr>facebookId := v\<rparr>"

definition matches :: "conditions \<Rightarrow> user_doc \<Rightarrow> bool" where
  "matches c u = list_all (\<lambda>(f, v). get_field f u = v) c"

definition findOne :: "conditions \<Rightarrow> db \<Rightarrow> user_doc option" where
  "findOne c d = find (matches c) (users d)"

text \<open>The document \<^verbatim>\<open>new User(conditions)\<close> builds: the listed fields set
  in order, a later pair for the same field overriding an earlier one.\<close>

definition from_conditions :: "object_id \<Rightarrow> conditions \<Rightarrow> user_doc" where
  "from_conditions i c = foldl (\<lambda>u (f, v). set_field f v u) (blank_user i) c"

section \<open>The find-or-create plugin\<close>

text \<open>
  \<^verbatim>\<open>Model.findOrCreate(conditions, cb)\<close> looks for the first document that
  matches \<^emph>\<open>all\<close> the conditions. If there is one it is returned with
  \<open>created = False\<close>; otherwise a document built from the conditions is
  saved and returned with \<open>created = True\<close>.
\<close>

definition findOrCreate :: "conditions \<Rightarrow> db \<Rightarrow> (user_doc \<times> bool) \<times> db" where
  "findOrCreate c d =
     (case findOne c d of
        Some u \<Rightarrow> ((u, False), d)
      | None \<Rightarrow>
          (let (i, d') = alloc_oid d; u = from_conditions i c
           in ((u, True), save_user u d')))"

lemmas [store_defs] = matches_def findOne_def from_conditions_def findOrCreate_def

section \<open>Frame lemmas\<close>

lemma alloc_oid_frame [frame, simp]:
  "users (snd (alloc_oid d)) = users d"
  "secrets (snd (alloc_oid d)) = secrets d"
  "next_oid (snd (alloc_oid d)) = Suc (next_oid d)"
  "fst (alloc_oid d) = next_oid d"
  by (simp_all add: alloc_oid_def)

lemma save_user_frame [frame, simp]:
  "users (save_user u d) = users d @ [u]"
  "secrets (save_user u d) = secrets d"
  "next_oid (save_user u d) = next_oid d"
  by (simp_all add: save_user_def)

lemma save_secret_frame [frame, simp]:
  "users (save_secret s d) = users d"
  "secrets (save_secret s d) = secrets d @ [s]"
  "next_oid (save_secret s d) = next_oid d"
  by (simp_all add: save_secret_def)

lemma blank_user_fields [simp]:
  "u_id (blank_user i) = i"
  "username (blank_user i) = None"
  "password (blank_user i) = None"
  "googleId (blank_user i) = None"
  "facebookId (blank_user i) = None"
  "salt (blank_user i) = None"
  "hash (blank_user i) = None"
  by (simp_all add: blank_user_def)

lemma set_field_frame [simp]:
  "u_id (set_field f v u) = u_id u"
  "password (set_field f v u) = password u"
  "salt (set_field f v u) = salt u"
  "hash (set_field f v u) = hash u"
  by (cases f; simp)+

lemma get_set_field:
  "get_field f (set_field g v u) = (if f = g then v else get_field f u)"
  by (cases f; cases g; simp)

lemma from_conditions_frame [simp]:
  "u_id (from_conditions i c) = i"
  "password (from_conditions i c) = None"
  "salt (from_conditions i c) = None"
  "hash (from_conditions i c) = None"
proof -
  have "u_id (foldl (\<lambda>u (f, v). set_field f v u) u0 c) = u_id u0
      \<and> password (foldl (\<lambda>u (f, v). set_field f v u) u0 c) = password u0
      \<and> salt (foldl (\<lambda>u (f, v). set_field f v u) u0 c) = salt u0
      \<and> hash (foldl (\<lambda>u (f, v). set_field f v u) u0 c) = hash u0" for u0
    by (induction c arbitrary: u0) (auto simp: case_prod_beta)
  then show
    "u_id (from_conditions i c) = i"
    "password (from_conditions i c) = None"
    "salt (from_conditions i c) = None"
    "hash (from_conditions i c) = None"
    by (simp_all add: from_conditions_def)
qed

section \<open>What a document built from a query matches\<close>

text \<open>A query with one value per field is matched by the document built
  from it; this is what makes a repeated \<open>findOrCreate\<close> find the document
  the first call created.\<close>

lemma get_field_foldl_other:
  "f \<notin> fst ` set c \<Longrightarrow>
   get_field f (foldl (\<lambda>u (g, v). set_field g v u) u0 c) = get_field f u0"
  by (induction c arbitrary: u0) (auto simp: get_set_field)

lemma get_field_foldl:
  "distinct (map fst c) \<Longrightarrow> (f, v) \<in> set c \<Longrightarrow>
   get_field f (foldl (\<lambda>u (g, w). set_field g w u) u0 c) = v"
proof (induction c arbitrary: u0)
  case Nil
  then show ?case by simp
next
  case (Cons p c)
  show ?case
  proof (cases "p = (f, v)")
    case True
    with Cons.prems have "f \<notin> fst ` set c" by auto
    with True show ?thesis
      by (simp add: get_field_foldl_other get_set_field)
  next
    case False
    with Cons show ?thesis by auto
  qed
qed

lemma matches_from_conditions:
  "distinct (map fst c) \<Longrightarrow> matches c (from_conditions i c)"
  by (auto simp: matches_def from_conditions_def list_all_iff get_field_foldl)

section \<open>Behaviour of \<open>findOne\<close> and \<open>findOrCreate\<close>\<close>

lemma findOne_SomeD:
  "findOne c d = Some u \<Longrightarrow> u \<in> set (users d) \<and> matches c u"
  by (auto simp: findOne_def dest: find_SomeD)

lemma findOne_None_iff:
  "findOne c d = None \<longleftrightarrow> (\<forall>u \<in> set (users d). \<not> matches c u)"
  by (auto simp: findOne_def find_None_iff)

lemma findOrCreate_found:
  "findOne c d = Some u \<Longrightarrow> findOrCreate c d = ((u, False), d)"
  by (simp add: findOrCreate_def)

lemma findOrCreate_created:
  "findOne c d = None \<Longrightarrow>
   findOrCreate c d =
     ((from_conditions (next_oid d) c, True),
      d\<lparr>next_oid := Suc (next_oid d),
        users := users d @ [from_conditions (next_oid d) c]\<rparr>)"
  by (simp add: findOrCreate_def alloc_oid_def save_user_def Let_def)

lemma findOrCreate_result_matches:
  assumes "distinct (map fst c)"
  shows "matches c (fst (fst (findOrCreate c d)))"
proof (cases "findOne c d")
  case None
  with assms show ?thesis
    by (simp add: findOrCreate_created matches_from_conditions)
next
  case (Some u)
  then show ?thesis
    by (auto simp: findOrCreate_found dest: findOne_SomeD)
qed

lemma findOrCreate_result_stored:
  "fst (fst (findOrCreate c d)) \<in> set (users (snd (findOrCreate c d)))"
  by (cases "findOne c d")
     (auto simp: findOrCreate_found findOrCreate_created dest: findOne_SomeD)

lemma findOne_after_findOrCreate:
  assumes "distinct (map fst c)"
  shows "findOne c (snd (findOrCreate c d)) = Some (fst (fst (findOrCreate c d)))"
proof (cases "findOne c d")
  case None
  then have "find (matches c) (users d) = None" by (simp add: findOne_def)
  with None assms show ?thesis
    by (simp add: findOrCreate_created findOne_def matches_from_conditions)
next
  case (Some u)
  then show ?thesis by (simp add: findOrCreate_found)
qed

lemma findOrCreate_frame [frame, simp]:
  "secrets (snd (findOrCreate c d)) = secrets d"
  by (cases "findOne c d") (simp_all add: findOrCreate_found findOrCreate_created)

lemma findOrCreate_users:
  "users (snd (findOrCreate c d)) =
     (case findOne c d of Some _ \<Rightarrow> users d
      | None \<Rightarrow> users d @ [from_conditions (next_oid d) c])"
  by (cases "findOne c d") (simp_all add: findOrCreate_found findOrCreate_created)

lemma findOrCreate_next_oid:
  "next_oid (snd (findOrCreate c d)) =
     (case findOne c d of Some _ \<Rightarrow> next_oid d | None \<Rightarrow> Suc (next_oid d))"
  by (cases "findOne c d") (simp_all add: findOrCreate_found findOrCreate_created)

section \<open>The store invariant\<close>

text \<open>
  Every stored document has an id below the counter, user ids are pairwise
  distinct and so are secret ids, and no stored user carries a value in the
  schema's plaintext \<^verbatim>\<open>password\<close> field.
\<close>

definition ids_below :: "db \<Rightarrow> bool" where
  "ids_below d \<longleftrightarrow>
     (\<forall>u \<in> set (users d). u_id u < next_oid d) \<and>
     (\<forall>s \<in> set (secrets d). s_id s < next_oid d)"

definition no_plaintext :: "db \<Rightarrow> bool" where
  "no_plaintext d \<longleftrightarrow> (\<forall>u \<in> set (users d). password u = None)"

definition db_inv :: "db \<Rightarrow> bool" where
  "db_inv d \<longleftrightarrow>
     ids_below d \<and> distinct (map u_id (users d)) \<and>
     distinct (map s_id (secrets d)) \<and> no_plaintext d"

lemmas db_inv_defs = db_inv_def ids_below_def no_plaintext_def

lemma db_inv_empty [simp]: "db_inv empty_db"
  by (simp add: db_inv_defs empty_db_def)

lemma db_inv_alloc [inv_keep]: "db_inv d \<Longrightarrow> db_inv (snd (alloc_oid d))"
  by (auto simp: db_inv_defs less_Suc_eq)

lemma db_inv_save_user [inv_keep]:
  assumes "db_inv d" and "u_id u < next_oid d" and "u_id u \<notin> u_id ` set (users d)"
    and "password u = None"
  shows "db_inv (save_user u d)"
  using assms by (auto simp: db_inv_defs)

lemma db_inv_save_secret [inv_keep]:
  assumes "db_inv d" and "s_id s < next_oid d" and "s_id s \<notin> s_id ` set (secrets d)"
  shows "db_inv (save_secret s d)"
  using assms by (auto simp: db_inv_defs)

lemma db_inv_fresh_user: "db_inv d \<Longrightarrow> next_oid d \<notin> u_id ` set (users d)"
  by (auto simp: db_inv_defs)

lemma db_inv_fresh_secret: "db_inv d \<Longrightarrow> next_oid d \<notin> s_id ` set (secrets d)"
  by (auto simp: db_inv_defs)

lemma db_inv_findOrCreate [inv_keep]:
  assumes "db_inv d"
  shows "db_inv (snd (findOrCreate c d))"
proof (cases "findOne c d")
  case None
  from assms have "db_inv (save_user (from_conditions (next_oid d) c) (snd (alloc_oid d)))"
    by (intro db_inv_save_user db_inv_alloc) (auto dest: db_inv_fresh_user)
  with None show ?thesis
    by (simp add: findOrCreate_def alloc_oid_def Let_def)
next
  case (Some u)
  with assms show ?thesis by (simp add: findOrCreate_found)
qed

lemma db_inv_find_by_id:
  assumes "db_inv d" and "u \<in> set (users d)"
  shows "find (\<lambda>v. u_id v = u_id u) (users d) = Some u"
  using assms by (auto simp: db_inv_defs intro: find_unique)

end
