(* ===== verification/Session.thy ===== *)
theory Session
  imports Store
begin

text \<open>
  The session manager: \<^verbatim>\<open>passport.serializeUser\<close> and
  \<^verbatim>\<open>passport.deserializeUser\<close> of \<^verbatim>\<open>src/index.js\<close>, and the server-side session
  store behind the session cookie. The store maps a session token to the
  serialized identity; \<open>req_login\<close> binds a fresh token, \<open>req_logout\<close> erases
  the binding of the request's token, \<open>restore\<close> is what the session
  middleware does before every handler.

  Lemmas: login followed by restore yields the serialized user, logout
  followed by restore yields nothing, other tokens are untouched by both, and
  the invariant \<open>sess_inv\<close> (tokens below the counter, one binding per token)
  is kept by both.
\<close>

section \<open>Serialized identity\<close>

text \<open>The object \<^verbatim>\<open>{userId: user.id}\<close> kept in the session and handed to the
  handlers as \<^verbatim>\<open>req.user\<close>.\<close>

record session_user =
  su_userId :: object_id

definition serializeUser :: "user_doc \<Rightarrow> session_user" where
  "serializeUser u = \<lparr>su_userId = u_id u\<rparr>"

definition deserializeUser :: "session_user \<Rightarrow> session_user" where
  "deserializeUser su = su"

section \<open>The session store\<close>

record session_store =
  bindings :: "(token \<times> session_user) list"
  next_token :: token

definition empty_sessions :: session_store where
  "empty_sessions = \<lparr>bindings = [], next_token = 0\<rparr>"

text \<open>What the session middleware computes for a request that carries the
  cookie \<open>c\<close>: the deserialized identity bound to the token, if any.\<close>

definition restore :: "token option \<Rightarrow> session_store \<Rightarrow> session_user option" where
  "restore c ss =
     (case c of
        None \<Rightarrow> None
      | Some t \<Rightarrow> map_option deserializeUser (map_of (bindings ss) t))"

text \<open>\<^verbatim>\<open>req.isAuthenticated()\<close>: whether the middleware set \<^verbatim>\<open>req.user\<close>.\<close>

definition isAuthenticated :: "session_user option \<Rightarrow> bool" where
  "isAuthenticated u = (u \<noteq> None)"

definition drop_binding :: "token option \<Rightarrow> (token \<times> session_user) list
    \<Rightarrow> (token \<times> session_user) list" where
  "drop_binding c bs = (case c of None \<Rightarrow> bs | Some t \<Rightarrow> AList.delete t bs)"

text \<open>
  \<^verbatim>\<open>req.login(user, cb)\<close>: the session is regenerated under a fresh token, the
  serialized user is stored under it, and the token goes to the client.
  \<open>ok = False\<close> is a failing session store, reported to the callback.
\<close>

definition req_login :: "bool \<Rightarrow> user_doc \<Rightarrow> token option \<Rightarrow> session_store
    \<Rightarrow> (token \<times> session_store) result" where
  "req_login ok u c ss =
     (if \<not> ok then Inl StoreUnavailable
      else Inr (next_token ss,
             \<lparr>bindings = (next_token ss, serializeUser u) # drop_binding c (bindings ss),
              next_token = Suc (next_token ss)\<rparr>))"

text \<open>\<^verbatim>\<open>req.logout(cb)\<close>: the identity bound to the request's token is erased.\<close>

definition req_logout :: "bool \<Rightarrow> token option \<Rightarrow> session_store \<Rightarrow> session_store result" where
  "req_logout ok c ss =
     (if \<not> ok then Inl StoreUnavailable
      else Inr (ss\<lparr>bindings := drop_binding c (bindings ss)\<rparr>))"

lemmas [session_defs] =
  serializeUser_def deserializeUser_def restore_def isAuthenticated_def
  drop_binding_def req_login_def req_logout_def

section \<open>Basic facts\<close>

lemma deserialize_serialize [simp]:
  "su_userId (deserializeUser (serializeUser u)) = u_id u"
  by (simp add: serializeUser_def deserializeUser_def)

lemma restore_None [simp]: "restore None ss = None"
  by (simp add: restore_def)

lemma restore_empty [simp]: "restore c empty_sessions = None"
  by (simp add: restore_def empty_sessions_def split: option.splits)

lemma isAuthenticated_simps [simp]:
  "isAuthenticated None = False" "isAuthenticated (Some u) = True"
  by (simp_all add: isAuthenticated_def)

lemma restore_Some_bound:
  "restore c ss = Some su \<Longrightarrow> \<exists>t. c = Some t \<and> (t, su) \<in> set (bindings ss)"
  by (auto simp: restore_def deserializeUser_def split: option.splits dest: map_of_SomeD)

lemma map_of_drop_binding:
  "map_of (drop_binding c bs) t = (if c = Some t then None else map_of bs t)"
  by (cases c) (auto simp: drop_binding_def map_of_delete_iff)

lemma set_drop_binding: "set (drop_binding c bs) \<subseteq> set bs"
  by (cases c) (auto simp: drop_binding_def AList.delete_eq)

lemma fst_set_drop_binding:
  "fst ` set (drop_binding c bs) = fst ` set bs - (case c of None \<Rightarrow> {} | Some t \<Rightarrow> {t})"
  by (cases c) (simp_all add: drop_binding_def fst_set_delete)

lemma distinct_drop_binding:
  "distinct (map fst bs) \<Longrightarrow> distinct (map fst (drop_binding c bs))"
  by (cases c) (simp_all add: drop_binding_def distinct_delete)

lemma drop_binding_unbound:
  "restore c ss = None \<Longrightarrow> drop_binding c (bindings ss) = bindings ss"
  by (cases c) (auto simp: restore_def drop_binding_def map_of_eq_None_iff)

section \<open>Login and logout against restore\<close>

lemma req_login_fail [simp]: "req_login False u c ss = Inl StoreUnavailable"
  by (simp add: req_login_def)

lemma req_logout_fail [simp]: "req_logout False c ss = Inl StoreUnavailable"
  by (simp add: req_logout_def)

lemma req_login_ok: "\<exists>t ss'. req_login True u c ss = Inr (t, ss')"
  by (simp add: req_login_def)

lemma req_login_token:
  "req_login ok u c ss = Inr (t, ss') \<Longrightarrow> t = next_token ss \<and> next_token ss' = Suc t"
  by (auto simp: req_login_def split: if_splits)

lemma restore_after_login:
  assumes "req_login ok u c ss = Inr (t, ss')"
  shows "restore (Some t) ss' = Some (serializeUser u)"
  using assms by (auto simp: req_login_def restore_def deserializeUser_def split: if_splits)

lemma restore_other_after_login:
  assumes "req_login ok u c ss = Inr (t, ss')" and "t' \<noteq> t" and "c \<noteq> Some t'"
  shows "restore (Some t') ss' = restore (Some t') ss"
  using assms
  by (auto simp: req_login_def restore_def map_of_drop_binding split: if_splits)

lemma restore_old_after_login:
  assumes "req_login ok u c ss = Inr (t, ss')" and "c = Some t'" and "t' \<noteq> t"
  shows "restore (Some t') ss' = None"
  using assms
  by (auto simp: req_login_def restore_def map_of_drop_binding split: if_splits)

lemma restore_after_logout:
  assumes "req_logout ok c ss = Inr ss'"
  shows "restore c ss' = None"
  using assms
  by (cases c) (auto simp: req_logout_def restore_def map_of_drop_binding split: if_splits)

lemma restore_other_after_logout:
  assumes "req_logout ok c ss = Inr ss'" and "c \<noteq> Some t'"
  shows "restore (Some t') ss' = restore (Some t') ss"
  using assms
  by (auto simp: req_logout_def restore_def map_of_drop_binding split: if_splits)

section \<open>The session-store invariant\<close>

definition sess_inv :: "session_store \<Rightarrow> bool" where
  "sess_inv ss \<longleftrightarrow>
     (\<forall>t \<in> fst ` set (bindings ss). t < next_token ss) \<and> distinct (map fst (bindings ss))"

lemma sess_inv_empty [simp]: "sess_inv empty_sessions"
  by (simp add: sess_inv_def empty_sessions_def)

lemma sess_inv_fresh: "sess_inv ss \<Longrightarrow> restore (Some (next_token ss)) ss = None"
  by (simp add: sess_inv_def restore_def map_of_fresh)

lemma sess_inv_login [inv_keep]:
  assumes "sess_inv ss" and "req_login ok u c ss = Inr (t, ss')"
  shows "sess_inv ss'"
proof -
  from assms(2) have ss': "ss' = \<lparr>bindings = (next_token ss, serializeUser u)
      # drop_binding c (bindings ss), next_token = Suc (next_token ss)\<rparr>"
    by (auto simp: req_login_def split: if_splits)
  from assms(1) have below: "\<forall>k \<in> fst ` set (drop_binding c (bindings ss)). k < next_token ss"
    by (auto simp: sess_inv_def fst_set_drop_binding)
  then have "next_token ss \<notin> fst ` set (drop_binding c (bindings ss))" by blast
  with assms(1) below show ?thesis
    by (auto simp: ss' sess_inv_def distinct_drop_binding less_Suc_eq)
qed

lemma sess_inv_logout [inv_keep]:
  assumes "sess_inv ss" and "req_logout ok c ss = Inr ss'"
  shows "sess_inv ss'"
proof -
  from assms(2) have ss': "ss' = ss\<lparr>bindings := drop_binding c (bindings ss)\<rparr>"
    by (auto simp: req_logout_def split: if_splits)
  from assms(1) set_drop_binding [of c "bindings ss"] show ?thesis
    by (auto simp: ss' sess_inv_def distinct_drop_binding)
qed

lemma restore_below:
  "sess_inv ss \<Longrightarrow> restore (Some t) ss = Some su \<Longrightarrow> t < next_token ss"
  by (force simp: sess_inv_def dest: restore_Some_bound)

end
