(* ===== verification/Strategy.thy ===== *)
theory Strategy
  imports Store
begin

text \<open>
  The authentication strategies registered with \<^verbatim>\<open>passport.use\<close> in
  \<^verbatim>\<open>src/index.js\<close>: the local credential strategy (\<^verbatim>\<open>User.createStrategy()\<close>
  and \<^verbatim>\<open>User.register\<close>) and the verify callbacks of the Google and Facebook
  strategies, which call \<^verbatim>\<open>User.findOrCreate\<close> with the profile's display name
  and provider id.

  The key-derivation function is a parameter \<open>kdf salt password\<close>; the salt of
  a registration is an input, chosen by the environment.

  Lemmas: every branch of \<open>register\<close> and \<open>authenticate\<close>, registration followed
  by authentication, rejection of a password whose derived key differs,
  repetition of a federated login, and preservation of \<open>db_inv\<close>.
\<close>

section \<open>The local strategy\<close>

type_synonym kdf = "string \<Rightarrow> string \<Rightarrow> string"

definition findByUsername :: "js_string \<Rightarrow> db \<Rightarrow> user_doc option" where
  "findByUsername n d = findOne [(Username, n)] d"

text \<open>A user that holds a password credential with this username.\<close>

definition has_credential :: "js_string \<Rightarrow> user_doc \<Rightarrow> bool" where
  "has_credential n u \<longleftrightarrow> username u = n \<and> hash u \<noteq> None"

text \<open>
  \<open>register kdf ok s n p d\<close>: a document is constructed (taking an object id);
  a missing or empty username or password is refused; a username that already
  has a password credential is refused; otherwise the salt and the derived key
  are set and the document is saved. The plaintext password is not stored.
\<close>

definition register :: "kdf \<Rightarrow> bool \<Rightarrow> string \<Rightarrow> js_string \<Rightarrow> js_string \<Rightarrow> db
    \<Rightarrow> user_doc result \<times> db" where
  "register k ok s n p d =
     (let (i, d1) = alloc_oid d in
      case (n, p) of
        (Some nm, Some pw) \<Rightarrow>
          if nm = [] \<or> pw = [] then (Inl MissingCredentials, d1)
          else if \<not> ok then (Inl StoreUnavailable, d1)
          else if list_ex (has_credential n) (users d1) then (Inl DuplicateUsername, d1)
          else
            (let u = (blank_user i)\<lparr>username := n, salt := Some s, hash := Some (k s pw)\<rparr>
             in (Inr u, save_user u d1))
      | _ \<Rightarrow> (Inl MissingCredentials, d1))"

text \<open>Whether the stored credential of \<open>u\<close> accepts the password.\<close>

definition check_password :: "kdf \<Rightarrow> user_doc \<Rightarrow> string \<Rightarrow> bool" where
  "check_password k u pw =
     (case (salt u, hash u) of
        (Some s, Some h) \<Rightarrow> k s pw = h
      | _ \<Rightarrow> False)"

text \<open>
  \<open>authenticate kdf ok n p d\<close>: the verify function of the local strategy.
  Missing fields are refused before the store is consulted; the user is the
  first document with the username; an unknown user, a user without a
  credential and a wrong password all give \<open>InvalidCredentials\<close>.
\<close>

definition authenticate :: "kdf \<Rightarrow> bool \<Rightarrow> js_string \<Rightarrow> js_string \<Rightarrow> db
    \<Rightarrow> user_doc result" where
  "authenticate k ok n p d =
     (case (n, p) of
        (Some nm, Some pw) \<Rightarrow>
          if nm = [] \<or> pw = [] then Inl MissingCredentials
          else if \<not> ok then Inl StoreUnavailable
          else (case findByUsername n d of
                  None \<Rightarrow> Inl InvalidCredentials
                | Some u \<Rightarrow>
                    if check_password k u pw then Inr u else Inl InvalidCredentials)
      | _ \<Rightarrow> Inl MissingCredentials)"

section \<open>The federated strategies\<close>

text \<open>The part of an OAuth profile the verify callbacks read:
  \<^verbatim>\<open>profile.displayName\<close> and \<^verbatim>\<open>profile.id\<close>.\<close>

record profile =
  displayName :: js_string
  profile_id :: js_string

text \<open>\<^verbatim>\<open>User.findOrCreate(conditions, function (err, user) {...})\<close> as the
  callback sees it: an error, or the found or created user.\<close>

definition User_findOrCreate :: "bool \<Rightarrow> conditions \<Rightarrow> db \<Rightarrow> user_doc result \<times> db" where
  "User_findOrCreate ok c d =
     (if \<not> ok then (Inl StoreUnavailable, d)
      else (Inr (fst (fst (findOrCreate c d))), snd (findOrCreate c d)))"

definition google_conditions :: "profile \<Rightarrow> conditions" where
  "google_conditions pr = [(Username, displayName pr), (GoogleId, profile_id pr)]"

definition facebook_conditions :: "profile \<Rightarrow> conditions" where
  "facebook_conditions pr = [(Username, displayName pr), (FacebookId, profile_id pr)]"

definition google_verify :: "bool \<Rightarrow> profile \<Rightarrow> db \<Rightarrow> user_doc result \<times> db" where
  "google_verify ok pr d = User_findOrCreate ok (google_conditions pr) d"

definition facebook_verify :: "bool \<Rightarrow> profile \<Rightarrow> db \<Rightarrow> user_doc result \<times> db" where
  "facebook_verify ok pr d = User_findOrCreate ok (facebook_conditions pr) d"

lemmas [strategy_defs] =
  findByUsername_def has_credential_def register_def check_password_def
  authenticate_def User_findOrCreate_def google_conditions_def
  facebook_conditions_def google_verify_def facebook_verify_def

section \<open>Branches of \<open>register\<close>\<close>

lemma register_missing:
  "\<not> truthy n \<or> \<not> truthy p \<Longrightarrow> fst (register k ok s n p d) = Inl MissingCredentials"
  by (cases n; cases p) (auto simp: register_def alloc_oid_def)

lemma register_unavailable:
  "truthy n \<Longrightarrow> truthy p \<Longrightarrow> fst (register k False s n p d) = Inl StoreUnavailable"
  by (cases n; cases p) (auto simp: register_def alloc_oid_def)

lemma register_duplicate:
  assumes "truthy n" and "truthy p" and "u \<in> set (users d)" and "has_credential n u"
  shows "fst (register k True s n p d) = Inl DuplicateUsername"
  using assms
  by (cases n; cases p) (auto simp: register_def alloc_oid_def list_ex_iff)

text \<open>The document a successful registration stores.\<close>

definition registered_doc :: "kdf \<Rightarrow> string \<Rightarrow> js_string \<Rightarrow> string \<Rightarrow> object_id \<Rightarrow> user_doc" where
  "registered_doc k s n pw i =
     (blank_user i)\<lparr>username := n, salt := Some s, hash := Some (k s pw)\<rparr>"

lemma register_success:
  assumes "truthy n" and "p = Some pw" and "pw \<noteq> []"
    and "\<forall>u \<in> set (users d). \<not> has_credential n u"
  shows "register k True s n p d =
     (Inr (registered_doc k s n pw (next_oid d)),
      d\<lparr>next_oid := Suc (next_oid d),
        users := users d @ [registered_doc k s n pw (next_oid d)]\<rparr>)"
  using assms
  by (cases n)
     (auto simp: register_def alloc_oid_def list_ex_iff registered_doc_def save_user_def Let_def)

lemma register_Inr_iff:
  "(\<exists>u. fst (register k ok s n p d) = Inr u) \<longleftrightarrow>
     truthy n \<and> truthy p \<and> ok \<and> (\<forall>u \<in> set (users d). \<not> has_credential n u)"
  by (cases n; cases p)
     (auto simp: register_def alloc_oid_def list_ex_iff Let_def)

lemma register_error_keeps_docs:
  "fst (register k ok s n p d) = Inl e \<Longrightarrow>
   users (snd (register k ok s n p d)) = users d"
  by (cases n; cases p)
     (auto simp: register_def alloc_oid_def Let_def split: if_splits)

lemma register_secrets [frame, simp]:
  "secrets (snd (register k ok s n p d)) = secrets d"
  by (cases n; cases p)
     (auto simp: register_def alloc_oid_def Let_def save_user_def)

lemma register_next_oid [frame, simp]:
  "next_oid (snd (register k ok s n p d)) = Suc (next_oid d)"
  by (cases n; cases p)
     (auto simp: register_def alloc_oid_def Let_def save_user_def)

lemma register_users:
  "users (snd (register k ok s n p d)) =
     (case fst (register k ok s n p d) of
        Inl _ \<Rightarrow> users d | Inr u \<Rightarrow> users d @ [u])"
  by (cases n; cases p)
     (auto simp: register_def alloc_oid_def Let_def save_user_def)

lemma register_Inr_doc:
  assumes "fst (register k ok s n p d) = Inr u"
  shows "u_id u = next_oid d \<and> username u = n \<and> password u = None
     \<and> salt u = Some s \<and> (\<exists>pw. p = Some pw \<and> hash u = Some (k s pw))
     \<and> googleId u = None \<and> facebookId u = None"
  using assms
  by (cases n; cases p)
     (auto simp: register_def alloc_oid_def Let_def split: if_splits)

section \<open>Branches of \<open>authenticate\<close>\<close>

lemma authenticate_missing:
  "\<not> truthy n \<or> \<not> truthy p \<Longrightarrow> authenticate k ok n p d = Inl MissingCredentials"
  by (cases n; cases p) (auto simp: authenticate_def)

lemma authenticate_unavailable:
  "truthy n \<Longrightarrow> truthy p \<Longrightarrow> authenticate k False n p d = Inl StoreUnavailable"
  by (cases n; cases p) (auto simp: authenticate_def)

lemma authenticate_unknown:
  assumes "truthy n" and "truthy p" and "findByUsername n d = None"
  shows "authenticate k True n p d = Inl InvalidCredentials"
  using assms by (cases n; cases p) (auto simp: authenticate_def)

lemma authenticate_known:
  assumes "truthy n" and "p = Some pw" and "pw \<noteq> []" and "findByUsername n d = Some u"
  shows "authenticate k True n p d =
     (if check_password k u pw then Inr u else Inl InvalidCredentials)"
  using assms by (cases n) (auto simp: authenticate_def)

lemma authenticate_InrD:
  assumes "authenticate k ok n p d = Inr u"
  shows "u \<in> set (users d) \<and> username u = n \<and> truthy n
     \<and> (\<exists>pw. p = Some pw \<and> pw \<noteq> [] \<and> check_password k u pw)"
  using assms
  by (cases n; cases p)
     (auto simp: authenticate_def findByUsername_def matches_def
           split: if_splits option.splits dest!: findOne_SomeD)

lemma authenticate_wrong_password:
  assumes "findByUsername n d = Some u" and "\<not> check_password k u pw"
  shows "authenticate k ok n (Some pw) d \<noteq> Inr v"
  using assms by (cases n) (auto simp: authenticate_def)

lemma check_password_registered [simp]:
  "check_password k (registered_doc k s n pw i) pw' \<longleftrightarrow> k s pw' = k s pw"
  by (simp add: check_password_def registered_doc_def)

lemma findByUsername_snoc:
  "findByUsername n (d\<lparr>next_oid := j, users := users d @ [u]\<rparr>) =
     (case findByUsername n d of
        Some v \<Rightarrow> Some v
      | None \<Rightarrow> if username u = n then Some u else None)"
  by (simp add: findByUsername_def findOne_def find_append matches_def
           split: option.splits)

section \<open>The store invariant\<close>

lemma db_inv_register [inv_keep]:
  assumes "db_inv d"
  shows "db_inv (snd (register k ok s n p d))"
proof (cases "fst (register k ok s n p d)")
  case (Inl e)
  with assms show ?thesis
    by (auto simp: db_inv_defs register_users less_Suc_eq)
next
  case (Inr u)
  with assms register_Inr_doc [OF Inr] show ?thesis
    by (auto simp: db_inv_defs register_users less_Suc_eq)
qed

lemma db_inv_User_findOrCreate [inv_keep]:
  "db_inv d \<Longrightarrow> db_inv (snd (User_findOrCreate ok c d))"
  by (simp add: User_findOrCreate_def db_inv_findOrCreate)

lemma db_inv_google_verify [inv_keep]:
  "db_inv d \<Longrightarrow> db_inv (snd (google_verify ok pr d))"
  by (simp add: google_verify_def db_inv_User_findOrCreate)

lemma db_inv_facebook_verify [inv_keep]:
  "db_inv d \<Longrightarrow> db_inv (snd (facebook_verify ok pr d))"
  by (simp add: facebook_verify_def db_inv_User_findOrCreate)

section \<open>Federated logins\<close>

lemma verify_secrets [frame, simp]:
  "secrets (snd (google_verify ok pr d)) = secrets d"
  "secrets (snd (facebook_verify ok pr d)) = secrets d"
  by (simp_all add: google_verify_def facebook_verify_def User_findOrCreate_def)

lemma verify_fail [simp]:
  "google_verify False pr d = (Inl StoreUnavailable, d)"
  "facebook_verify False pr d = (Inl StoreUnavailable, d)"
  by (simp_all add: google_verify_def facebook_verify_def User_findOrCreate_def)

lemma User_findOrCreate_twice:
  assumes "distinct (map fst c)"
  shows "fst (User_findOrCreate True c (snd (User_findOrCreate True c d)))
       = fst (User_findOrCreate True c d)"
    and "snd (User_findOrCreate True c (snd (User_findOrCreate True c d)))
       = snd (User_findOrCreate True c d)"
  using findOne_after_findOrCreate [OF assms, of d]
  by (simp_all add: User_findOrCreate_def findOrCreate_found)

lemma verify_Inr_stored:
  "fst (User_findOrCreate ok c d) = Inr u \<Longrightarrow> u \<in> set (users (snd (User_findOrCreate ok c d)))"
  by (auto simp: User_findOrCreate_def findOrCreate_result_stored split: if_splits)

text \<open>With the store up a verify callback always yields a stored user that
  carries the name and the provider id of the profile.\<close>

lemma google_verify_user:
  "\<exists>u. fst (google_verify True pr d) = Inr u \<and> username u = displayName pr
       \<and> googleId u = profile_id pr \<and> u \<in> set (users (snd (google_verify True pr d)))"
  using findOrCreate_result_matches [of "google_conditions pr" d]
  by (simp add: google_verify_def User_findOrCreate_def findOrCreate_result_stored
        google_conditions_def matches_def)

lemma facebook_verify_user:
  "\<exists>u. fst (facebook_verify True pr d) = Inr u \<and> username u = displayName pr
       \<and> facebookId u = profile_id pr \<and> u \<in> set (users (snd (facebook_verify True pr d)))"
  using findOrCreate_result_matches [of "facebook_conditions pr" d]
  by (simp add: facebook_verify_def User_findOrCreate_def findOrCreate_result_stored
        facebook_conditions_def matches_def)

end
