(* ===== verification/Routes.thy ===== *)
theory Routes
  imports Session Strategy
begin

text \<open>
  The HTTP surface of \<^verbatim>\<open>src/index.js\<close>: the request as a handler sees it, the
  response, the server state (database and session store), the session
  middleware installed at the top of the file, the \<^verbatim>\<open>passport.authenticate\<close>
  middleware for the three strategies, one definition per \<^verbatim>\<open>app.get\<close> or
  \<^verbatim>\<open>app.post\<close> handler in the order of the file, and the router \<open>handle\<close>
  that runs the middleware and dispatches on method and path.

  What the external collaborators do during one request (whether the
  database and the session store answer, the salt drawn for a registration,
  the profile an OAuth exchange produced) is an input of type \<open>outcome\<close>.

  Lemmas: the reply and state change of every handler on every branch, the
  frame of the read-only handlers, and preservation of the server invariant
  by every handler and hence by \<open>handle\<close>.
\<close>

section \<open>Requests, responses, server state\<close>

datatype http_method = GET | POST

text \<open>The fields of \<^verbatim>\<open>req.body\<close> the handlers read.\<close>

record body =
  b_username :: js_string
  b_password :: js_string
  b_secret :: js_string
  b_superPassword :: js_string

definition empty_body :: body where
  "empty_body = \<lparr>b_username = None, b_password = None, b_secret = None,
     b_superPassword = None\<rparr>"

text \<open>\<open>cookie\<close> is the session token the client sent; \<open>req_user\<close> is
  \<^verbatim>\<open>req.user\<close>, written by the session middleware only.\<close>

record req =
  req_method :: http_method
  req_path :: string
  cookie :: "token option"
  req_user :: "session_user option"
  req_body :: body

text \<open>The entries of \<^verbatim>\<open>process.env\<close> that decide behaviour.\<close>

record config =
  SESSION_SECRET :: js_string
  SUPER_SECRET_PASSWORD :: js_string
  SUPER_SECRET_MESSAGE :: js_string

record outcome =
  db_ok :: bool
  session_ok :: bool
  fresh_salt :: string
  oauth :: "profile option"

datatype provider = Google | Facebook

datatype view_data = NoData | Secrets "secret_doc list" | Content js_string

text \<open>\<open>Render v d\<close> is \<^verbatim>\<open>res.render(v, d)\<close>, \<open>Redirect l\<close> is \<^verbatim>\<open>res.redirect(l)\<close>
  with the location as written, \<open>ToProvider\<close> the redirect to a consent
  screen, \<open>Status n\<close> a bare status response, \<open>NoReply\<close> a request that is
  never answered.\<close>

datatype reply =
    Render string view_data
  | Redirect string
  | ToProvider provider
  | Status nat
  | NoReply

record response =
  reply :: reply
  set_cookie :: "token option"

record server =
  store :: db
  sessions :: session_store

definition init_server :: server where
  "init_server = \<lparr>store = empty_db, sessions = empty_sessions\<rparr>"

definition respond :: "reply \<Rightarrow> server \<Rightarrow> response \<times> server" where
  "respond rp s = (\<lparr>reply = rp, set_cookie = None\<rparr>, s)"

section \<open>Middleware\<close>

text \<open>\<^verbatim>\<open>app.use(session(...))\<close>, \<^verbatim>\<open>passport.initialize()\<close> and
  \<^verbatim>\<open>passport.session()\<close>: before any handler runs, \<^verbatim>\<open>req.user\<close> becomes the
  identity bound to the request's cookie, or stays undefined.\<close>

definition session_middleware :: "req \<Rightarrow> server \<Rightarrow> req" where
  "session_middleware r s = r\<lparr>req_user := restore (cookie r) (sessions s)\<rparr>"

text \<open>
  \<^verbatim>\<open>passport.authenticate("local")\<close> with no options. \<open>Inl\<close> is the reply with
  which the middleware ends the request (400 for missing credentials, 401 for
  rejected ones, 500 for an error); \<open>Inr t\<close> is a completed login under the
  token \<open>t\<close>, after which the next function runs.
\<close>

definition authenticate_local :: "kdf \<Rightarrow> outcome \<Rightarrow> req \<Rightarrow> server
    \<Rightarrow> (reply + token) \<times> server" where
  "authenticate_local k x r s =
     (case authenticate k (db_ok x) (b_username (req_body r)) (b_password (req_body r))
             (store s) of
        Inl MissingCredentials \<Rightarrow> (Inl (Status 400), s)
      | Inl InvalidCredentials \<Rightarrow> (Inl (Status 401), s)
      | Inl _ \<Rightarrow> (Inl (Status 500), s)
      | Inr u \<Rightarrow>
          (case req_login (session_ok x) u (cookie r) (sessions s) of
             Inl _ \<Rightarrow> (Inl (Status 500), s)
           | Inr (t, ss) \<Rightarrow> (Inr t, s\<lparr>sessions := ss\<rparr>)))"

definition verify :: "provider \<Rightarrow> bool \<Rightarrow> profile \<Rightarrow> db \<Rightarrow> user_doc result \<times> db" where
  "verify pv = (case pv of Google \<Rightarrow> google_verify | Facebook \<Rightarrow> facebook_verify)"

text \<open>
  \<^verbatim>\<open>passport.authenticate(provider, {failureRedirect: l})\<close> on a callback
  route: without a profile the request is redirected to \<open>l\<close>; with one the
  verify callback runs and its user is logged in.
\<close>

definition authenticate_oauth :: "provider \<Rightarrow> string \<Rightarrow> outcome \<Rightarrow> req \<Rightarrow> server
    \<Rightarrow> (reply + token) \<times> server" where
  "authenticate_oauth pv l x r s =
     (case oauth x of
        None \<Rightarrow> (Inl (Redirect l), s)
      | Some pr \<Rightarrow>
          (case verify pv (db_ok x) pr (store s) of
             (Inl _, d) \<Rightarrow> (Inl (Status 500), s\<lparr>store := d\<rparr>)
           | (Inr u, d) \<Rightarrow>
               (case req_login (session_ok x) u (cookie r) (sessions s) of
                  Inl _ \<Rightarrow> (Inl (Status 500), s\<lparr>store := d\<rparr>)
                | Inr (t, ss) \<Rightarrow> (Inr t, \<lparr>store = d, sessions = ss\<rparr>))))"

text \<open>The handler that follows an authenticating middleware: it runs only
  after a login and redirects to \<open>l\<close>, with the new cookie.\<close>

definition then_redirect :: "string \<Rightarrow> (reply + token) \<times> server \<Rightarrow> response \<times> server" where
  "then_redirect l m =
     (case m of
        (Inl rp, s) \<Rightarrow> (\<lparr>reply = rp, set_cookie = None\<rparr>, s)
      | (Inr t, s) \<Rightarrow> (\<lparr>reply = Redirect l, set_cookie = Some t\<rparr>, s))"

section \<open>Route handlers\<close>

definition get_root :: "req \<Rightarrow> server \<Rightarrow> response \<times> server" where
  "get_root r s = respond (Render ''home'' NoData) s"

definition get_auth_google :: "req \<Rightarrow> server \<Rightarrow> response \<times> server" where
  "get_auth_google r s = respond (ToProvider Google) s"

definition get_auth_google_secrets :: "outcome \<Rightarrow> req \<Rightarrow> server \<Rightarrow> response \<times> server" where
  "get_auth_google_secrets x r s =
     then_redirect ''/secrets'' (authenticate_oauth Google ''/login'' x r s)"

definition get_auth_facebook :: "req \<Rightarrow> server \<Rightarrow> response \<times> server" where
  "get_auth_facebook r s = respond (ToProvider Facebook) s"

definition get_auth_facebook_secrets :: "outcome \<Rightarrow> req \<Rightarrow> server \<Rightarrow> response \<times> server" where
  "get_auth_facebook_secrets x r s =
     then_redirect ''/secrets'' (authenticate_oauth Facebook ''/login'' x r s)"

definition get_register :: "req \<Rightarrow> server \<Rightarrow> response \<times> server" where
  "get_register r s = respond (Render ''register'' NoData) s"

definition get_login :: "req \<Rightarrow> server \<Rightarrow> response \<times> server" where
  "get_login r s = respond (Render ''login'' NoData) s"

definition get_submit :: "req \<Rightarrow> server \<Rightarrow> response \<times> server" where
  "get_submit r s =
     (if isAuthenticated (req_user r) then respond (Render ''submit'' NoData) s
      else respond (Redirect ''/login'') s)"

definition get_secrets :: "outcome \<Rightarrow> req \<Rightarrow> server \<Rightarrow> response \<times> server" where
  "get_secrets x r s =
     (if isAuthenticated (req_user r) then
        (if db_ok x then respond (Render ''secrets'' (Secrets (find_secrets (store s)))) s
         else respond (Redirect ''/'') s)
      else respond (Redirect ''/login'') s)"

definition post_register :: "kdf \<Rightarrow> outcome \<Rightarrow> req \<Rightarrow> server \<Rightarrow> response \<times> server" where
  "post_register k x r s =
     (case register k (db_ok x) (fresh_salt x) (b_username (req_body r))
             (b_password (req_body r)) (store s) of
        (Inl _, d) \<Rightarrow> respond (Redirect ''/register'') (s\<lparr>store := d\<rparr>)
      | (Inr _, d) \<Rightarrow>
          then_redirect ''/secrets'' (authenticate_local k x r (s\<lparr>store := d\<rparr>)))"

definition post_submit :: "outcome \<Rightarrow> req \<Rightarrow> server \<Rightarrow> response \<times> server" where
  "post_submit x r s =
     (case req_user r of
        None \<Rightarrow> respond (Status 500) s
      | Some su \<Rightarrow>
          (let (i, d) = alloc_oid (store s);
               newSecret = \<lparr>s_id = i, secret = b_secret (req_body r),
                            userId = Some (su_userId su)\<rparr>
           in if db_ok x then respond (Redirect ''/secrets'') (s\<lparr>store := save_secret newSecret d\<rparr>)
              else respond (Redirect ''/submit'') (s\<lparr>store := d\<rparr>)))"

definition post_login :: "kdf \<Rightarrow> outcome \<Rightarrow> req \<Rightarrow> server \<Rightarrow> response \<times> server" where
  "post_login k x r s =
     (let (i, d) = alloc_oid (store s);
          user = (blank_user i)\<lparr>username := b_username (req_body r),
                                password := b_password (req_body r)\<rparr>
      in case req_login (session_ok x) user (cookie r) (sessions s) of
           Inl _ \<Rightarrow> respond (Redirect ''register'') (s\<lparr>store := d\<rparr>)
         | Inr (t, ss) \<Rightarrow>
             (case authenticate_local k x (r\<lparr>cookie := Some t\<rparr>)
                     \<lparr>store = d, sessions = ss\<rparr> of
                (Inl rp, s') \<Rightarrow> (\<lparr>reply = rp, set_cookie = Some t\<rparr>, s')
              | (Inr t', s') \<Rightarrow> (\<lparr>reply = Redirect ''/secrets'', set_cookie = Some t'\<rparr>, s')))"

definition get_logout :: "outcome \<Rightarrow> req \<Rightarrow> server \<Rightarrow> response \<times> server" where
  "get_logout x r s =
     (case req_logout (session_ok x) (cookie r) (sessions s) of
        Inl _ \<Rightarrow> respond NoReply s
      | Inr ss \<Rightarrow> respond (Redirect ''/'') (s\<lparr>sessions := ss\<rparr>))"

definition get_password :: "req \<Rightarrow> server \<Rightarrow> response \<times> server" where
  "get_password r s =
     (if isAuthenticated (req_user r) then respond (Render ''password'' NoData) s
      else respond (Redirect ''login'') s)"

definition post_password :: "config \<Rightarrow> req \<Rightarrow> server \<Rightarrow> response \<times> server" where
  "post_password cfg r s =
     (if strict_eq (SUPER_SECRET_PASSWORD cfg) (b_superPassword (req_body r))
      then respond (Render ''superSecret'' (Content (SUPER_SECRET_MESSAGE cfg))) s
      else respond (Redirect ''/password'') s)"

lemmas [handler_defs] =
  respond_def then_redirect_def get_root_def get_auth_google_def
  get_auth_google_secrets_def get_auth_facebook_def get_auth_facebook_secrets_def
  get_register_def get_login_def get_submit_def get_secrets_def post_register_def
  post_submit_def post_login_def get_logout_def get_password_def post_password_def

section \<open>The router\<close>

datatype route =
    GetRoot | GetAuthGoogle | GetAuthGoogleSecrets | GetAuthFacebook
  | GetAuthFacebookSecrets | GetRegister | GetLogin | GetSubmit | GetSecrets
  | PostRegister | PostSubmit | PostLogin | GetLogout | GetPassword | PostPassword

text \<open>The routes in the order they are registered; the first match wins.\<close>

definition route_table :: "((http_method \<times> string) \<times> route) list" where
  "route_table =
     [((GET, ''/''), GetRoot),
      ((GET, ''/auth/google''), GetAuthGoogle),
      ((GET, ''/auth/google/secrets''), GetAuthGoogleSecrets),
      ((GET, ''/auth/facebook''), GetAuthFacebook),
      ((GET, ''/auth/facebook/secrets''), GetAuthFacebookSecrets),
      ((GET, ''/register''), GetRegister),
      ((GET, ''/login''), GetLogin),
      ((GET, ''/submit''), GetSubmit),
      ((GET, ''/secrets''), GetSecrets),
      ((POST, ''/register''), PostRegister),
      ((POST, ''/submit''), PostSubmit),
      ((POST, ''/login''), PostLogin),
      ((GET, ''/logout''), GetLogout),
      ((GET, ''/password''), GetPassword),
      ((POST, ''/password''), PostPassword)]"

definition route_of :: "http_method \<Rightarrow> string \<Rightarrow> route option" where
  "route_of m p = map_of route_table (m, p)"

fun dispatch :: "route \<Rightarrow> kdf \<Rightarrow> config \<Rightarrow> outcome \<Rightarrow> req \<Rightarrow> server \<Rightarrow> response \<times> server" where
  "dispatch GetRoot k cfg x r s = get_root r s"
| "dispatch GetAuthGoogle k cfg x r s = get_auth_google r s"
| "dispatch GetAuthGoogleSecrets k cfg x r s = get_auth_google_secrets x r s"
| "dispatch GetAuthFacebook k cfg x r s = get_auth_facebook r s"
| "dispatch GetAuthFacebookSecrets k cfg x r s = get_auth_facebook_secrets x r s"
| "dispatch GetRegister k cfg x r s = get_register r s"
| "dispatch GetLogin k cfg x r s = get_login r s"
| "dispatch GetSubmit k cfg x r s = get_submit r s"
| "dispatch GetSecrets k cfg x r s = get_secrets x r s"
| "dispatch PostRegister k cfg x r s = post_register k x r s"
| "dispatch PostSubmit k cfg x r s = post_submit x r s"
| "dispatch PostLogin k cfg x r s = post_login k x r s"
| "dispatch GetLogout k cfg x r s = get_logout x r s"
| "dispatch GetPassword k cfg x r s = get_password r s"
| "dispatch PostPassword k cfg x r s = post_password cfg r s"

text \<open>One request against the server: the session middleware, then the
  handler of the matching route, or 404.\<close>

definition handle :: "kdf \<Rightarrow> config \<Rightarrow> outcome \<Rightarrow> req \<Rightarrow> server \<Rightarrow> response \<times> server" where
  "handle k cfg x r s =
     (case route_of (req_method r) (req_path r) of
        None \<Rightarrow> respond (Status 404) s
      | Some rt \<Rightarrow> dispatch rt k cfg x (session_middleware r s) s)"

section \<open>Replies and their state\<close>

lemma respond_simps [simp]:
  "fst (respond rp s) = \<lparr>reply = rp, set_cookie = None\<rparr>"
  "snd (respond rp s) = s"
  by (simp_all add: respond_def)

lemma then_redirect_simps [simp]:
  "then_redirect l (Inl rp, s) = (\<lparr>reply = rp, set_cookie = None\<rparr>, s)"
  "then_redirect l (Inr t, s) = (\<lparr>reply = Redirect l, set_cookie = Some t\<rparr>, s)"
  by (simp_all add: then_redirect_def)

lemma snd_then_redirect [simp]: "snd (then_redirect l m) = snd m"
  by (cases m; cases "fst m") (auto simp: then_redirect_def)

lemma then_redirect_cookie:
  "set_cookie (fst (then_redirect l m)) = (case fst m of Inl _ \<Rightarrow> None | Inr t \<Rightarrow> Some t)"
  by (cases m; cases "fst m") (auto simp: then_redirect_def)

lemma then_redirect_reply:
  "reply (fst (then_redirect l m)) = (case fst m of Inl rp \<Rightarrow> rp | Inr _ \<Rightarrow> Redirect l)"
  by (cases m; cases "fst m") (auto simp: then_redirect_def)

lemma session_middleware_simps [simp]:
  "req_user (session_middleware r s) = restore (cookie r) (sessions s)"
  "cookie (session_middleware r s) = cookie r"
  "req_body (session_middleware r s) = req_body r"
  "req_method (session_middleware r s) = req_method r"
  "req_path (session_middleware r s) = req_path r"
  by (simp_all add: session_middleware_def)

section \<open>The authenticating middleware\<close>

text \<open>A completed local login: the credentials verified against the store
  and the verified user bound to the returned token.\<close>

lemma authenticate_local_Inr:
  assumes "fst (authenticate_local k x r s) = Inr t"
  shows "\<exists>u. authenticate k (db_ok x) (b_username (req_body r)) (b_password (req_body r))
               (store s) = Inr u
           \<and> req_login (session_ok x) u (cookie r) (sessions s)
               = Inr (t, sessions (snd (authenticate_local k x r s)))
           \<and> store (snd (authenticate_local k x r s)) = store s"
  using assms
  by (auto simp: authenticate_local_def split: sum.splits error.splits prod.splits)

lemma authenticate_local_Inl:
  assumes "fst (authenticate_local k x r s) = Inl rp"
  shows "snd (authenticate_local k x r s) = s \<and> rp \<in> {Status 400, Status 401, Status 500}"
  using assms
  by (auto simp: authenticate_local_def split: sum.splits error.splits prod.splits)

lemma authenticate_local_store [frame, simp]:
  "store (snd (authenticate_local k x r s)) = store s"
  by (auto simp: authenticate_local_def split: sum.splits error.splits prod.splits)

lemma authenticate_local_rejects:
  assumes "authenticate k (db_ok x) (b_username (req_body r)) (b_password (req_body r))
             (store s) = Inl InvalidCredentials"
  shows "authenticate_local k x r s = (Inl (Status 401), s)"
  using assms by (simp add: authenticate_local_def)

lemma authenticate_local_accepts:
  assumes "authenticate k (db_ok x) (b_username (req_body r)) (b_password (req_body r))
             (store s) = Inr u" and "session_ok x"
  shows "authenticate_local k x r s =
     (Inr (next_token (sessions s)),
      s\<lparr>sessions := \<lparr>bindings = (next_token (sessions s), serializeUser u)
                         # drop_binding (cookie r) (bindings (sessions s)),
                       next_token = Suc (next_token (sessions s))\<rparr>\<rparr>)"
  using assms by (simp add: authenticate_local_def req_login_def)

lemma verify_secrets_frame [frame, simp]:
  "secrets (snd (verify pv ok pr d)) = secrets d"
  by (cases pv) (simp_all add: verify_def)

lemma db_inv_verify [inv_keep]: "db_inv d \<Longrightarrow> db_inv (snd (verify pv ok pr d))"
  by (cases pv) (simp_all add: verify_def db_inv_google_verify db_inv_facebook_verify)

lemma verify_Inr_in_store:
  "fst (verify pv ok pr d) = Inr u \<Longrightarrow> u \<in> set (users (snd (verify pv ok pr d)))"
  by (cases pv)
     (auto simp: verify_def google_verify_def facebook_verify_def dest: verify_Inr_stored)

lemma authenticate_oauth_denied:
  "oauth x = None \<Longrightarrow> authenticate_oauth pv l x r s = (Inl (Redirect l), s)"
  by (simp add: authenticate_oauth_def)

lemma authenticate_oauth_Inr:
  assumes "fst (authenticate_oauth pv l x r s) = Inr t"
  shows "\<exists>pr u. oauth x = Some pr \<and> fst (verify pv (db_ok x) pr (store s)) = Inr u
           \<and> store (snd (authenticate_oauth pv l x r s)) = snd (verify pv (db_ok x) pr (store s))
           \<and> req_login (session_ok x) u (cookie r) (sessions s)
               = Inr (t, sessions (snd (authenticate_oauth pv l x r s)))"
  using assms
  by (auto simp: authenticate_oauth_def split: option.splits sum.splits prod.splits)

lemma authenticate_oauth_sessions_Inl:
  "fst (authenticate_oauth pv l x r s) = Inl rp \<Longrightarrow>
   sessions (snd (authenticate_oauth pv l x r s)) = sessions s"
  by (auto simp: authenticate_oauth_def split: option.splits sum.splits prod.splits)

lemma authenticate_oauth_store:
  "store (snd (authenticate_oauth pv l x r s)) =
     (case oauth x of None \<Rightarrow> store s | Some pr \<Rightarrow> snd (verify pv (db_ok x) pr (store s)))"
  by (auto simp: authenticate_oauth_def split: option.splits sum.splits prod.splits)

end
