(* ===== verification/Route_Behaviour.thy ===== *)
theory Route_Behaviour
  imports Routes
begin

text \<open>
  What each route handler of \<^verbatim>\<open>src/index.js\<close> replies and how it changes the
  server, branch by branch: the guarded pages, secret submission, local
  login and registration, logout, the extra password gate, the OAuth
  callbacks, and the router's table. The lemmas here are the interface the
  invariant proofs and the end-to-end theorems use; none of them unfolds a
  handler again.
\<close>

section \<open>The routing table\<close>

lemma route_of_simps [simp]:
  "route_of GET ''/'' = Some GetRoot"
  "route_of GET ''/auth/google'' = Some GetAuthGoogle"
  "route_of GET ''/auth/google/secrets'' = Some GetAuthGoogleSecrets"
  "route_of GET ''/auth/facebook'' = Some GetAuthFacebook"
  "route_of GET ''/auth/facebook/secrets'' = Some GetAuthFacebookSecrets"
  "route_of GET ''/register'' = Some GetRegister"
  "route_of GET ''/login'' = Some GetLogin"
  "route_of GET ''/submit'' = Some GetSubmit"
  "route_of GET ''/secrets'' = Some GetSecrets"
  "route_of POST ''/register'' = Some PostRegister"
  "route_of POST ''/submit'' = Some PostSubmit"
  "route_of POST ''/login'' = Some PostLogin"
  "route_of GET ''/logout'' = Some GetLogout"
  "route_of GET ''/password'' = Some GetPassword"
  "route_of POST ''/password'' = Some PostPassword"
  by (simp_all add: route_of_def route_table_def)

lemma route_table_distinct: "distinct (map fst route_table)"
  by (simp add: route_table_def)

lemma route_of_SomeD: "route_of m p = Some rt \<Longrightarrow> ((m, p), rt) \<in> set route_table"
  by (auto simp: route_of_def dest: map_of_SomeD)

lemma route_of_surj: "\<exists>m p. route_of m p = Some rt"
  by (cases rt) (blast intro: route_of_simps)+

lemma handle_route:
  "route_of (req_method r) (req_path r) = Some rt \<Longrightarrow>
   handle k cfg x r s = dispatch rt k cfg x (session_middleware r s) s"
  by (simp add: handle_def)

lemma handle_no_route:
  "route_of (req_method r) (req_path r) = None \<Longrightarrow>
   handle k cfg x r s = respond (Status 404) s"
  by (simp add: handle_def)

section \<open>Pages behind the authentication check\<close>

lemma get_submit_cases:
  "get_submit r s =
     respond (if req_user r = None then Redirect ''/login'' else Render ''submit'' NoData) s"
  by (simp add: get_submit_def isAuthenticated_def)

lemma get_password_cases:
  "get_password r s =
     respond (if req_user r = None then Redirect ''login'' else Render ''password'' NoData) s"
  by (simp add: get_password_def isAuthenticated_def)

lemma get_secrets_cases:
  "get_secrets x r s =
     respond (if req_user r = None then Redirect ''/login''
              else if db_ok x then Render ''secrets'' (Secrets (secrets (store s)))
              else Redirect ''/'') s"
  by (simp add: get_secrets_def isAuthenticated_def find_secrets_def)

lemma guarded_get_state [frame, simp]:
  "snd (get_submit r s) = s"
  "snd (get_password r s) = s"
  "snd (get_secrets x r s) = s"
  by (simp_all add: get_submit_cases get_password_cases get_secrets_cases)

lemma public_get_state [frame, simp]:
  "snd (get_root r s) = s"
  "snd (get_register r s) = s"
  "snd (get_login r s) = s"
  "snd (get_auth_google r s) = s"
  "snd (get_auth_facebook r s) = s"
  by (simp_all add: get_root_def get_register_def get_login_def get_auth_google_def
        get_auth_facebook_def)

section \<open>The extra password gate\<close>

lemma post_password_cases:
  "post_password cfg r s =
     respond (if SUPER_SECRET_PASSWORD cfg = b_superPassword (req_body r)
              then Render ''superSecret'' (Content (SUPER_SECRET_MESSAGE cfg))
              else Redirect ''/password'') s"
  by (simp add: post_password_def)

lemma post_password_state [frame, simp]: "snd (post_password cfg r s) = s"
  by (simp add: post_password_cases)

section \<open>Submitting a secret\<close>

text \<open>The document \<^verbatim>\<open>new Secret({...})\<close> builds for a request.\<close>

definition submitted_doc :: "req \<Rightarrow> session_user \<Rightarrow> object_id \<Rightarrow> secret_doc" where
  "submitted_doc r su i =
     \<lparr>s_id = i, secret = b_secret (req_body r), userId = Some (su_userId su)\<rparr>"

lemma post_submit_unauthenticated:
  "req_user r = None \<Longrightarrow> post_submit x r s = respond (Status 500) s"
  by (simp add: post_submit_def)

lemma post_submit_saved:
  assumes "req_user r = Some su" and "db_ok x"
  shows "post_submit x r s =
     respond (Redirect ''/secrets'')
       (s\<lparr>store := (store s)\<lparr>next_oid := Suc (next_oid (store s)),
             secrets := secrets (store s) @ [submitted_doc r su (next_oid (store s))]\<rparr>\<rparr>)"
  using assms
  by (simp add: post_submit_def alloc_oid_def save_secret_def submitted_doc_def)

lemma post_submit_failed:
  assumes "req_user r = Some su" and "\<not> db_ok x"
  shows "post_submit x r s =
     respond (Redirect ''/submit'') (s\<lparr>store := (store s)\<lparr>next_oid := Suc (next_oid (store s))\<rparr>\<rparr>)"
  using assms by (simp add: post_submit_def alloc_oid_def)

lemma post_submit_sessions [frame, simp]:
  "sessions (snd (post_submit x r s)) = sessions s"
  by (cases "req_user r"; cases "db_ok x")
     (simp_all add: post_submit_unauthenticated post_submit_saved post_submit_failed)

lemma post_submit_users [frame, simp]:
  "users (store (snd (post_submit x r s))) = users (store s)"
  by (cases "req_user r"; cases "db_ok x")
     (simp_all add: post_submit_unauthenticated post_submit_saved post_submit_failed)

lemma post_submit_secrets:
  "secrets (store (snd (post_submit x r s))) =
     (case req_user r of
        None \<Rightarrow> secrets (store s)
      | Some su \<Rightarrow>
          if db_ok x then secrets (store s) @ [submitted_doc r su (next_oid (store s))]
          else secrets (store s))"
  by (cases "req_user r"; cases "db_ok x")
     (simp_all add: post_submit_unauthenticated post_submit_saved post_submit_failed)

section \<open>Logging out\<close>

lemma get_logout_ok:
  "session_ok x \<Longrightarrow>
   get_logout x r s =
     respond (Redirect ''/'')
       (s\<lparr>sessions := (sessions s)\<lparr>bindings := drop_binding (cookie r) (bindings (sessions s))\<rparr>\<rparr>)"
  by (simp add: get_logout_def req_logout_def)

lemma get_logout_failed: "\<not> session_ok x \<Longrightarrow> get_logout x r s = respond NoReply s"
  by (simp add: get_logout_def)

lemma get_logout_store [frame, simp]: "store (snd (get_logout x r s)) = store s"
  by (cases "session_ok x") (simp_all add: get_logout_ok get_logout_failed)

lemma get_logout_restore:
  "session_ok x \<Longrightarrow> restore (cookie r) (sessions (snd (get_logout x r s))) = None"
  by (cases "cookie r") (simp_all add: get_logout_ok restore_def map_of_drop_binding)

lemma get_logout_restore_other:
  "cookie r \<noteq> Some t \<Longrightarrow>
   restore (Some t) (sessions (snd (get_logout x r s))) = restore (Some t) (sessions s)"
  by (cases "session_ok x")
     (simp_all add: get_logout_ok get_logout_failed restore_def map_of_drop_binding)

section \<open>Local login\<close>

text \<open>The document \<^verbatim>\<open>new User({username, password})\<close> of the login handler:
  unsaved, with the request's plaintext password in it.\<close>

definition login_doc :: "req \<Rightarrow> object_id \<Rightarrow> user_doc" where
  "login_doc r i =
     (blank_user i)\<lparr>username := b_username (req_body r), password := b_password (req_body r)\<rparr>"

lemma findByUsername_users_cong:
  "users d = users d' \<Longrightarrow> findByUsername n d = findByUsername n d'"
  by (simp add: findByUsername_def findOne_def)

lemma authenticate_users_cong:
  "users d = users d' \<Longrightarrow> authenticate k ok n p d = authenticate k ok n p d'"
  by (auto simp: authenticate_def dest: findByUsername_users_cong [where n = n]
           split: option.splits)

lemma post_login_session_down:
  "\<not> session_ok x \<Longrightarrow>
   post_login k x r s =
     respond (Redirect ''register'') (s\<lparr>store := (store s)\<lparr>next_oid := Suc (next_oid (store s))\<rparr>\<rparr>)"
  by (simp add: post_login_def alloc_oid_def)

text \<open>The state after the handler's own \<^verbatim>\<open>req.login(user, ...)\<close>, before the
  credentials are looked at.\<close>

definition after_first_login :: "req \<Rightarrow> server \<Rightarrow> server" where
  "after_first_login r s =
     \<lparr>store = (store s)\<lparr>next_oid := Suc (next_oid (store s))\<rparr>,
      sessions = \<lparr>bindings = (next_token (sessions s),
                               serializeUser (login_doc r (next_oid (store s))))
                             # drop_binding (cookie r) (bindings (sessions s)),
                  next_token = Suc (next_token (sessions s))\<rparr>\<rparr>"

lemma post_login_unfold:
  "session_ok x \<Longrightarrow>
   post_login k x r s =
     (case authenticate_local k x (r\<lparr>cookie := Some (next_token (sessions s))\<rparr>)
             (after_first_login r s) of
        (Inl rp, s') \<Rightarrow> (\<lparr>reply = rp, set_cookie = Some (next_token (sessions s))\<rparr>, s')
      | (Inr t', s') \<Rightarrow> (\<lparr>reply = Redirect ''/secrets'', set_cookie = Some t'\<rparr>, s'))"
  by (simp add: post_login_def alloc_oid_def req_login_def login_doc_def after_first_login_def)

lemma after_first_login_simps [simp]:
  "users (store (after_first_login r s)) = users (store s)"
  "secrets (store (after_first_login r s)) = secrets (store s)"
  "next_oid (store (after_first_login r s)) = Suc (next_oid (store s))"
  "next_token (sessions (after_first_login r s)) = Suc (next_token (sessions s))"
  "restore (Some (next_token (sessions s))) (sessions (after_first_login r s))
     = Some \<lparr>su_userId = next_oid (store s)\<rparr>"
  by (simp_all add: after_first_login_def restore_def serializeUser_def deserializeUser_def
        login_doc_def)

lemma post_login_not_verified:
  assumes "session_ok x"
    and "authenticate k (db_ok x) (b_username (req_body r)) (b_password (req_body r))
           (store s) = Inl e"
  shows "post_login k x r s =
     (\<lparr>reply = (case e of MissingCredentials \<Rightarrow> Status 400
                | InvalidCredentials \<Rightarrow> Status 401 | _ \<Rightarrow> Status 500),
       set_cookie = Some (next_token (sessions s))\<rparr>,
      after_first_login r s)"
proof -
  have "authenticate k (db_ok x) (b_username (req_body r)) (b_password (req_body r))
          (store (after_first_login r s)) = Inl e"
    using assms(2) authenticate_users_cong [of "store (after_first_login r s)" "store s"]
    by simp
  with assms(1) show ?thesis
    by (cases e) (simp_all add: post_login_unfold authenticate_local_def)
qed

lemma post_login_verified:
  assumes "session_ok x"
    and "authenticate k (db_ok x) (b_username (req_body r)) (b_password (req_body r))
           (store s) = Inr u"
  shows "post_login k x r s =
     (\<lparr>reply = Redirect ''/secrets'', set_cookie = Some (Suc (next_token (sessions s)))\<rparr>,
      \<lparr>store = (store s)\<lparr>next_oid := Suc (next_oid (store s))\<rparr>,
       sessions = \<lparr>bindings = (Suc (next_token (sessions s)), serializeUser u)
                      # AList.delete (next_token (sessions s))
                          (drop_binding (cookie r) (bindings (sessions s))),
                   next_token = Suc (Suc (next_token (sessions s)))\<rparr>\<rparr>)"
proof -
  have "authenticate k (db_ok x) (b_username (req_body r)) (b_password (req_body r))
          (store (after_first_login r s)) = Inr u"
    using assms(2) authenticate_users_cong [of "store (after_first_login r s)" "store s"]
    by simp
  with assms(1) show ?thesis
    by (simp add: post_login_unfold authenticate_local_def req_login_def
          after_first_login_def drop_binding_def)
qed

end
