(* ===== verification/Login_Behaviour.thy ===== *)
theory Login_Behaviour
  imports Route_Behaviour
begin

text \<open>
  The routes of \<^verbatim>\<open>src/index.js\<close> that establish a session: \<^verbatim>\<open>POST /register\<close>,
  \<^verbatim>\<open>POST /login\<close> and the two OAuth callbacks. For each, which cookie the
  reply sets and which identity the session store binds to it, on every
  branch; and the composition of the local strategy's two operations,
  registration followed by authentication.
\<close>

section \<open>Registration followed by authentication\<close>

lemma register_InrD:
  assumes "fst (register k ok s n p d) = Inr u"
  obtains pw where "ok" and "truthy n" and "p = Some pw" and "pw \<noteq> []"
    and "\<forall>v \<in> set (users d). \<not> has_credential n v"
    and "u = registered_doc k s n pw (next_oid d)"
    and "snd (register k ok s n p d) =
           d\<lparr>next_oid := Suc (next_oid d), users := users d @ [u]\<rparr>"
proof -
  from assms have *: "ok" "truthy n" "truthy p" "\<forall>v \<in> set (users d). \<not> has_credential n v"
    using register_Inr_iff [of k ok s n p d] by blast+
  from *(3) obtain pw where pw: "p = Some pw" "pw \<noteq> []"
    by (auto dest: truthy_SomeE)
  from * pw have eq: "register k ok s n p d =
     (Inr (registered_doc k s n pw (next_oid d)),
      d\<lparr>next_oid := Suc (next_oid d),
        users := users d @ [registered_doc k s n pw (next_oid d)]\<rparr>)"
    by (simp add: register_success)
  with assms have "u = registered_doc k s n pw (next_oid d)" by simp
  with * pw eq show thesis by (intro that) simp_all
qed

text \<open>If nobody held the username before, the registered credentials are
  accepted afterwards, and the user found is the one just created.\<close>

lemma authenticate_after_register:
  assumes reg: "fst (register k ok s n p d) = Inr u" and new: "findByUsername n d = None"
  shows "authenticate k ok n p (snd (register k ok s n p d)) = Inr u"
proof -
  from reg obtain pw where f: "ok" "truthy n" "p = Some pw" "pw \<noteq> []"
      "u = registered_doc k s n pw (next_oid d)"
      "snd (register k ok s n p d) = d\<lparr>next_oid := Suc (next_oid d), users := users d @ [u]\<rparr>"
    by (rule register_InrD)
  from new f(5) have "findByUsername n (snd (register k ok s n p d)) = Some u"
    by (simp add: f(6) findByUsername_snoc registered_doc_def)
  with f show ?thesis by (simp add: authenticate_known)
qed

text \<open>A password whose derived key differs from the stored one is rejected.\<close>

lemma authenticate_after_register_wrong:
  assumes reg: "fst (register k ok s n (Some pw) d) = Inr u"
    and new: "findByUsername n d = None"
    and wrong: "k s pw' \<noteq> k s pw"
  shows "authenticate k ok n (Some pw') (snd (register k ok s n (Some pw) d))
       = (if pw' = [] then Inl MissingCredentials else Inl InvalidCredentials)"
proof -
  from reg obtain pw0 where f: "ok" "truthy n" "Some pw = Some pw0"
      "u = registered_doc k s n pw0 (next_oid d)"
      "snd (register k ok s n (Some pw) d)
         = d\<lparr>next_oid := Suc (next_oid d), users := users d @ [u]\<rparr>"
    by (rule register_InrD)
  from new f(4) have found: "findByUsername n (snd (register k ok s n (Some pw) d)) = Some u"
    unfolding f(5) by (simp add: findByUsername_snoc registered_doc_def)
  from f(3) have "pw0 = pw" by simp
  show ?thesis
  proof (cases "pw' = []")
    case True
    then show ?thesis by (simp add: authenticate_missing)
  next
    case False
    with f(1,2,4) found wrong \<open>pw0 = pw\<close> show ?thesis
      by (simp add: authenticate_known)
  qed
qed

text \<open>If an earlier document without a credential holds the username (an
  account created by a federated login), registration still succeeds, but
  the lookup by username finds the earlier document and the registered
  credentials are rejected.\<close>

lemma authenticate_after_register_shadowed:
  assumes reg: "fst (register k ok s n p d) = Inr u" and old: "findByUsername n d = Some v"
  shows "authenticate k ok n p (snd (register k ok s n p d)) = Inl InvalidCredentials"
proof -
  from reg obtain pw where f: "ok" "truthy n" "p = Some pw" "pw \<noteq> []"
      "\<forall>v \<in> set (users d). \<not> has_credential n v"
      "snd (register k ok s n p d) = d\<lparr>next_oid := Suc (next_oid d), users := users d @ [u]\<rparr>"
    by (rule register_InrD)
  from old have "v \<in> set (users d)" and "username v = n"
    by (auto simp: findByUsername_def matches_def dest!: findOne_SomeD)
  with f(5) have "hash v = None" by (auto simp: has_credential_def)
  then have "\<not> check_password k v pw"
    by (simp add: check_password_def split: option.splits)
  moreover from old have "findByUsername n (snd (register k ok s n p d)) = Some v"
    by (simp add: f(6) findByUsername_snoc)
  ultimately show ?thesis using f by (simp add: authenticate_known)
qed

section \<open>\<^verbatim>\<open>POST /register\<close>\<close>

abbreviation (input) register_of :: "kdf \<Rightarrow> outcome \<Rightarrow> req \<Rightarrow> server \<Rightarrow> user_doc result \<times> db" where
  "register_of k x r s \<equiv>
     register k (db_ok x) (fresh_salt x) (b_username (req_body r)) (b_password (req_body r))
       (store s)"

lemma post_register_refused:
  "fst (register_of k x r s) = Inl e \<Longrightarrow>
   post_register k x r s = respond (Redirect ''/register'') (s\<lparr>store := snd (register_of k x r s)\<rparr>)"
  by (cases "register_of k x r s") (simp add: post_register_def)

lemma post_register_registered:
  "fst (register_of k x r s) = Inr u \<Longrightarrow>
   post_register k x r s =
     then_redirect ''/secrets'' (authenticate_local k x r (s\<lparr>store := snd (register_of k x r s)\<rparr>))"
  by (cases "register_of k x r s") (simp add: post_register_def)

lemma post_register_store [frame, simp]:
  "store (snd (post_register k x r s)) = snd (register_of k x r s)"
  by (cases "fst (register_of k x r s)")
     (simp_all add: post_register_refused post_register_registered)

lemma post_register_fresh_name:
  assumes reg: "fst (register_of k x r s) = Inr u"
    and new: "findByUsername (b_username (req_body r)) (store s) = None"
    and up: "session_ok x"
  shows "reply (fst (post_register k x r s)) = Redirect ''/secrets''"
    and "set_cookie (fst (post_register k x r s)) = Some (next_token (sessions s))"
    and "restore (Some (next_token (sessions s))) (sessions (snd (post_register k x r s)))
           = Some (serializeUser u)"
proof -
  let ?s1 = "s\<lparr>store := snd (register_of k x r s)\<rparr>"
  from reg new have "authenticate k (db_ok x) (b_username (req_body r))
      (b_password (req_body r)) (store ?s1) = Inr u"
    by (simp add: authenticate_after_register)
  from authenticate_local_accepts [OF this up] reg
  have eq: "post_register k x r s =
      then_redirect ''/secrets'' (Inr (next_token (sessions s)),
        ?s1\<lparr>sessions := \<lparr>bindings = (next_token (sessions s), serializeUser u)
               # drop_binding (cookie r) (bindings (sessions s)),
             next_token = Suc (next_token (sessions s))\<rparr>\<rparr>)"
    by (simp add: post_register_registered)
  show "reply (fst (post_register k x r s)) = Redirect ''/secrets''"
    and "set_cookie (fst (post_register k x r s)) = Some (next_token (sessions s))"
    and "restore (Some (next_token (sessions s))) (sessions (snd (post_register k x r s)))
           = Some (serializeUser u)"
    by (simp_all add: eq restore_def deserializeUser_def)
qed

lemma post_register_sessions_refused:
  "fst (register_of k x r s) = Inl e \<Longrightarrow> sessions (snd (post_register k x r s)) = sessions s"
  by (simp add: post_register_refused)

section \<open>\<^verbatim>\<open>POST /login\<close>: a session before the credentials are checked\<close>

text \<open>Whatever the credentials, when the session store answers the reply
  carries a cookie and the store binds an identity to it.\<close>

lemma post_login_sets_cookie:
  assumes "session_ok x"
  shows "\<exists>t su. set_cookie (fst (post_login k x r s)) = Some t
            \<and> restore (Some t) (sessions (snd (post_login k x r s))) = Some su"
proof (cases "authenticate k (db_ok x) (b_username (req_body r)) (b_password (req_body r))
    (store s)")
  case (Inl e)
  with assms show ?thesis by (simp add: post_login_not_verified)
next
  case (Inr u)
  with assms show ?thesis
    by (simp add: post_login_verified restore_def deserializeUser_def)
qed

lemma post_login_rejected:
  assumes "session_ok x"
    and "authenticate k (db_ok x) (b_username (req_body r)) (b_password (req_body r))
           (store s) = Inl InvalidCredentials"
  shows "reply (fst (post_login k x r s)) = Status 401"
    and "set_cookie (fst (post_login k x r s)) = Some (next_token (sessions s))"
    and "restore (Some (next_token (sessions s))) (sessions (snd (post_login k x r s)))
           = Some \<lparr>su_userId = next_oid (store s)\<rparr>"
  using assms by (simp_all add: post_login_not_verified)

lemma post_login_accepted:
  assumes "session_ok x"
    and "authenticate k (db_ok x) (b_username (req_body r)) (b_password (req_body r))
           (store s) = Inr u"
  shows "reply (fst (post_login k x r s)) = Redirect ''/secrets''"
    and "set_cookie (fst (post_login k x r s)) = Some (Suc (next_token (sessions s)))"
    and "restore (Some (Suc (next_token (sessions s)))) (sessions (snd (post_login k x r s)))
           = Some (serializeUser u)"
  using assms by (simp_all add: post_login_verified restore_def deserializeUser_def)

lemma post_login_users [frame, simp]:
  "users (store (snd (post_login k x r s))) = users (store s)"
proof (cases "session_ok x")
  case False
  then show ?thesis by (simp add: post_login_session_down)
next
  case True
  then show ?thesis
    by (cases "authenticate k (db_ok x) (b_username (req_body r)) (b_password (req_body r))
          (store s)")
       (simp_all add: post_login_not_verified post_login_verified)
qed

lemma post_login_secrets [frame, simp]:
  "secrets (store (snd (post_login k x r s))) = secrets (store s)"
proof (cases "session_ok x")
  case False
  then show ?thesis by (simp add: post_login_session_down)
next
  case True
  then show ?thesis
    by (cases "authenticate k (db_ok x) (b_username (req_body r)) (b_password (req_body r))
          (store s)")
       (simp_all add: post_login_not_verified post_login_verified)
qed

section \<open>The OAuth callbacks\<close>

definition oauth_callback :: "provider \<Rightarrow> outcome \<Rightarrow> req \<Rightarrow> server \<Rightarrow> response \<times> server" where
  "oauth_callback pv = (case pv of Google \<Rightarrow> get_auth_google_secrets
                                 | Facebook \<Rightarrow> get_auth_facebook_secrets)"

lemma oauth_callback_eq:
  "oauth_callback pv x r s = then_redirect ''/secrets'' (authenticate_oauth pv ''/login'' x r s)"
  by (cases pv)
     (simp_all add: oauth_callback_def get_auth_google_secrets_def get_auth_facebook_secrets_def)

lemma oauth_callback_denied:
  "oauth x = None \<Longrightarrow> oauth_callback pv x r s = respond (Redirect ''/login'') s"
  by (simp add: oauth_callback_eq authenticate_oauth_denied respond_def)

lemma oauth_callback_login:
  assumes "oauth x = Some pr" and "fst (verify pv (db_ok x) pr (store s)) = Inr u"
    and "session_ok x"
  shows "reply (fst (oauth_callback pv x r s)) = Redirect ''/secrets''"
    and "set_cookie (fst (oauth_callback pv x r s)) = Some (next_token (sessions s))"
    and "restore (Some (next_token (sessions s))) (sessions (snd (oauth_callback pv x r s)))
           = Some (serializeUser u)"
    and "store (snd (oauth_callback pv x r s)) = snd (verify pv (db_ok x) pr (store s))"
  using assms
  by (cases "verify pv (db_ok x) pr (store s)";
      simp add: oauth_callback_eq authenticate_oauth_def req_login_def restore_def
        deserializeUser_def)+

lemma oauth_callback_error:
  assumes "oauth x = Some pr" and "fst (verify pv (db_ok x) pr (store s)) = Inl e"
  shows "fst (oauth_callback pv x r s) = \<lparr>reply = Status 500, set_cookie = None\<rparr>"
    and "sessions (snd (oauth_callback pv x r s)) = sessions s"
  using assms
  by (cases "verify pv (db_ok x) pr (store s)";
      simp add: oauth_callback_eq authenticate_oauth_def)+

text \<open>The path of a provider's callback route and the field its id is
  stored in.\<close>

definition callback_path :: "provider \<Rightarrow> string" where
  "callback_path pv = (case pv of Google \<Rightarrow> ''/auth/google/secrets''
                              | Facebook \<Rightarrow> ''/auth/facebook/secrets'')"

definition provider_field :: "provider \<Rightarrow> user_doc \<Rightarrow> js_string" where
  "provider_field pv = (case pv of Google \<Rightarrow> googleId | Facebook \<Rightarrow> facebookId)"

lemma handle_callback:
  assumes "req_method r = GET" and "req_path r = callback_path pv"
  shows "handle k cfg x r s = oauth_callback pv x (session_middleware r s) s"
  using assms by (cases pv) (simp_all add: callback_path_def handle_route oauth_callback_def)

lemma verify_user:
  "\<exists>u. fst (verify pv True pr d) = Inr u \<and> username u = displayName pr
       \<and> provider_field pv u = profile_id pr \<and> u \<in> set (users (snd (verify pv True pr d)))"
  by (cases pv)
     (simp_all add: verify_def provider_field_def google_verify_user facebook_verify_user)

end
