(* ===== verification/Server_Invariant.thy ===== *)
theory Server_Invariant
  imports Login_Behaviour
begin

text \<open>
  The invariant of the server state of \<^verbatim>\<open>src/index.js\<close> and its preservation
  by every route handler, by the router \<open>handle\<close>, and by any sequence of
  requests. The invariant joins the store invariant \<open>db_inv\<close>, the session
  invariant \<open>sess_inv\<close>, and two facts that tie them together: every identity
  bound in the session store and every author recorded on a secret is an
  object id that has been generated.
\<close>

section \<open>Definition\<close>

definition sessions_below :: "server \<Rightarrow> bool" where
  "sessions_below s \<longleftrightarrow>
     (\<forall>su \<in> snd ` set (bindings (sessions s)). su_userId su < next_oid (store s))"

definition authors_generated :: "server \<Rightarrow> bool" where
  "authors_generated s \<longleftrightarrow>
     (\<forall>sc \<in> set (secrets (store s)). \<exists>i. userId sc = Some i \<and> i < next_oid (store s))"

definition server_inv :: "server \<Rightarrow> bool" where
  "server_inv s \<longleftrightarrow>
     db_inv (store s) \<and> sess_inv (sessions s) \<and> sessions_below s \<and> authors_generated s"

lemma server_inv_init [simp]: "server_inv init_server"
  by (simp add: server_inv_def init_server_def sessions_below_def authors_generated_def
        empty_db_def empty_sessions_def db_inv_defs sess_inv_def)

lemma server_invD:
  assumes "server_inv s"
  shows "db_inv (store s)" and "sess_inv (sessions s)"
    and "sessions_below s" and "authors_generated s"
  using assms by (simp_all add: server_inv_def)

lemma server_eqI: "store a = store b \<Longrightarrow> sessions a = sessions b \<Longrightarrow> a = (b::server)"
  by simp

lemma restore_generated:
  assumes "server_inv s" and "restore c (sessions s) = Some su"
  shows "su_userId su < next_oid (store s)"
proof -
  from assms(2) obtain t where "(t, su) \<in> set (bindings (sessions s))"
    by (auto dest: restore_Some_bound)
  then have "su \<in> snd ` set (bindings (sessions s))" by force
  with assms(1) show ?thesis by (auto simp: server_inv_def sessions_below_def)
qed

section \<open>Building blocks\<close>

text \<open>Replacing the store by one that has the same secrets and a counter
  that did not go back.\<close>

lemma server_inv_store:
  assumes "server_inv s" and "db_inv d" and "next_oid (store s) \<le> next_oid d"
    and "secrets d = secrets (store s)"
  shows "server_inv (s\<lparr>store := d\<rparr>)"
  using assms
  by (fastforce simp: server_inv_def sessions_below_def authors_generated_def)

lemma server_inv_bump:
  assumes "server_inv s"
  shows "server_inv (s\<lparr>store := (store s)\<lparr>next_oid := Suc (next_oid (store s))\<rparr>\<rparr>)"
proof -
  from assms have "db_inv (snd (alloc_oid (store s)))"
    by (simp add: db_inv_alloc server_invD)
  then have "db_inv ((store s)\<lparr>next_oid := Suc (next_oid (store s))\<rparr>)"
    by (simp add: alloc_oid_def)
  with assms show ?thesis
    by (intro server_inv_store) simp_all
qed

text \<open>Binding a generated identity to a fresh token.\<close>

lemma server_inv_login:
  assumes "server_inv s" and "u_id u < next_oid (store s)"
    and "req_login ok u c (sessions s) = Inr (t, ss)"
  shows "server_inv (s\<lparr>sessions := ss\<rparr>)"
proof -
  from assms(3) have ss: "bindings ss = (next_token (sessions s), serializeUser u)
      # drop_binding c (bindings (sessions s))"
    by (auto simp: req_login_def split: if_splits)
  from assms(1,3) have "sess_inv ss"
    by (auto intro: sess_inv_login dest: server_invD)
  moreover have "sessions_below (s\<lparr>sessions := ss\<rparr>)"
    using assms(1,2) set_drop_binding [of c "bindings (sessions s)"]
    by (auto simp: sessions_below_def ss serializeUser_def server_inv_def)
  ultimately show ?thesis
    using assms(1) by (simp add: server_inv_def authors_generated_def)
qed

lemma server_inv_drop:
  assumes "server_inv s"
  shows "server_inv (s\<lparr>sessions := (sessions s)\<lparr>bindings := drop_binding c (bindings (sessions s))\<rparr>\<rparr>)"
proof -
  have "req_logout True c (sessions s)
      = Inr ((sessions s)\<lparr>bindings := drop_binding c (bindings (sessions s))\<rparr>)"
    by (simp add: req_logout_def)
  with assms have "sess_inv ((sessions s)\<lparr>bindings := drop_binding c (bindings (sessions s))\<rparr>)"
    by (auto intro: sess_inv_logout dest: server_invD)
  with assms set_drop_binding [of c "bindings (sessions s)"] show ?thesis
    by (auto simp: server_inv_def sessions_below_def authors_generated_def)
qed

lemma server_inv_authenticate_local [inv_keep]:
  assumes "server_inv s"
  shows "server_inv (snd (authenticate_local k x r s))"
proof (cases "fst (authenticate_local k x r s)")
  case (Inl rp)
  with assms show ?thesis by (simp add: authenticate_local_Inl)
next
  case (Inr t)
  let ?s' = "snd (authenticate_local k x r s)"
  from authenticate_local_Inr [OF Inr] obtain u where
    u: "authenticate k (db_ok x) (b_username (req_body r)) (b_password (req_body r))
          (store s) = Inr u"
    and login: "req_login (session_ok x) u (cookie r) (sessions s) = Inr (t, sessions ?s')"
    and st: "store ?s' = store s"
    by blast
  from u have "u \<in> set (users (store s))" by (auto dest: authenticate_InrD)
  with assms have below: "u_id u < next_oid (store s)"
    by (auto simp: server_inv_def db_inv_defs)
  from assms below login have "server_inv (s\<lparr>sessions := sessions ?s'\<rparr>)"
    by (rule server_inv_login)
  moreover from st have "?s' = s\<lparr>sessions := sessions ?s'\<rparr>"
    by (intro server_eqI) simp_all
  ultimately show ?thesis by simp
qed

lemma next_oid_verify: "next_oid d \<le> next_oid (snd (verify pv ok pr d))"
  by (cases pv)
     (auto simp: verify_def google_verify_def facebook_verify_def User_findOrCreate_def
        findOrCreate_next_oid split: option.splits)

lemma server_inv_authenticate_oauth [inv_keep]:
  assumes "server_inv s"
  shows "server_inv (snd (authenticate_oauth pv l x r s))"
proof (cases "oauth x")
  case None
  with assms show ?thesis by (simp add: authenticate_oauth_denied)
next
  case (Some pr)
  let ?d = "snd (verify pv (db_ok x) pr (store s))"
  let ?s' = "snd (authenticate_oauth pv l x r s)"
  from assms have s1: "server_inv (s\<lparr>store := ?d\<rparr>)"
    by (intro server_inv_store) (simp_all add: db_inv_verify next_oid_verify server_invD)
  from Some have st: "store ?s' = ?d" by (simp add: authenticate_oauth_store)
  show ?thesis
  proof (cases "fst (authenticate_oauth pv l x r s)")
    case (Inl rp)
    then have "sessions ?s' = sessions s" by (rule authenticate_oauth_sessions_Inl)
    with st have "?s' = s\<lparr>store := ?d\<rparr>" by (intro server_eqI) simp_all
    with s1 show ?thesis by simp
  next
    case (Inr t)
    from authenticate_oauth_Inr [OF Inr] Some obtain u where
      u: "fst (verify pv (db_ok x) pr (store s)) = Inr u"
      and login: "req_login (session_ok x) u (cookie r) (sessions s) = Inr (t, sessions ?s')"
      by auto
    from u have "u \<in> set (users ?d)" by (rule verify_Inr_in_store)
    with s1 have "u_id u < next_oid (store (s\<lparr>store := ?d\<rparr>))"
      by (auto simp: server_inv_def db_inv_defs)
    with s1 have "server_inv (s\<lparr>store := ?d, sessions := sessions ?s'\<rparr>)"
      using login by (intro server_inv_login [where s = "s\<lparr>store := ?d\<rparr>", simplified]) simp_all
    moreover from st have "?s' = s\<lparr>store := ?d, sessions := sessions ?s'\<rparr>"
      by (intro server_eqI) simp_all
    ultimately show ?thesis by simp
  qed
qed

section \<open>Every handler keeps the invariant\<close>

lemma server_inv_post_submit [inv_keep]:
  assumes "server_inv s" and "req_user r = restore (cookie r) (sessions s)"
  shows "server_inv (snd (post_submit x r s))"
proof (cases "req_user r")
  case None
  with assms show ?thesis by (simp add: post_submit_unauthenticated)
next
  case (Some su)
  with assms have gen: "su_userId su < next_oid (store s)"
    by (auto intro: restore_generated)
  show ?thesis
  proof (cases "db_ok x")
    case False
    with Some assms(1) show ?thesis by (simp add: post_submit_failed server_inv_bump)
  next
    case True
    from assms(1) have "db_inv (store s)" by (rule server_invD)
    then have "db_inv ((store s)\<lparr>next_oid := Suc (next_oid (store s)),
        secrets := secrets (store s) @ [submitted_doc r su (next_oid (store s))]\<rparr>)"
      by (auto simp: db_inv_defs submitted_doc_def less_Suc_eq)
    with assms(1) gen Some True show ?thesis
      by (auto simp: post_submit_saved server_inv_def sessions_below_def
            authors_generated_def submitted_doc_def less_Suc_eq)
  qed
qed

lemma server_inv_get_logout [inv_keep]:
  "server_inv s \<Longrightarrow> server_inv (snd (get_logout x r s))"
  by (cases "session_ok x") (simp_all add: get_logout_ok get_logout_failed server_inv_drop)

lemma server_inv_after_first_login:
  assumes "server_inv s"
  shows "server_inv (after_first_login r s)"
proof -
  let ?s1 = "s\<lparr>store := (store s)\<lparr>next_oid := Suc (next_oid (store s))\<rparr>\<rparr>"
  let ?u = "login_doc r (next_oid (store s))"
  from assms have "server_inv ?s1" by (rule server_inv_bump)
  moreover have "u_id ?u < next_oid (store ?s1)" by (simp add: login_doc_def)
  moreover have "req_login True ?u (cookie r) (sessions ?s1)
      = Inr (next_token (sessions s), sessions (after_first_login r s))"
    by (simp add: req_login_def after_first_login_def)
  ultimately have "server_inv (?s1\<lparr>sessions := sessions (after_first_login r s)\<rparr>)"
    by (rule server_inv_login)
  moreover have "?s1\<lparr>sessions := sessions (after_first_login r s)\<rparr> = after_first_login r s"
    by (simp add: after_first_login_def)
  ultimately show ?thesis by simp
qed

lemma snd_post_login:
  "session_ok x \<Longrightarrow>
   snd (post_login k x r s) =
     snd (authenticate_local k x (r\<lparr>cookie := Some (next_token (sessions s))\<rparr>)
            (after_first_login r s))"
  by (simp add: post_login_unfold split: prod.splits sum.splits)

lemma server_inv_post_login [inv_keep]:
  assumes "server_inv s"
  shows "server_inv (snd (post_login k x r s))"
proof (cases "session_ok x")
  case False
  with assms show ?thesis by (simp add: post_login_session_down server_inv_bump)
next
  case True
  with assms show ?thesis
    by (simp add: snd_post_login server_inv_authenticate_local server_inv_after_first_login)
qed

lemma server_inv_post_register [inv_keep]:
  assumes "server_inv s"
  shows "server_inv (snd (post_register k x r s))"
proof -
  from assms have s1: "server_inv (s\<lparr>store := snd (register_of k x r s)\<rparr>)"
    by (intro server_inv_store) (simp_all add: db_inv_register server_invD)
  show ?thesis
  proof (cases "fst (register_of k x r s)")
    case (Inl e)
    with s1 show ?thesis by (simp add: post_register_refused)
  next
    case (Inr u)
    with s1 show ?thesis
      by (simp add: post_register_registered server_inv_authenticate_local)
  qed
qed

lemma server_inv_oauth_callback [inv_keep]:
  "server_inv s \<Longrightarrow> server_inv (snd (oauth_callback pv x r s))"
  by (simp add: oauth_callback_eq server_inv_authenticate_oauth)

lemma server_inv_dispatch:
  assumes "server_inv s" and "req_user r = restore (cookie r) (sessions s)"
  shows "server_inv (snd (dispatch rt k cfg x r s))"
proof (cases rt)
  case GetAuthGoogleSecrets
  with assms(1) server_inv_oauth_callback [of s Google] show ?thesis
    by (simp add: oauth_callback_def)
next
  case GetAuthFacebookSecrets
  with assms(1) server_inv_oauth_callback [of s Facebook] show ?thesis
    by (simp add: oauth_callback_def)
qed (use assms in \<open>simp_all add: server_inv_post_submit server_inv_get_logout
       server_inv_post_login server_inv_post_register\<close>)

end
