(* ===== verification/Browser.thy ===== *)
theory Browser
  imports Server_Invariant
begin

text \<open>
  The clients of the application and whole executions. A client is a browser
  with a cookie jar: it sends the session cookie it holds with every request
  to \<open>handle\<close> and keeps the cookie a response sets. A world is the server of
  \<^verbatim>\<open>src/index.js\<close> together with the jars of all clients; \<open>exec\<close> performs one
  request of one client, \<open>run\<close> a list of them, and \<open>reachable\<close> is the set of
  worlds some sequence of requests leads to from the initial one.

  Lemmas: how a browser resolves the redirect locations the handlers write,
  freshness of every cookie the server sets, the world invariant (server
  invariant, every held token was issued, no two clients hold the same
  token) for all reachable worlds.
\<close>

section \<open>Redirect locations\<close>

text \<open>A location that starts with a slash replaces the path; any other
  location replaces the last segment of the path it is relative to.\<close>

definition dirname :: "string \<Rightarrow> string" where
  "dirname p = rev (dropWhile (\<lambda>c. c \<noteq> CHR ''/'') (rev p))"

definition resolve :: "string \<Rightarrow> string \<Rightarrow> string" where
  "resolve base l =
     (case l of
        [] \<Rightarrow> base
      | c # _ \<Rightarrow> if c = CHR ''/'' then l else dirname base @ l)"

lemma resolve_absolute [simp]: "resolve base (CHR ''/'' # l) = CHR ''/'' # l"
  by (simp add: resolve_def)

lemma resolve_relative [simp]:
  "resolve ''/password'' ''login'' = ''/login''"
  "resolve ''/login'' ''register'' = ''/register''"
  by (simp_all add: resolve_def dirname_def)

section \<open>Cookies are fresh\<close>

text \<open>A request never lowers the token counter, and a cookie it sets is a
  token issued during that request.\<close>

definition issues_fresh :: "server \<Rightarrow> response \<times> server \<Rightarrow> bool" where
  "issues_fresh s out \<longleftrightarrow>
     next_token (sessions s) \<le> next_token (sessions (snd out)) \<and>
     (\<forall>t. set_cookie (fst out) = Some t \<longrightarrow>
        next_token (sessions s) \<le> t \<and> t < next_token (sessions (snd out)))"

lemma issues_fresh_respond [simp]:
  "issues_fresh s (respond rp s') \<longleftrightarrow> next_token (sessions s) \<le> next_token (sessions s')"
  by (simp add: issues_fresh_def)

lemma authenticate_local_token:
  "fst (authenticate_local k x r s) = Inr t \<Longrightarrow>
   t = next_token (sessions s) \<and>
   next_token (sessions (snd (authenticate_local k x r s))) = Suc t"
  by (auto dest!: authenticate_local_Inr req_login_token)

lemma authenticate_oauth_token:
  "fst (authenticate_oauth pv l x r s) = Inr t \<Longrightarrow>
   t = next_token (sessions s) \<and>
   next_token (sessions (snd (authenticate_oauth pv l x r s))) = Suc t"
  by (auto dest!: authenticate_oauth_Inr req_login_token)

lemma issues_fresh_then_redirect:
  assumes "\<And>t. fst m = Inr t \<Longrightarrow>
      t = next_token (sessions s) \<and> next_token (sessions (snd m)) = Suc t"
    and "\<And>rp. fst m = Inl rp \<Longrightarrow> sessions (snd m) = sessions s"
  shows "issues_fresh s (then_redirect l m)"
  using assms
  by (cases m; cases "fst m") (auto simp: issues_fresh_def then_redirect_def)

lemma issues_fresh_oauth_callback: "issues_fresh s (oauth_callback pv x r s)"
  unfolding oauth_callback_eq
  by (rule issues_fresh_then_redirect)
     (simp_all add: authenticate_oauth_token authenticate_oauth_sessions_Inl)

lemma issues_fresh_post_register: "issues_fresh s (post_register k x r s)"
proof (cases "fst (register_of k x r s)")
  case (Inl e)
  then show ?thesis by (simp add: post_register_refused)
next
  case (Inr u)
  let ?s1 = "s\<lparr>store := snd (register_of k x r s)\<rparr>"
  have "issues_fresh ?s1 (then_redirect ''/secrets'' (authenticate_local k x r ?s1))"
    using authenticate_local_token [of k x r ?s1] authenticate_local_Inl [of k x r ?s1]
    by (intro issues_fresh_then_redirect) auto
  with Inr show ?thesis by (simp add: post_register_registered issues_fresh_def)
qed

lemma issues_fresh_post_login: "issues_fresh s (post_login k x r s)"
proof (cases "session_ok x")
  case False
  then show ?thesis by (simp add: post_login_session_down)
next
  case True
  then show ?thesis
    by (cases "authenticate k (db_ok x) (b_username (req_body r)) (b_password (req_body r))
          (store s)")
       (simp_all add: post_login_not_verified post_login_verified issues_fresh_def)
qed

lemma issues_fresh_get_logout: "issues_fresh s (get_logout x r s)"
  by (cases "session_ok x") (simp_all add: get_logout_ok get_logout_failed)

lemma issues_fresh_post_submit: "issues_fresh s (post_submit x r s)"
  by (simp add: issues_fresh_def post_submit_def respond_def alloc_oid_def
        split: option.splits prod.splits)

lemma issues_fresh_dispatch: "issues_fresh s (dispatch rt k cfg x r s)"
proof (cases rt)
  case GetAuthGoogleSecrets
  with issues_fresh_oauth_callback [of s Google] show ?thesis
    by (simp add: oauth_callback_def)
next
  case GetAuthFacebookSecrets
  with issues_fresh_oauth_callback [of s Facebook] show ?thesis
    by (simp add: oauth_callback_def)
qed (simp_all add: issues_fresh_post_register issues_fresh_post_login
       issues_fresh_get_logout issues_fresh_post_submit get_submit_cases get_password_cases
       get_secrets_cases post_password_cases get_root_def get_register_def get_login_def
       get_auth_google_def get_auth_facebook_def)

lemma issues_fresh_handle: "issues_fresh s (handle k cfg x r s)"
  by (cases "route_of (req_method r) (req_path r)")
     (simp_all add: handle_no_route handle_route issues_fresh_dispatch)

lemma server_inv_handle:
  "server_inv s \<Longrightarrow> server_inv (snd (handle k cfg x r s))"
  by (cases "route_of (req_method r) (req_path r)")
     (simp_all add: handle_no_route handle_route server_inv_dispatch)

section \<open>Clients and worlds\<close>

type_synonym client = nat

text \<open>One request of one client: who sends it, method, path and form
  fields, and what the external collaborators do while it is served.\<close>

record action =
  who :: client
  via :: http_method
  at :: string
  form :: body
  ext :: outcome

record world =
  srv :: server
  jar :: "(client \<times> token) list"

definition init_world :: world where
  "init_world = \<lparr>srv = init_server, jar = []\<rparr>"

definition request_of :: "action \<Rightarrow> world \<Rightarrow> req" where
  "request_of a w =
     \<lparr>req_method = via a, req_path = at a, cookie = map_of (jar w) (who a),
      req_user = None, req_body = form a\<rparr>"

definition keep_cookie :: "client \<Rightarrow> token option \<Rightarrow> (client \<times> token) list
    \<Rightarrow> (client \<times> token) list" where
  "keep_cookie c t j = (case t of None \<Rightarrow> j | Some t' \<Rightarrow> AList.update c t' j)"

definition exec :: "kdf \<Rightarrow> config \<Rightarrow> action \<Rightarrow> world \<Rightarrow> response \<times> world" where
  "exec k cfg a w =
     (let out = handle k cfg (ext a) (request_of a w) (srv w)
      in (fst out, \<lparr>srv = snd out, jar = keep_cookie (who a) (set_cookie (fst out)) (jar w)\<rparr>))"

fun run :: "kdf \<Rightarrow> config \<Rightarrow> action list \<Rightarrow> world \<Rightarrow> reply list \<times> world" where
  "run k cfg [] w = ([], w)"
| "run k cfg (a # as) w =
     (let out = exec k cfg a w; rest = run k cfg as (snd out)
      in (reply (fst out) # fst rest, snd rest))"

inductive step :: "kdf \<Rightarrow> config \<Rightarrow> world \<Rightarrow> world \<Rightarrow> bool" for k cfg where
  request: "step k cfg w (snd (exec k cfg a w))"

inductive reachable :: "kdf \<Rightarrow> config \<Rightarrow> world \<Rightarrow> bool" for k cfg where
  init: "reachable k cfg init_world"
| step: "reachable k cfg w \<Longrightarrow> step k cfg w w' \<Longrightarrow> reachable k cfg w'"

inductive_cases stepE: "step k cfg w w'"

lemma exec_simps [simp]:
  "fst (exec k cfg a w) = fst (handle k cfg (ext a) (request_of a w) (srv w))"
  "srv (snd (exec k cfg a w)) = snd (handle k cfg (ext a) (request_of a w) (srv w))"
  "jar (snd (exec k cfg a w)) =
     keep_cookie (who a) (set_cookie (fst (handle k cfg (ext a) (request_of a w) (srv w)))) (jar w)"
  by (simp_all add: exec_def Let_def)

lemma request_of_simps [simp]:
  "req_method (request_of a w) = via a"
  "req_path (request_of a w) = at a"
  "cookie (request_of a w) = map_of (jar w) (who a)"
  "req_body (request_of a w) = form a"
  by (simp_all add: request_of_def)

lemma run_append:
  "run k cfg (as @ bs) w =
     (fst (run k cfg as w) @ fst (run k cfg bs (snd (run k cfg as w))),
      snd (run k cfg bs (snd (run k cfg as w))))"
  by (induction as arbitrary: w) (simp_all add: Let_def)

lemma reachable_run: "reachable k cfg w \<Longrightarrow> reachable k cfg (snd (run k cfg as w))"
proof (induction as arbitrary: w)
  case Nil
  then show ?case by simp
next
  case (Cons a as)
  from Cons.prems have "reachable k cfg (snd (exec k cfg a w))"
    by (blast intro: reachable.step step.request)
  then show ?case by (simp add: Let_def Cons.IH)
qed

lemma length_run [simp]: "length (fst (run k cfg as w)) = length as"
  by (induction as arbitrary: w) (simp_all add: Let_def)

lemma run_snoc: "snd (run k cfg (as @ [a]) w) = snd (exec k cfg a (snd (run k cfg as w)))"
  by (simp add: run_append Let_def)

lemma reachable_is_run:
  assumes "reachable k cfg w"
  shows "\<exists>as. w = snd (run k cfg as init_world)"
  using assms
proof (induction rule: reachable.induct)
  case init
  have "init_world = snd (run k cfg [] init_world)" by simp
  then show ?case ..
next
  case (step w w')
  then obtain as where "w = snd (run k cfg as init_world)" by blast
  moreover from step(2) obtain a where "w' = snd (exec k cfg a w)"
    by (auto elim: stepE)
  ultimately have "w' = snd (run k cfg (as @ [a]) init_world)"
    by (simp add: run_snoc)
  then show ?case ..
qed

section \<open>The world invariant\<close>

definition world_inv :: "world \<Rightarrow> bool" where
  "world_inv w \<longleftrightarrow>
     server_inv (srv w) \<and>
     (\<forall>t \<in> snd ` set (jar w). t < next_token (sessions (srv w))) \<and>
     distinct (map fst (jar w)) \<and> distinct (map snd (jar w))"

lemma world_inv_init [simp]: "world_inv init_world"
  by (simp add: world_inv_def init_world_def)

lemma map_of_jar_below:
  "world_inv w \<Longrightarrow> map_of (jar w) c = Some t \<Longrightarrow> t < next_token (sessions (srv w))"
  by (force simp: world_inv_def dest: map_of_SomeD)

lemma distinct_snd_update:
  assumes "distinct (map fst j)" and "distinct (map snd j)" and "t \<notin> snd ` set j"
  shows "distinct (map snd (AList.update c t j))"
  using assms
proof (induction j)
  case Nil
  then show ?case by simp
next
  case (Cons p j)
  obtain c' t' where p: "p = (c', t')" by (cases p)
  show ?case
  proof (cases "c' = c")
    case True
    with Cons.prems p show ?thesis by auto
  next
    case False
    with Cons p have "distinct (map snd (AList.update c t j))" by auto
    moreover have "snd ` set (AList.update c t j) \<subseteq> insert t (snd ` set j)"
      by (induction j) auto
    ultimately show ?thesis using Cons.prems p False by auto
  qed
qed

lemma snd_set_update: "snd ` set (AList.update c t j) \<subseteq> insert t (snd ` set j)"
  by (induction j) auto

lemma world_inv_exec:
  assumes "world_inv w"
  shows "world_inv (snd (exec k cfg a w))"
proof -
  let ?out = "handle k cfg (ext a) (request_of a w) (srv w)"
  from assms have inv: "server_inv (snd ?out)"
    by (simp add: world_inv_def server_inv_handle)
  have fresh: "issues_fresh (srv w) ?out" by (rule issues_fresh_handle)
  show ?thesis
  proof (cases "set_cookie (fst ?out)")
    case None
    with assms inv fresh show ?thesis
      by (fastforce simp: world_inv_def keep_cookie_def issues_fresh_def)
  next
    case (Some t)
    with fresh have t: "next_token (sessions (srv w)) \<le> t"
        "t < next_token (sessions (snd ?out))"
      by (auto simp: issues_fresh_def)
    with assms have notin: "t \<notin> snd ` set (jar w)"
      by (auto simp: world_inv_def)
    from assms t have "\<forall>t' \<in> insert t (snd ` set (jar w)). t' < next_token (sessions (snd ?out))"
      by (auto simp: world_inv_def)
    with snd_set_update [of "who a" t "jar w"]
    have "\<forall>t' \<in> snd ` set (AList.update (who a) t (jar w)).
        t' < next_token (sessions (snd ?out))"
      by blast
    with assms inv notin Some show ?thesis
      by (simp add: world_inv_def keep_cookie_def distinct_update distinct_snd_update)
  qed
qed

lemma reachable_world_inv: "reachable k cfg w \<Longrightarrow> world_inv w"
  by (induction rule: reachable.induct) (auto elim!: stepE intro: world_inv_exec)

end
