(* ===== verification/Request_Effects.thy ===== *)
theory Request_Effects
  imports Browser "HOL-Library.Sublist"
begin

text \<open>
  What one request can change, for every route at once. Two relations
  between the state before and after a request of \<^verbatim>\<open>src/index.js\<close>:

  \<^item> \<open>keeps_others c ss ss'\<close>: every token issued before the request, other than
    the cookie \<open>c\<close> the request carried, is bound in \<open>ss'\<close> exactly as it was in
    \<open>ss\<close>. The handlers call \<open>req.login\<close> and \<open>req.logout\<close> only on the session
    of the request, so a request never touches the session of another
    client.

  \<^item> \<open>extends s s'\<close>: the users and the secrets of \<open>s\<close> are prefixes of those of
    \<open>s'\<close> and the id counter did not decrease. The handlers only ever call
    \<open>save\<close> on new documents, so both collections are append-only.

  Both are proved handler by handler and then for \<open>handle\<close>; \<open>extends\<close> is
  lifted to runs of client actions.
\<close>

section \<open>Sessions of other clients\<close>

definition keeps_others :: "token option \<Rightarrow> session_store \<Rightarrow> session_store \<Rightarrow> bool" where
  "keeps_others c ss ss' \<longleftrightarrow>
     next_token ss \<le> next_token ss' \<and>
     (\<forall>t < next_token ss. c \<noteq> Some t \<longrightarrow> restore (Some t) ss' = restore (Some t) ss)"

lemma keeps_others_refl [simp]: "keeps_others c ss ss"
  by (simp add: keeps_others_def)

lemma keeps_othersD:
  "keeps_others c ss ss' \<Longrightarrow> t < next_token ss \<Longrightarrow> c \<noteq> Some t \<Longrightarrow>
   restore (Some t) ss' = restore (Some t) ss"
  by (simp add: keeps_others_def)

lemma keeps_others_login:
  "req_login ok u c ss = Inr (t, ss') \<Longrightarrow> keeps_others c ss ss'"
  by (auto simp: keeps_others_def req_login_def restore_def map_of_drop_binding
        split: if_splits)

lemma keeps_others_logout:
  "req_logout ok c ss = Inr ss' \<Longrightarrow> keeps_others c ss ss'"
  by (auto simp: keeps_others_def req_logout_def restore_def map_of_drop_binding
        split: if_splits)

text \<open>Two steps compose when the second acts on the cookie of the first or
  on a token the first issued.\<close>

lemma keeps_others_trans:
  assumes "keeps_others c ss ss1" and "keeps_others c' ss1 ss2"
    and "c' = c \<or> (\<exists>t. c' = Some t \<and> next_token ss \<le> t)"
  shows "keeps_others c ss ss2"
  using assms by (fastforce simp: keeps_others_def)

lemma keeps_others_authenticate_local:
  "keeps_others (cookie r) (sessions s) (sessions (snd (authenticate_local k x r s)))"
  by (cases "fst (authenticate_local k x r s)")
     (auto dest: authenticate_local_Inl authenticate_local_Inr keeps_others_login)

lemma keeps_others_authenticate_oauth:
  "keeps_others (cookie r) (sessions s) (sessions (snd (authenticate_oauth pv l x r s)))"
  by (cases "fst (authenticate_oauth pv l x r s)")
     (auto simp: authenticate_oauth_sessions_Inl
        dest: authenticate_oauth_Inr keeps_others_login)

lemma keeps_others_post_register:
  "keeps_others (cookie r) (sessions s) (sessions (snd (post_register k x r s)))"
proof (cases "fst (register_of k x r s)")
  case (Inl e)
  then show ?thesis by (simp add: post_register_sessions_refused)
next
  case (Inr u)
  with keeps_others_authenticate_local [of r "s\<lparr>store := snd (register_of k x r s)\<rparr>" k x]
  show ?thesis by (simp add: post_register_registered)
qed

lemma keeps_others_after_first_login:
  "keeps_others (cookie r) (sessions s) (sessions (after_first_login r s))"
  by (auto simp: keeps_others_def after_first_login_def restore_def map_of_drop_binding)

lemma keeps_others_post_login:
  "keeps_others (cookie r) (sessions s) (sessions (snd (post_login k x r s)))"
proof (cases "session_ok x")
  case False
  then show ?thesis by (simp add: post_login_session_down)
next
  case True
  let ?r = "r\<lparr>cookie := Some (next_token (sessions s))\<rparr>"
  have "keeps_others (cookie ?r) (sessions (after_first_login r s))
      (sessions (snd (authenticate_local k x ?r (after_first_login r s))))"
    by (rule keeps_others_authenticate_local)
  with keeps_others_after_first_login [of r s] True show ?thesis
    by (auto simp: snd_post_login intro: keeps_others_trans)
qed

lemma keeps_others_get_logout:
  "keeps_others (cookie r) (sessions s) (sessions (snd (get_logout x r s)))"
  by (cases "session_ok x")
     (auto simp: get_logout_ok get_logout_failed keeps_others_def restore_def
        map_of_drop_binding)

lemma keeps_others_oauth_callback:
  "keeps_others (cookie r) (sessions s) (sessions (snd (oauth_callback pv x r s)))"
  by (simp add: oauth_callback_eq keeps_others_authenticate_oauth)

lemma keeps_others_dispatch:
  "keeps_others (cookie r) (sessions s) (sessions (snd (dispatch rt k cfg x r s)))"
proof (cases rt)
  case GetAuthGoogleSecrets
  with keeps_others_oauth_callback [of r s Google] show ?thesis
    by (simp add: oauth_callback_def)
next
  case GetAuthFacebookSecrets
  with keeps_others_oauth_callback [of r s Facebook] show ?thesis
    by (simp add: oauth_callback_def)
qed (simp_all add: keeps_others_post_register keeps_others_post_login keeps_others_get_logout)

lemma keeps_others_handle:
  "keeps_others (cookie r) (sessions s) (sessions (snd (handle k cfg x r s)))"
  using keeps_others_dispatch [of "session_middleware r s" s]
  by (cases "route_of (req_method r) (req_path r)")
     (simp_all add: handle_no_route handle_route)

section \<open>A cookie that is set names a session\<close>

definition binds_cookie :: "response \<times> server \<Rightarrow> bool" where
  "binds_cookie out \<longleftrightarrow>
     (\<forall>t. set_cookie (fst out) = Some t \<longrightarrow> restore (Some t) (sessions (snd out)) \<noteq> None)"

lemma binds_cookie_respond [simp]: "binds_cookie (respond rp s)"
  by (simp add: binds_cookie_def)

lemma binds_cookie_then_redirect:
  assumes "\<And>t. fst m = Inr t \<Longrightarrow> restore (Some t) (sessions (snd m)) \<noteq> None"
  shows "binds_cookie (then_redirect l m)"
  using assms by (cases m; cases "fst m") (auto simp: binds_cookie_def)

lemma binds_cookie_post_register: "binds_cookie (post_register k x r s)"
proof (cases "fst (register_of k x r s)")
  case (Inl e)
  then show ?thesis by (simp add: post_register_refused)
next
  case (Inr u)
  have "binds_cookie (then_redirect ''/secrets''
      (authenticate_local k x r (s\<lparr>store := snd (register_of k x r s)\<rparr>)))"
    by (rule binds_cookie_then_redirect)
       (auto dest!: authenticate_local_Inr dest: restore_after_login)
  with Inr show ?thesis by (simp add: post_register_registered)
qed

lemma binds_cookie_post_login: "binds_cookie (post_login k x r s)"
proof (cases "session_ok x")
  case False
  then show ?thesis by (simp add: post_login_session_down)
next
  case True
  from post_login_sets_cookie [OF True, of k r s] show ?thesis
    by (auto simp: binds_cookie_def)
qed

lemma binds_cookie_oauth_callback: "binds_cookie (oauth_callback pv x r s)"
  unfolding oauth_callback_eq
  by (rule binds_cookie_then_redirect)
     (auto dest!: authenticate_oauth_Inr dest: restore_after_login)

lemma binds_cookie_dispatch: "binds_cookie (dispatch rt k cfg x r s)"
proof (cases rt)
  case GetAuthGoogleSecrets
  with binds_cookie_oauth_callback [of Google] show ?thesis
    by (simp add: oauth_callback_def)
next
  case GetAuthFacebookSecrets
  with binds_cookie_oauth_callback [of Facebook] show ?thesis
    by (simp add: oauth_callback_def)
next
  case GetLogout
  then show ?thesis
    by (cases "session_ok x") (simp_all add: get_logout_ok get_logout_failed)
next
  case PostSubmit
  then show ?thesis
    by (cases "req_user r"; cases "db_ok x")
       (simp_all add: post_submit_unauthenticated post_submit_saved post_submit_failed)
qed (simp_all add: binds_cookie_post_register binds_cookie_post_login get_submit_cases
       get_password_cases get_secrets_cases post_password_cases get_root_def get_register_def
       get_login_def get_auth_google_def get_auth_facebook_def)

lemma binds_cookie_handle: "binds_cookie (handle k cfg x r s)"
  by (cases "route_of (req_method r) (req_path r)")
     (simp_all add: handle_no_route handle_route binds_cookie_dispatch)

section \<open>The collections only grow\<close>

definition extends :: "server \<Rightarrow> server \<Rightarrow> bool" where
  "extends s s' \<longleftrightarrow>
     prefix (users (store s)) (users (store s')) \<and>
     prefix (secrets (store s)) (secrets (store s')) \<and>
     next_oid (store s) \<le> next_oid (store s')"

lemma extends_refl [simp]: "extends s s"
  by (simp add: extends_def)

lemma extends_trans [trans]: "extends s s1 \<Longrightarrow> extends s1 s2 \<Longrightarrow> extends s s2"
  by (auto simp: extends_def)

lemma extendsI:
  assumes "prefix (users (store s)) (users d)" and "secrets d = secrets (store s)"
    and "next_oid (store s) \<le> next_oid d" and "store s' = d"
  shows "extends s s'"
  using assms by (simp add: extends_def)

lemma prefix_register: "prefix (users d) (users (snd (register k ok sl n p d)))"
  by (simp add: register_users split: sum.splits)

lemma prefix_verify: "prefix (users d) (users (snd (verify pv ok pr d)))"
  by (cases pv)
     (auto simp: verify_def google_verify_def facebook_verify_def User_findOrCreate_def
        findOrCreate_users split: option.splits)

lemma extends_post_register: "extends s (snd (post_register k x r s))"
  by (rule extendsI [where d = "snd (register_of k x r s)"])
     (simp_all add: prefix_register register_secrets register_next_oid)

lemma extends_post_login: "extends s (snd (post_login k x r s))"
proof (cases "session_ok x")
  case False
  then show ?thesis by (simp add: post_login_session_down extends_def)
next
  case True
  then have "next_oid (store (snd (post_login k x r s))) = Suc (next_oid (store s))"
    by (simp add: snd_post_login)
  then show ?thesis by (simp add: extends_def)
qed

lemma extends_post_submit: "extends s (snd (post_submit x r s))"
  by (cases "req_user r"; cases "db_ok x")
     (simp_all add: extends_def post_submit_unauthenticated post_submit_saved
        post_submit_failed)

lemma extends_get_logout: "extends s (snd (get_logout x r s))"
  by (simp add: extends_def)

lemma extends_oauth_callback: "extends s (snd (oauth_callback pv x r s))"
  by (cases "oauth x")
     (simp_all add: extends_def oauth_callback_eq authenticate_oauth_store prefix_verify
        next_oid_verify)

lemma extends_dispatch: "extends s (snd (dispatch rt k cfg x r s))"
proof (cases rt)
  case GetAuthGoogleSecrets
  with extends_oauth_callback [of s Google] show ?thesis
    by (simp add: oauth_callback_def)
next
  case GetAuthFacebookSecrets
  with extends_oauth_callback [of s Facebook] show ?thesis
    by (simp add: oauth_callback_def)
qed (simp_all add: extends_post_register extends_post_login extends_post_submit
       extends_get_logout)

lemma extends_handle: "extends s (snd (handle k cfg x r s))"
  by (cases "route_of (req_method r) (req_path r)")
     (simp_all add: handle_no_route handle_route extends_dispatch)

lemma extends_run: "extends (srv w) (srv (snd (run k cfg as w)))"
proof (induction as arbitrary: w)
  case Nil
  show ?case by simp
next
  case (Cons a as)
  have "extends (srv w) (srv (snd (exec k cfg a w)))"
    by (simp add: extends_handle)
  also have "extends \<dots> (srv (snd (run k cfg as (snd (exec k cfg a w)))))"
    by (rule Cons.IH)
  finally show ?case by (simp add: Let_def)
qed

section \<open>Which routes write which collection\<close>

lemma oauth_callback_secrets [frame, simp]:
  "secrets (store (snd (oauth_callback pv x r s))) = secrets (store s)"
  by (simp add: oauth_callback_eq authenticate_oauth_store split: option.splits)

lemma dispatch_secrets:
  "secrets (store (snd (dispatch rt k cfg x r s))) =
     (if rt = PostSubmit then secrets (store (snd (post_submit x r s)))
      else secrets (store s))"
proof (cases rt)
  case GetAuthGoogleSecrets
  with oauth_callback_secrets [of Google x r s] show ?thesis
    by (simp add: oauth_callback_def)
next
  case GetAuthFacebookSecrets
  with oauth_callback_secrets [of Facebook x r s] show ?thesis
    by (simp add: oauth_callback_def)
qed simp_all

lemma dispatch_users:
  "rt \<notin> {PostRegister, GetAuthGoogleSecrets, GetAuthFacebookSecrets} \<Longrightarrow>
   users (store (snd (dispatch rt k cfg x r s))) = users (store s)"
  by (cases rt) simp_all

lemma route_of_PostSubmit:
  "route_of m p = Some PostSubmit \<longleftrightarrow> m = POST \<and> p = ''/submit''"
  by (auto dest!: route_of_SomeD simp: route_table_def)

lemma route_of_writers:
  "route_of m p = Some PostRegister \<longleftrightarrow> m = POST \<and> p = ''/register''"
  "route_of m p = Some GetAuthGoogleSecrets \<longleftrightarrow> m = GET \<and> p = ''/auth/google/secrets''"
  "route_of m p = Some GetAuthFacebookSecrets \<longleftrightarrow> m = GET \<and> p = ''/auth/facebook/secrets''"
  by (auto dest!: route_of_SomeD simp: route_table_def)

text \<open>A secret once on the board stays on it, at the same position.\<close>

lemma extends_secret_kept:
  assumes "extends s s'" and "i < length (secrets (store s))"
  shows "secrets (store s') ! i = secrets (store s) ! i"
  using assms by (auto simp: extends_def prefix_def nth_append)

end
