(* ===== verification/Abstract_Board.thy ===== *)
theory Abstract_Board
  imports Request_Effects
begin

text \<open>
  What the application promises, as an abstract machine, and the proof that
  the server of \<^verbatim>\<open>src/index.js\<close> implements it.

  The abstract state is a board of posts, each a text with its author, and
  a table saying which token is logged in as which identity. It has three
  moves: a login under a token that is not in use (which ends the session the
  login was made from), a logout of a token, and a post by a token that is
  logged in, signed with the identity of that token. There are no users, no
  passwords, no object ids of documents and no cookies set in replies.

  \<open>abstraction\<close> maps a server state to its abstract state. The refinement
  lemmas show that every request, on every route and with every outcome of
  the store, the session store and the provider, is matched by a finite
  sequence of abstract moves (none for a page view, one for a submission, a
  registration, a provider callback and a logout, up to two for
  \<^verbatim>\<open>POST /login\<close>), and hence that every reachable world abstracts to a state
  the abstract machine reaches from the empty board. Properties of the
  abstract machine proved by rule induction carry over to the server.
\<close>

section \<open>The abstract machine\<close>

record board =
  posts :: "(js_string \<times> object_id option) list"
  logged_in :: "token \<Rightarrow> object_id option"

definition empty_board :: board where
  "empty_board = \<lparr>posts = [], logged_in = (\<lambda>_. None)\<rparr>"

definition forget :: "token option \<Rightarrow> (token \<Rightarrow> object_id option) \<Rightarrow> token \<Rightarrow> object_id option" where
  "forget c f = (case c of None \<Rightarrow> f | Some t \<Rightarrow> f(t := None))"

inductive astep :: "board \<Rightarrow> board \<Rightarrow> bool" where
  enter: "logged_in b t = None \<Longrightarrow>
          astep b (b\<lparr>logged_in := (forget c (logged_in b))(t \<mapsto> i)\<rparr>)"
| leave: "astep b (b\<lparr>logged_in := forget c (logged_in b)\<rparr>)"
| post: "logged_in b t = Some i \<Longrightarrow>
         astep b (b\<lparr>posts := posts b @ [(txt, Some i)]\<rparr>)"

inductive_cases astepE: "astep b b'"

definition areachable :: "board \<Rightarrow> bool" where
  "areachable b \<longleftrightarrow> astep\<^sup>*\<^sup>* empty_board b"

lemma forget_simps [simp]:
  "forget None f = f"
  "forget (Some t) f = f(t := None)"
  by (simp_all add: forget_def)

lemma forget_apply: "forget c f t = (if c = Some t then None else f t)"
  by (cases c) auto

section \<open>Properties of the abstract machine\<close>

text \<open>Posts are never removed or changed, and every post is signed.\<close>

definition signed :: "board \<Rightarrow> bool" where
  "signed b \<longleftrightarrow> (\<forall>p \<in> set (posts b). snd p \<noteq> None)"

lemma astep_prefix: "astep b b' \<Longrightarrow> prefix (posts b) (posts b')"
  by (induction rule: astep.induct) simp_all

lemma astep_signed: "astep b b' \<Longrightarrow> signed b \<Longrightarrow> signed b'"
  by (induction rule: astep.induct) (auto simp: signed_def)

lemma asteps_prefix: "astep\<^sup>*\<^sup>* b b' \<Longrightarrow> prefix (posts b) (posts b')"
  by (induction rule: rtranclp_induct) (auto dest: astep_prefix intro: prefix_order.trans)

lemma asteps_signed: "astep\<^sup>*\<^sup>* b b' \<Longrightarrow> signed b \<Longrightarrow> signed b'"
  by (induction rule: rtranclp_induct) (auto dest: astep_signed)

lemma areachable_signed: "areachable b \<Longrightarrow> signed b"
  unfolding areachable_def by (erule asteps_signed) (simp add: signed_def empty_board_def)

text \<open>A post is signed by an identity that was logged in when it was made:
  a step that adds a post adds exactly one, signed by a logged-in token.\<close>

lemma astep_post_author:
  assumes "astep b b'" and "posts b' \<noteq> posts b"
  shows "\<exists>t i txt. logged_in b t = Some i \<and> posts b' = posts b @ [(txt, Some i)]
           \<and> logged_in b' = logged_in b"
  using assms by (induction rule: astep.induct) auto

section \<open>The abstraction\<close>

definition abs_posts :: "secret_doc list \<Rightarrow> (js_string \<times> object_id option) list" where
  "abs_posts = map (\<lambda>sc. (secret sc, userId sc))"

definition abs_sessions :: "session_store \<Rightarrow> token \<Rightarrow> object_id option" where
  "abs_sessions ss t = map_option su_userId (restore (Some t) ss)"

definition abstraction :: "server \<Rightarrow> board" where
  "abstraction s =
     \<lparr>posts = abs_posts (secrets (store s)), logged_in = abs_sessions (sessions s)\<rparr>"

lemma abstraction_simps [simp]:
  "posts (abstraction s) = abs_posts (secrets (store s))"
  "logged_in (abstraction s) = abs_sessions (sessions s)"
  by (simp_all add: abstraction_def)

lemma abstraction_init [simp]: "abstraction init_server = empty_board"
  by (auto simp: abstraction_def empty_board_def init_server_def empty_db_def abs_posts_def
        abs_sessions_def)

lemma abstraction_cong:
  "secrets (store s') = secrets (store s) \<Longrightarrow> sessions s' = sessions s \<Longrightarrow>
   abstraction s' = abstraction s"
  by (simp add: abstraction_def)

lemma abs_sessions_login:
  assumes "req_login ok u c ss = Inr (t, ss')"
  shows "abs_sessions ss' = (forget c (abs_sessions ss))(t \<mapsto> u_id u)"
  using assms
  by (auto simp: abs_sessions_def req_login_def restore_def deserializeUser_def
        serializeUser_def map_of_drop_binding forget_apply fun_eq_iff split: if_splits)

lemma abs_sessions_drop:
  "abs_sessions (ss\<lparr>bindings := drop_binding c (bindings ss)\<rparr>) = forget c (abs_sessions ss)"
  by (auto simp: abs_sessions_def restore_def map_of_drop_binding forget_apply fun_eq_iff)

lemma abs_sessions_fresh: "sess_inv ss \<Longrightarrow> abs_sessions ss (next_token ss) = None"
  by (simp add: abs_sessions_def sess_inv_fresh)

section \<open>Every request is a sequence of abstract moves\<close>

definition refines :: "server \<Rightarrow> server \<Rightarrow> bool" where
  "refines s s' \<longleftrightarrow> astep\<^sup>*\<^sup>* (abstraction s) (abstraction s')"

lemma refines_refl [simp]: "refines s s"
  by (simp add: refines_def)

lemma refines_trans [trans]: "refines s s1 \<Longrightarrow> refines s1 s2 \<Longrightarrow> refines s s2"
  unfolding refines_def by (rule rtranclp_trans)

lemma refines_same:
  "secrets (store s') = secrets (store s) \<Longrightarrow> sessions s' = sessions s \<Longrightarrow> refines s s'"
  by (simp add: refines_def abstraction_cong [of s' s])

lemma refines_login:
  assumes "sess_inv (sessions s)" and "req_login ok u c (sessions s) = Inr (t, sessions s')"
    and "secrets (store s') = secrets (store s)"
  shows "refines s s'"
proof -
  from assms(2) have t: "t = next_token (sessions s)" by (simp add: req_login_token)
  with assms(1) have "logged_in (abstraction s) t = None"
    by (simp add: abs_sessions_fresh)
  then have "astep (abstraction s)
      ((abstraction s)\<lparr>logged_in := (forget c (logged_in (abstraction s)))(t \<mapsto> u_id u)\<rparr>)"
    by (rule astep.enter)
  also have "(abstraction s)\<lparr>logged_in := (forget c (logged_in (abstraction s)))(t \<mapsto> u_id u)\<rparr>
      = abstraction s'"
    using assms(2,3) by (simp add: abstraction_def abs_sessions_login)
  finally show ?thesis unfolding refines_def by (rule r_into_rtranclp)
qed

lemma refines_logout:
  assumes "sessions s' = (sessions s)\<lparr>bindings := drop_binding c (bindings (sessions s))\<rparr>"
    and "secrets (store s') = secrets (store s)"
  shows "refines s s'"
proof -
  have "astep (abstraction s)
      ((abstraction s)\<lparr>logged_in := forget c (logged_in (abstraction s))\<rparr>)"
    by (rule astep.leave)
  also have "(abstraction s)\<lparr>logged_in := forget c (logged_in (abstraction s))\<rparr>
      = abstraction s'"
    using assms by (simp add: abstraction_def abs_sessions_drop)
  finally show ?thesis unfolding refines_def by (rule r_into_rtranclp)
qed

lemma refines_post:
  assumes "restore (Some t) (sessions s) = Some su"
    and "secrets (store s') = secrets (store s) @ [sc]"
    and "userId sc = Some (su_userId su)" and "sessions s' = sessions s"
  shows "refines s s'"
proof -
  from assms(1) have "logged_in (abstraction s) t = Some (su_userId su)"
    by (simp add: abs_sessions_def)
  then have "astep (abstraction s)
      ((abstraction s)\<lparr>posts := posts (abstraction s) @ [(secret sc, Some (su_userId su))]\<rparr>)"
    by (rule astep.post)
  also have "(abstraction s)\<lparr>posts := posts (abstraction s) @ [(secret sc, Some (su_userId su))]\<rparr>
      = abstraction s'"
    using assms(2-4) by (simp add: abstraction_def abs_posts_def)
  finally show ?thesis unfolding refines_def by (rule r_into_rtranclp)
qed

subsection \<open>The handlers\<close>

lemma refines_authenticate_local:
  assumes "sess_inv (sessions s)"
  shows "refines s (snd (authenticate_local k x r s))"
proof (cases "fst (authenticate_local k x r s)")
  case (Inl rp)
  then show ?thesis by (simp add: authenticate_local_Inl)
next
  case (Inr t)
  from authenticate_local_Inr [OF Inr] assms show ?thesis
    by (auto intro: refines_login)
qed

lemma refines_authenticate_oauth:
  assumes "sess_inv (sessions s)"
  shows "refines s (snd (authenticate_oauth pv l x r s))"
proof (cases "fst (authenticate_oauth pv l x r s)")
  case (Inl rp)
  then show ?thesis
    by (intro refines_same)
       (simp_all add: authenticate_oauth_sessions_Inl authenticate_oauth_store
          split: option.splits)
next
  case (Inr t)
  from authenticate_oauth_Inr [OF Inr] assms show ?thesis
    by (auto intro!: refines_login [where c = "cookie r"])
qed

lemma refines_post_register:
  assumes "sess_inv (sessions s)"
  shows "refines s (snd (post_register k x r s))"
proof (cases "fst (register_of k x r s)")
  case (Inl e)
  then show ?thesis
    by (intro refines_same) (simp_all add: post_register_sessions_refused)
next
  case (Inr u)
  let ?s1 = "s\<lparr>store := snd (register_of k x r s)\<rparr>"
  have "refines s ?s1" by (rule refines_same) simp_all
  also from assms have "refines ?s1 (snd (authenticate_local k x r ?s1))"
    by (intro refines_authenticate_local) simp
  finally show ?thesis using Inr by (simp add: post_register_registered)
qed

lemma refines_post_login:
  assumes "server_inv s"
  shows "refines s (snd (post_login k x r s))"
proof (cases "session_ok x")
  case False
  then show ?thesis by (simp add: post_login_session_down refines_same)
next
  case True
  let ?s1 = "after_first_login r s"
  from assms have "sess_inv (sessions s)" by (rule server_invD)
  moreover have "req_login True (login_doc r (next_oid (store s))) (cookie r) (sessions s)
      = Inr (next_token (sessions s), sessions ?s1)"
    by (simp add: req_login_def after_first_login_def)
  ultimately have "refines s ?s1" by (rule refines_login) simp
  also from server_inv_after_first_login [OF assms, of r]
  have "refines ?s1 (snd (authenticate_local k x (r\<lparr>cookie := Some (next_token (sessions s))\<rparr>) ?s1))"
    by (intro refines_authenticate_local) (rule server_invD)
  finally show ?thesis using True by (simp add: snd_post_login)
qed

lemma refines_post_submit:
  assumes "req_user r = restore (cookie r) (sessions s)"
  shows "refines s (snd (post_submit x r s))"
proof (cases "req_user r")
  case None
  then show ?thesis by (simp add: post_submit_unauthenticated)
next
  case (Some su)
  with assms obtain t where c: "cookie r = Some t"
    by (cases "cookie r") auto
  show ?thesis
  proof (cases "db_ok x")
    case True
    from Some assms c have "restore (Some t) (sessions s) = Some su" by simp
    then show ?thesis
      by (rule refines_post [where sc = "submitted_doc r su (next_oid (store s))"])
         (simp_all add: post_submit_saved [OF Some True] submitted_doc_def)
  next
    case False
    with Some show ?thesis by (simp add: post_submit_failed refines_same)
  qed
qed

lemma refines_get_logout: "refines s (snd (get_logout x r s))"
  by (cases "session_ok x")
     (simp_all add: get_logout_failed get_logout_ok refines_logout [where c = "cookie r"])

lemma refines_oauth_callback:
  "sess_inv (sessions s) \<Longrightarrow> refines s (snd (oauth_callback pv x r s))"
  by (simp add: oauth_callback_eq refines_authenticate_oauth)

lemma refines_dispatch:
  assumes "server_inv s" and "req_user r = restore (cookie r) (sessions s)"
  shows "refines s (snd (dispatch rt k cfg x r s))"
proof (cases rt)
  case GetAuthGoogleSecrets
  with refines_oauth_callback [of s Google] assms(1) show ?thesis
    by (simp add: oauth_callback_def server_invD)
next
  case GetAuthFacebookSecrets
  with refines_oauth_callback [of s Facebook] assms(1) show ?thesis
    by (simp add: oauth_callback_def server_invD)
qed (use assms in \<open>simp_all add: refines_post_register refines_post_login refines_post_submit
       refines_get_logout server_invD\<close>)

lemma refines_handle:
  assumes "server_inv s"
  shows "refines s (snd (handle k cfg x r s))"
  using assms
  by (cases "route_of (req_method r) (req_path r)")
     (simp_all add: handle_no_route handle_route refines_dispatch)

section \<open>Reachable worlds\<close>

lemma reachable_areachable:
  assumes "reachable k cfg w"
  shows "areachable (abstraction (srv w))"
  using assms
proof (induction rule: reachable.induct)
  case init
  show ?case by (simp add: areachable_def init_world_def)
next
  case (step w w')
  from step(1) have "server_inv (srv w)"
    by (auto dest: reachable_world_inv simp: world_inv_def)
  with step(2) have "refines (srv w) (srv w')"
    by (auto elim!: stepE simp: refines_handle)
  with step(3) show ?case by (auto simp: areachable_def refines_def)
qed

end
