(* ===== verification/Authentication.thy ===== *)
theory Authentication
  imports Request_Effects
begin

text \<open>
  Who can hold a session for whom. \<open>holds_session s t u\<close> says that in state
  \<open>s\<close> the token \<open>t\<close> is bound to the id of the stored user \<open>u\<close>.

  Soundness of authentication: a request that sets a cookie for a stored
  user has presented that user's credentials to the local strategy, or a
  provider profile that the verify callback resolved to that user. The
  session that \<^verbatim>\<open>POST /login\<close> opens before it checks the credentials (see
  \<open>post_login\<close>) is bound to the id of the unsaved document, which no stored
  user has.

  Containment: \<open>mints s s'\<close> says that every user of \<open>s'\<close> that is not a user of
  \<open>s\<close> has an id that \<open>s\<close> had not generated yet. It holds over every request
  and every run, so an identity that belongs to no user never becomes the
  identity of one.
\<close>

section \<open>Sessions of stored users\<close>

definition holds_session :: "server \<Rightarrow> token \<Rightarrow> user_doc \<Rightarrow> bool" where
  "holds_session s t u \<longleftrightarrow>
     u \<in> set (users (store s)) \<and>
     map_option su_userId (restore (Some t) (sessions s)) = Some (u_id u)"

lemma user_by_id:
  "db_inv d \<Longrightarrow> u \<in> set (users d) \<Longrightarrow> v \<in> set (users d) \<Longrightarrow> u_id u = u_id v \<Longrightarrow> u = v"
  by (auto simp: db_inv_def distinct_map dest: inj_onD)

lemma holds_session_login:
  assumes "db_inv (store s')" and "req_login ok v c ss = Inr (t, sessions s')"
    and "v \<in> set (users (store s'))" and "holds_session s' t u"
  shows "u = v"
proof -
  from restore_after_login [OF assms(2)] assms(4) have "u_id u = u_id v"
    by (simp add: holds_session_def serializeUser_def)
  with assms(1,3,4) show ?thesis
    by (auto simp: holds_session_def intro: user_by_id)
qed

lemma holds_session_unsaved:
  assumes "server_inv s" and "users (store s') = users (store s)"
    and "restore (Some t) (sessions s') = Some \<lparr>su_userId = next_oid (store s)\<rparr>"
  shows "\<not> holds_session s' t u"
  using assms by (auto simp: holds_session_def server_inv_def db_inv_defs)

section \<open>Soundness of the authenticating middleware\<close>

lemma authenticated_local:
  assumes "db_inv (store s)" and "fst (authenticate_local k x r s) = Inr t"
    and "holds_session (snd (authenticate_local k x r s)) t u"
  shows "authenticate k (db_ok x) (b_username (req_body r)) (b_password (req_body r)) (store s)
       = Inr u"
proof -
  from authenticate_local_Inr [OF assms(2)] obtain v
    where v: "authenticate k (db_ok x) (b_username (req_body r)) (b_password (req_body r))
          (store s) = Inr v"
      and login: "req_login (session_ok x) v (cookie r) (sessions s)
          = Inr (t, sessions (snd (authenticate_local k x r s)))"
    by blast
  from v have "v \<in> set (users (store s))" by (auto dest: authenticate_InrD)
  with assms(1,3) login have "u = v"
    by (intro holds_session_login [where s' = "snd (authenticate_local k x r s)"]) simp_all
  with v show ?thesis by simp
qed

lemma authenticated_oauth:
  assumes "db_inv (store s)" and "fst (authenticate_oauth pv l x r s) = Inr t"
    and "holds_session (snd (authenticate_oauth pv l x r s)) t u"
  shows "\<exists>pr. oauth x = Some pr \<and> fst (verify pv (db_ok x) pr (store s)) = Inr u"
proof -
  let ?s' = "snd (authenticate_oauth pv l x r s)"
  from authenticate_oauth_Inr [OF assms(2)] obtain pr v
    where pr: "oauth x = Some pr" and v: "fst (verify pv (db_ok x) pr (store s)) = Inr v"
      and st: "store ?s' = snd (verify pv (db_ok x) pr (store s))"
      and login: "req_login (session_ok x) v (cookie r) (sessions s) = Inr (t, sessions ?s')"
    by blast
  from assms(1) st have "db_inv (store ?s')" by (simp add: db_inv_verify)
  moreover from v st have "v \<in> set (users (store ?s'))" by (simp add: verify_Inr_in_store)
  ultimately have "u = v" using login assms(3) by (intro holds_session_login)
  with pr v show ?thesis by simp
qed

section \<open>Soundness of the routes that set a cookie\<close>

lemma then_redirect_cookie_Inr:
  "set_cookie (fst (then_redirect l m)) = Some t \<longleftrightarrow> fst m = Inr t"
  by (cases m; cases "fst m") auto

lemma authenticated_post_register:
  assumes "db_inv (store s)" and "set_cookie (fst (post_register k x r s)) = Some t"
    and "holds_session (snd (post_register k x r s)) t u"
  shows "authenticate k (db_ok x) (b_username (req_body r)) (b_password (req_body r))
           (store (snd (post_register k x r s))) = Inr u"
proof (cases "fst (register_of k x r s)")
  case (Inl e)
  with assms(2) show ?thesis by (simp add: post_register_refused)
next
  case (Inr v)
  let ?s1 = "s\<lparr>store := snd (register_of k x r s)\<rparr>"
  from assms(1) have "db_inv (store ?s1)" by (simp add: db_inv_register)
  moreover from assms(2) Inr have "fst (authenticate_local k x r ?s1) = Inr t"
    by (simp add: post_register_registered then_redirect_cookie_Inr)
  moreover from assms(3) Inr have "holds_session (snd (authenticate_local k x r ?s1)) t u"
    by (simp add: post_register_registered)
  ultimately have "authenticate k (db_ok x) (b_username (req_body r)) (b_password (req_body r))
      (store ?s1) = Inr u"
    by (rule authenticated_local)
  then show ?thesis by simp
qed

lemma authenticated_post_login:
  assumes "server_inv s" and "set_cookie (fst (post_login k x r s)) = Some t"
    and "holds_session (snd (post_login k x r s)) t u"
  shows "authenticate k (db_ok x) (b_username (req_body r)) (b_password (req_body r)) (store s)
       = Inr u"
proof (cases "session_ok x")
  case False
  with assms(2) show ?thesis by (simp add: post_login_session_down)
next
  case True
  let ?a = "authenticate k (db_ok x) (b_username (req_body r)) (b_password (req_body r)) (store s)"
  show ?thesis
  proof (cases ?a)
    case (Inl e)
    note out = post_login_not_verified [OF True Inl]
    from assms(2) have "t = next_token (sessions s)" by (simp add: out)
    with holds_session_unsaved [OF assms(1), of "after_first_login r s" t u] assms(3)
    show ?thesis by (simp add: out)
  next
    case (Inr v)
    note out = post_login_verified [OF True Inr]
    from Inr have "v \<in> set (users (store s))" by (auto dest: authenticate_InrD)
    moreover from assms(2) have "t = Suc (next_token (sessions s))" by (simp add: out)
    moreover from assms(1) have "db_inv (store s)" by (rule server_invD)
    ultimately have "u = v"
      using assms(3)
      by (auto simp: out holds_session_def restore_def deserializeUser_def serializeUser_def
            intro: user_by_id)
    with Inr show ?thesis by simp
  qed
qed

lemma authenticated_oauth_callback:
  assumes "db_inv (store s)" and "set_cookie (fst (oauth_callback pv x r s)) = Some t"
    and "holds_session (snd (oauth_callback pv x r s)) t u"
  shows "\<exists>pr. oauth x = Some pr \<and> fst (verify pv (db_ok x) pr (store s)) = Inr u"
  using assms
  by (intro authenticated_oauth [where l = "''/login''" and r = r and t = t])
     (simp_all add: oauth_callback_eq then_redirect_cookie_Inr)

lemma no_cookie_elsewhere:
  assumes "rt \<notin> {PostRegister, PostLogin, GetAuthGoogleSecrets, GetAuthFacebookSecrets}"
  shows "set_cookie (fst (dispatch rt k cfg x r s)) = None"
proof (cases rt)
  case GetLogout
  then show ?thesis
    by (cases "session_ok x") (simp_all add: get_logout_ok get_logout_failed)
next
  case PostSubmit
  then show ?thesis
    by (cases "req_user r"; cases "db_ok x")
       (simp_all add: post_submit_unauthenticated post_submit_saved post_submit_failed)
qed (use assms in \<open>simp_all add: get_submit_cases get_password_cases get_secrets_cases
       post_password_cases get_root_def get_register_def get_login_def get_auth_google_def
       get_auth_facebook_def\<close>)

lemma route_of_PostLogin:
  "route_of m p = Some PostLogin \<longleftrightarrow> m = POST \<and> p = ''/login''"
  by (auto dest!: route_of_SomeD simp: route_table_def)

section \<open>New users get new ids\<close>

definition mints :: "server \<Rightarrow> server \<Rightarrow> bool" where
  "mints s s' \<longleftrightarrow>
     next_oid (store s) \<le> next_oid (store s') \<and>
     (\<forall>u \<in> set (users (store s')).
        u \<in> set (users (store s)) \<or> next_oid (store s) \<le> u_id u)"

lemma mints_refl [simp]: "mints s s"
  by (simp add: mints_def)

lemma mints_trans [trans]: "mints s s1 \<Longrightarrow> mints s1 s2 \<Longrightarrow> mints s s2"
  by (fastforce simp: mints_def)

lemma mints_same_users:
  "users (store s') = users (store s) \<Longrightarrow> next_oid (store s) \<le> next_oid (store s') \<Longrightarrow>
   mints s s'"
  by (simp add: mints_def)

lemma mints_post_register: "mints s (snd (post_register k x r s))"
  by (cases "fst (register_of k x r s)")
     (auto simp: mints_def register_users dest: register_Inr_doc)

lemma mints_oauth_callback: "mints s (snd (oauth_callback pv x r s))"
proof (cases "oauth x")
  case None
  then show ?thesis by (simp add: oauth_callback_denied)
next
  case (Some pr)
  have "\<forall>u \<in> set (users (snd (verify pv (db_ok x) pr (store s)))).
      u \<in> set (users (store s)) \<or> next_oid (store s) \<le> u_id u"
    by (cases pv)
       (auto simp: verify_def google_verify_def facebook_verify_def User_findOrCreate_def
          findOrCreate_users split: option.splits)
  with Some show ?thesis
    by (simp add: mints_def oauth_callback_eq authenticate_oauth_store next_oid_verify)
qed

lemma mints_dispatch: "mints s (snd (dispatch rt k cfg x r s))"
proof (cases "rt \<in> {PostRegister, GetAuthGoogleSecrets, GetAuthFacebookSecrets}")
  case True
  with mints_post_register [of s k x r] mints_oauth_callback [of s Google x r]
    mints_oauth_callback [of s Facebook x r]
  show ?thesis by (auto simp: oauth_callback_def)
next
  case False
  with extends_dispatch [of s rt k cfg x r] show ?thesis
    by (intro mints_same_users dispatch_users) (simp_all add: extends_def)
qed

lemma mints_handle: "mints s (snd (handle k cfg x r s))"
  by (cases "route_of (req_method r) (req_path r)")
     (simp_all add: handle_no_route handle_route mints_dispatch)

lemma mints_run: "mints (srv w) (srv (snd (run k cfg as w)))"
proof (induction as arbitrary: w)
  case Nil
  show ?case by simp
next
  case (Cons a as)
  have "mints (srv w) (srv (snd (exec k cfg a w)))"
    by (simp add: mints_handle)
  also have "mints \<dots> (srv (snd (run k cfg as (snd (exec k cfg a w)))))"
    by (rule Cons.IH)
  finally show ?case by (simp add: Let_def)
qed

end
