(* ===== verification/Scenario.thy ===== *)
theory Scenario
  imports Abstract_Board Callback_Race Authentication
begin

text \<open>
  Concrete inputs on which the theorems of the development are instantiated:
  a key-derivation function, a configuration, outcomes of the external
  collaborators, requests and client actions, and two profiles of one
  provider account. None of these models code; they are the values the
  instances are evaluated at.
\<close>

section \<open>Parameters\<close>

text \<open>A derivation that prefixes the salt: distinct passwords give distinct
  keys under the same salt.\<close>

definition demo_kdf :: kdf where
  "demo_kdf s p = s @ p"

definition demo_config :: config where
  "demo_config = \<lparr>SESSION_SECRET = Some ''keyboard cat'',
     SUPER_SECRET_PASSWORD = Some ''sesame'', SUPER_SECRET_MESSAGE = Some ''42''\<rparr>"

definition all_up :: outcome where
  "all_up = \<lparr>db_ok = True, session_ok = True, fresh_salt = ''na'', oauth = None\<rparr>"

definition consent :: "profile \<Rightarrow> outcome" where
  "consent pr = all_up\<lparr>oauth := Some pr\<rparr>"

lemma demo_kdf_inj [simp]: "demo_kdf s p = demo_kdf s q \<longleftrightarrow> p = q"
  by (simp add: demo_kdf_def)

lemma all_up_simps [simp]:
  "db_ok all_up" "session_ok all_up" "fresh_salt all_up = ''na''" "oauth all_up = None"
  by (simp_all add: all_up_def)

lemma consent_simps [simp]:
  "db_ok (consent pr)" "session_ok (consent pr)" "oauth (consent pr) = Some pr"
  by (simp_all add: consent_def)

section \<open>Requests\<close>

definition credentials :: "string \<Rightarrow> string \<Rightarrow> body" where
  "credentials n p = empty_body\<lparr>b_username := Some n, b_password := Some p\<rparr>"

definition secret_form :: "string \<Rightarrow> body" where
  "secret_form t = empty_body\<lparr>b_secret := Some t\<rparr>"

definition gate_form :: "string \<Rightarrow> body" where
  "gate_form p = empty_body\<lparr>b_superPassword := Some p\<rparr>"

definition get :: "string \<Rightarrow> token option \<Rightarrow> req" where
  "get p c = \<lparr>req_method = GET, req_path = p, cookie = c, req_user = None,
     req_body = empty_body\<rparr>"

definition post :: "string \<Rightarrow> token option \<Rightarrow> body \<Rightarrow> req" where
  "post p c b = \<lparr>req_method = POST, req_path = p, cookie = c, req_user = None,
     req_body = b\<rparr>"

lemma get_simps [simp]:
  "req_method (get p c) = GET" "req_path (get p c) = p" "cookie (get p c) = c"
  "req_body (get p c) = empty_body"
  by (simp_all add: get_def)

lemma post_simps [simp]:
  "req_method (post p c b) = POST" "req_path (post p c b) = p" "cookie (post p c b) = c"
  "req_body (post p c b) = b"
  by (simp_all add: post_def)

lemma form_simps [simp]:
  "b_username (credentials n p) = Some n" "b_password (credentials n p) = Some p"
  "b_secret (secret_form t) = Some t" "b_superPassword (gate_form q) = Some q"
  "b_superPassword empty_body = None" "b_secret empty_body = None"
  "b_username empty_body = None" "b_password empty_body = None"
  by (simp_all add: credentials_def secret_form_def gate_form_def empty_body_def)

section \<open>Client actions\<close>

definition visit :: "client \<Rightarrow> string \<Rightarrow> action" where
  "visit c p = \<lparr>who = c, via = GET, at = p, form = empty_body, ext = all_up\<rparr>"

definition send :: "client \<Rightarrow> string \<Rightarrow> body \<Rightarrow> action" where
  "send c p b = \<lparr>who = c, via = POST, at = p, form = b, ext = all_up\<rparr>"

definition callback :: "client \<Rightarrow> string \<Rightarrow> profile \<Rightarrow> action" where
  "callback c p pr = \<lparr>who = c, via = GET, at = p, form = empty_body, ext = consent pr\<rparr>"

section \<open>Profiles\<close>

text \<open>One provider account seen twice, before and after its holder changed
  the display name.\<close>

definition ann :: profile where
  "ann = \<lparr>displayName = Some ''Ann'', profile_id = Some ''g-1''\<rparr>"

definition ann_renamed :: profile where
  "ann_renamed = \<lparr>displayName = Some ''Ann B'', profile_id = Some ''g-1''\<rparr>"

section \<open>Evaluation\<close>

text \<open>The unfolding rules with which a closed request evaluates.\<close>

lemmas eval_defs =
  handle_def session_middleware_def handler_defs session_defs strategy_defs store_defs
  init_server_def empty_db_def empty_sessions_def empty_body_def
  get_def post_def credentials_def secret_form_def gate_form_def
  demo_kdf_def demo_config_def all_up_def consent_def ann_def ann_renamed_def
  authenticate_local_def authenticate_oauth_def verify_def Let_def

lemmas world_defs =
  exec_def request_of_def keep_cookie_def init_world_def visit_def send_def callback_def

end
