(* ===== verification/Spec2Isabelle.thy ===== *)
theory Spec2Isabelle
  imports Scenario
begin

text \<open>
  Verification development for the Secrets web application, \<^verbatim>\<open>src/index.js\<close>:
  an Express server on which visitors register or log in (with a local
  password, through Google or through Facebook), post short texts and read
  the texts of everybody.

  \<^bold>\<open>The program and its model.\<close> The file has five parts, modelled by one
  theory each, in the order of the file.

  \<^item> \<^emph>\<open>Document store\<close> (theory \<open>Store\<close>). The schemas \<^verbatim>\<open>userModal\<close> and
    \<^verbatim>\<open>secretsModel\<close> are the records \<open>user_doc\<close> and \<open>secret_doc\<close>; the database
    is the record \<open>db\<close> of two document lists in insertion order and a counter
    from which object ids are drawn. \<open>alloc_oid\<close>, \<open>save_user\<close>, \<open>save_secret\<close>,
    \<open>find_secrets\<close>, \<open>findOne\<close> and \<open>findOrCreate\<close> are the collection calls of
    the file (\<^verbatim>\<open>new Model\<close>, \<^verbatim>\<open>save\<close>, \<^verbatim>\<open>Secret.find({})\<close>,
    \<^verbatim>\<open>User.findOrCreate\<close>).
  \<^item> \<^emph>\<open>Session manager\<close> (theory \<open>Session\<close>). \<open>serializeUser\<close> and
    \<open>deserializeUser\<close> are the two callbacks given to passport; the session
    store is an association list from tokens to serialized identities with a
    token counter; \<open>req_login\<close>, \<open>req_logout\<close>, \<open>restore\<close> and
    \<open>isAuthenticated\<close> are \<^verbatim>\<open>req.login\<close>, \<^verbatim>\<open>req.logout\<close>, the session
    middleware and \<^verbatim>\<open>req.isAuthenticated\<close>.
  \<^item> \<^emph>\<open>Strategies\<close> (theory \<open>Strategy\<close>). \<open>register\<close> and \<open>authenticate\<close> are
    \<^verbatim>\<open>User.register\<close> and the verify function of \<^verbatim>\<open>User.createStrategy()\<close>;
    \<open>google_verify\<close> and \<open>facebook_verify\<close> are the verify callbacks passed to
    \<^verbatim>\<open>GoogleStrategy\<close> and \<^verbatim>\<open>FacebookStrategy\<close>.
  \<^item> \<^emph>\<open>Routes\<close> (theory \<open>Routes\<close>). One definition per handler, named after
    method and path (\<open>get_root\<close>, \<open>get_secrets\<close>, \<open>post_login\<close>, ...), over the
    record \<open>server\<close> of the database and the session store; the middleware
    \<open>session_middleware\<close>, \<open>authenticate_local\<close>, \<open>authenticate_oauth\<close>; and the
    router \<open>handle\<close>, which looks the route up in \<open>route_table\<close> (the
    registration order of the file) and calls \<open>dispatch\<close>.
  \<^item> \<^emph>\<open>Clients\<close> (theory \<open>Browser\<close>). Browsers with cookie jars around the
    server: \<open>exec\<close>, \<open>run\<close>, the step relation \<open>step\<close> and \<open>reachable\<close>.

  A handler is a function from the request and the server state to a
  response and the next state. Every callback of the source is a branch:
  a failing database or session store and a denied OAuth consent are inputs
  of the request (record \<open>outcome\<close>), and so is the salt of a registration.
  Errors are values of \<open>error + 'a\<close>. A request that the source never answers
  (the error branch of \<^verbatim>\<open>/logout\<close>) replies \<open>NoReply\<close>.

  \<^bold>\<open>What comes from where.\<close> The records, the two passport callbacks, the
  two verify callbacks, the middleware order, every handler and the routing
  table are translated from \<^verbatim>\<open>src/index.js\<close>. The behaviour of the libraries
  the file calls is not in the repository; it is modelled from the
  specification: the local strategy (\<open>register\<close>, \<open>authenticate\<close>: duplicate
  check on users that hold a credential, lookup by username, salted key
  comparison), find-or-create, the session store (\<open>req_login\<close> binds a fresh
  token and drops the request's old one, \<open>req_logout\<close> drops it), and the
  default replies of \<^verbatim>\<open>passport.authenticate\<close> without a failure redirect
  (400, 401, 500). The key-derivation function is a parameter of the model.

  \<^bold>\<open>Lemma groups.\<close> \<open>Secrets_Prelude\<close>: the collections of facts
  (\<open>store_defs\<close>, \<open>session_defs\<close>, \<open>strategy_defs\<close>, \<open>handler_defs\<close>, \<open>frame\<close>,
  \<open>inv_keep\<close>), JavaScript values, errors, and the list and association-list
  lemmas the components share. \<open>Store\<close>: frames, lookup after insert,
  \<open>db_inv\<close> (ids below the counter and distinct, no plaintext password
  stored). \<open>Session\<close>: restore after login and logout, \<open>sess_inv\<close>.
  \<open>Strategy\<close>: every branch of \<open>register\<close> and \<open>authenticate\<close>, the user a
  verify callback returns. \<open>Route_Behaviour\<close> and \<open>Login_Behaviour\<close>: reply
  and state of every handler on every branch. \<open>Server_Invariant\<close>:
  \<open>server_inv\<close> kept by every handler. \<open>Browser\<close>: cookies are fresh,
  \<open>world_inv\<close> for reachable worlds, reachability as runs.
  \<open>Request_Effects\<close>: three relations between the states before and after a
  request, each proved for every handler and for \<open>handle\<close>: \<open>keeps_others\<close>
  (the sessions of other clients are untouched), \<open>binds_cookie\<close> (a cookie
  that is set names a session) and \<open>extends\<close> (users and secrets only grow);
  and which routes write which collection. \<open>Abstract_Board\<close>: the abstract
  machine \<open>astep\<close> on boards (logins, logouts, signed posts), the
  \<open>abstraction\<close> of a server state, and the refinement lemmas
  \<open>refines_handle\<close> and \<open>reachable_areachable\<close>. \<open>Callback_Race\<close>:
  find-or-create as a lookup and an insert (\<open>foc_step\<close>) of several
  callbacks under a schedule (\<open>sched\<close>); the store invariant and the bound of
  one created user per callback for every schedule. \<open>Authentication\<close>:
  \<open>holds_session\<close>, soundness of every route that sets a cookie, and \<open>mints\<close>
  (new users get ids the server had not generated before) for every request
  and run. \<open>Scenario\<close>: the concrete inputs of the instances. This theory:
  the end-to-end properties of the specification, the refinement theorems,
  and what the model shows where code and specification differ. The
  properties are numbered by importance and grouped in sections by subject;
  each is followed by an instance on concrete requests, evaluated with the
  definitions.

  \<^bold>\<open>Where code and specification differ.\<close> \<^verbatim>\<open>POST /login\<close> logs the
  request in before it checks the credentials (\<open>rejected_login_opens_session\<close>,
  \<open>secret_author_may_dangle\<close>); a failed login is answered 401, not
  redirected; the verify callbacks look users up by display name and provider
  id together (\<open>provider_id_not_unique\<close>); \<^verbatim>\<open>POST /submit\<close>, \<^verbatim>\<open>GET /logout\<close> and
  \<^verbatim>\<open>POST /password\<close> have no authentication check
  (\<open>submit_without_session_fails\<close>, \<open>logout_without_session\<close>, \<open>password_gate\<close>);
  a logout error is never answered (\<open>logout_error_never_answers\<close>); the gate
  opens when nothing is configured (\<open>gate_opens_when_unset\<close>); a registration
  under a name held by a provider account cannot log in
  (\<open>registration_shadowed_by_federated_account\<close>); two overlapping first
  logins of one provider account create two users
  (\<open>concurrent_callbacks_duplicate_user\<close>).

  \<^bold>\<open>Bounds.\<close> Object ids and session tokens are natural numbers drawn from
  counters; the source compares them for equality only. No loop of the
  source is unbounded, so no fuel is used; \<open>run\<close> recurses on the list of
  requests. A request is matched by at most two abstract moves.

  \<^bold>\<open>Not modelled.\<close> Template rendering (a view is its name and its data),
  static files, body parsing (a request carries its parsed fields), the
  database connection, the signing of the session cookie, the OAuth code
  exchange (its result is an input), and the removal of dollar-sign values
  by the find-or-create plugin. Outside \<open>Callback_Race\<close> a request is one
  atomic step.

  \<^bold>\<open>Plan.\<close> Done: store, sessions, strategies, all fifteen routes, the
  router, clients, invariants, effects of a request, the abstract board with
  its refinement proof, overlapping find-or-create, soundness of
  authentication, the end-to-end properties below. Next: accounts in the
  abstract machine (who may log in as whom), requests of different routes
  that overlap inside the store, and expiry of sessions.
\<close>

section \<open>Pages behind the authentication check\<close>

text \<open>
  C1. A \<^verbatim>\<open>GET\<close> of \<^verbatim>\<open>/submit\<close>, \<^verbatim>\<open>/secrets\<close> or \<^verbatim>\<open>/password\<close> whose cookie is bound to
  no identity is answered with a redirect that a browser resolves to
  \<^verbatim>\<open>/login\<close>; no cookie is set and the server state is unchanged.
\<close>

theorem guarded_pages_redirect:
  assumes "restore (cookie r) (sessions s) = None" and "req_method r = GET"
    and "req_path r = ''/submit'' \<or> req_path r = ''/secrets'' \<or> req_path r = ''/password''"
  shows "(\<exists>l. reply (fst (handle k cfg x r s)) = Redirect l
            \<and> resolve (req_path r) l = ''/login'')
       \<and> set_cookie (fst (handle k cfg x r s)) = None
       \<and> snd (handle k cfg x r s) = s"
  using assms
  by (auto simp: handle_route get_submit_cases get_secrets_cases get_password_cases)

theorem guarded_pages_redirect_witness:
  "restore (cookie (get ''/password'' (Some 7))) (sessions init_server) = None
   \<and> reply (fst (handle demo_kdf demo_config all_up (get ''/password'' (Some 7)) init_server))
       = Redirect ''login''
   \<and> snd (handle demo_kdf demo_config all_up (get ''/password'' (Some 7)) init_server)
       = init_server"
  using guarded_pages_redirect [of "get ''/password'' (Some 7)" init_server
      demo_kdf demo_config all_up]
  by (simp add: eval_defs)

section \<open>Local login\<close>

text \<open>
  C3. \<^verbatim>\<open>POST /login\<close> establishes a session before the credentials are
  verified. When the credentials are rejected the reply is 401, but the reply
  carries a session cookie, and a following \<^verbatim>\<open>GET /secrets\<close> with that cookie
  is served the board.
\<close>

theorem rejected_login_opens_session:
  assumes "req_method r = POST" and "req_path r = ''/login''" and "session_ok x"
    and "authenticate k (db_ok x) (b_username (req_body r)) (b_password (req_body r))
           (store s) = Inl InvalidCredentials"
    and "req_method r' = GET" and "req_path r' = ''/secrets''" and "db_ok x'"
    and "cookie r' = set_cookie (fst (handle k cfg x r s))"
  shows "reply (fst (handle k cfg x r s)) = Status 401
       \<and> reply (fst (handle k cfg x' r' (snd (handle k cfg x r s))))
           = Render ''secrets'' (Secrets (secrets (store s)))"
proof -
  let ?r = "session_middleware r s"
  from assms(1,2) have h: "handle k cfg x r s = post_login k x ?r s"
    by (simp add: handle_route)
  from assms(3,4) have rej: "reply (fst (post_login k x ?r s)) = Status 401"
      "set_cookie (fst (post_login k x ?r s)) = Some (next_token (sessions s))"
      "restore (Some (next_token (sessions s))) (sessions (snd (post_login k x ?r s)))
         = Some \<lparr>su_userId = next_oid (store s)\<rparr>"
    by (simp_all add: post_login_rejected)
  with assms(5-8) show ?thesis
    by (simp add: h handle_route get_secrets_cases)
qed

theorem rejected_login_opens_session_witness:
  "authenticate demo_kdf True (Some ''eve'') (Some ''guess'') (store init_server)
     = Inl InvalidCredentials
   \<and> reply (fst (handle demo_kdf demo_config all_up
        (post ''/login'' None (credentials ''eve'' ''guess'')) init_server)) = Status 401
   \<and> reply (fst (handle demo_kdf demo_config all_up (get ''/secrets'' (Some 0))
        (snd (handle demo_kdf demo_config all_up
           (post ''/login'' None (credentials ''eve'' ''guess'')) init_server))))
       = Render ''secrets'' (Secrets [])"
  using rejected_login_opens_session [of "post ''/login'' None (credentials ''eve'' ''guess'')"
      all_up demo_kdf init_server "get ''/secrets'' (Some 0)" all_up demo_config]
  by (simp add: eval_defs)

text \<open>
  C4. Registration followed by login. If nobody holds the username, a
  \<^verbatim>\<open>POST /register\<close> with a non-empty username and password is answered with
  a redirect to \<^verbatim>\<open>/secrets\<close>, and a following \<^verbatim>\<open>POST /login\<close> with the same
  fields is answered the same way, with a cookie bound to the id of a stored
  user of that name.
\<close>

theorem register_then_login:
  assumes "req_method r = POST" and "req_path r = ''/register''"
    and "req_method r' = POST" and "req_path r' = ''/login''"
    and "req_body r' = req_body r"
    and "truthy (b_username (req_body r))" and "truthy (b_password (req_body r))"
    and "findByUsername (b_username (req_body r)) (store s) = None"
    and "db_ok x" and "session_ok x" and "db_ok x'" and "session_ok x'"
  shows "reply (fst (handle k cfg x r s)) = Redirect ''/secrets''
       \<and> reply (fst (handle k cfg x' r' (snd (handle k cfg x r s)))) = Redirect ''/secrets''
       \<and> (\<exists>t u. set_cookie (fst (handle k cfg x' r' (snd (handle k cfg x r s)))) = Some t
             \<and> restore (Some t)
                 (sessions (snd (handle k cfg x' r' (snd (handle k cfg x r s)))))
                 = Some (serializeUser u)
             \<and> u \<in> set (users (store (snd (handle k cfg x r s))))
             \<and> username u = b_username (req_body r))"
proof -
  let ?r = "session_middleware r s"
  define s1 where "s1 = snd (handle k cfg x r s)"
  let ?r' = "session_middleware r' s1"
  from assms(1,2) have h: "handle k cfg x r s = post_register k x ?r s"
    by (simp add: handle_route)
  from assms(3,4) have h': "handle k cfg x' r' s1 = post_login k x' ?r' s1"
    by (simp add: handle_route)
  from assms(6-9) have "\<exists>u. fst (register_of k x ?r s) = Inr u"
    by (auto simp: register_Inr_iff has_credential_def findByUsername_def findOne_None_iff
          matches_def)
  then obtain u where reg: "fst (register_of k x ?r s) = Inr u" ..
  from reg assms(8,10) have first: "reply (fst (handle k cfg x r s)) = Redirect ''/secrets''"
    by (simp add: h post_register_fresh_name)
  from reg assms(8,9,11) have auth: "authenticate k (db_ok x') (b_username (req_body ?r'))
      (b_password (req_body ?r')) (store s1) = Inr u"
    using authenticate_after_register [OF reg] by (simp add: s1_def h assms(5))
  from auth have "u \<in> set (users (store s1))" and "username u = b_username (req_body r)"
    by (auto dest: authenticate_InrD simp: assms(5))
  with first post_login_accepted [OF assms(12) auth] show ?thesis
    unfolding s1_def [symmetric] by (auto simp: h')
qed

theorem register_then_login_witness:
  "findByUsername (Some ''ann'') (store init_server) = None
   \<and> reply (fst (handle demo_kdf demo_config all_up
        (post ''/register'' None (credentials ''ann'' ''pw'')) init_server))
       = Redirect ''/secrets''
   \<and> reply (fst (handle demo_kdf demo_config all_up
        (post ''/login'' None (credentials ''ann'' ''pw''))
        (snd (handle demo_kdf demo_config all_up
           (post ''/register'' None (credentials ''ann'' ''pw'')) init_server))))
       = Redirect ''/secrets''"
  using register_then_login [of "post ''/register'' None (credentials ''ann'' ''pw'')"
      "post ''/login'' None (credentials ''ann'' ''pw'')" init_server all_up all_up
      demo_kdf demo_config]
  by (simp add: findByUsername_def findOne_def init_server_def empty_db_def)

text \<open>
  C5. A wrong password is rejected. After a registration under a fresh
  username, a \<^verbatim>\<open>POST /login\<close> with that username and a password whose derived
  key differs from the registered one is answered 401, and the identity that
  the cookie of the reply is bound to is the id of no stored user.
\<close>

theorem wrong_password_rejected:
  assumes "req_method r = POST" and "req_path r = ''/register''"
    and "req_method r' = POST" and "req_path r' = ''/login''"
    and "b_username (req_body r') = b_username (req_body r)"
    and "truthy (b_username (req_body r))"
    and "b_password (req_body r) = Some pw" and "pw \<noteq> []"
    and "b_password (req_body r') = Some pw'" and "pw' \<noteq> []"
    and "k (fresh_salt x) pw' \<noteq> k (fresh_salt x) pw"
    and "findByUsername (b_username (req_body r)) (store s) = None"
    and "db_ok x" and "db_ok x'" and "session_ok x'" and "server_inv s"
  shows "reply (fst (handle k cfg x' r' (snd (handle k cfg x r s)))) = Status 401
       \<and> (\<forall>t su. set_cookie (fst (handle k cfg x' r' (snd (handle k cfg x r s)))) = Some t
             \<longrightarrow> restore (Some t)
                   (sessions (snd (handle k cfg x' r' (snd (handle k cfg x r s))))) = Some su
             \<longrightarrow> su_userId su
                   \<notin> u_id ` set (users (store (snd (handle k cfg x' r' (snd (handle k cfg x r s)))))))"
proof -
  let ?r = "session_middleware r s"
  define s1 where "s1 = snd (handle k cfg x r s)"
  let ?r' = "session_middleware r' s1"
  from assms(1,2) have h: "handle k cfg x r s = post_register k x ?r s"
    by (simp add: handle_route)
  from assms(3,4) have h': "handle k cfg x' r' s1 = post_login k x' ?r' s1"
    by (simp add: handle_route)
  from assms(6-8,12,13) have "\<exists>u. fst (register_of k x ?r s) = Inr u"
    by (auto simp: register_Inr_iff has_credential_def findByUsername_def findOne_None_iff
          matches_def)
  then obtain u where reg: "fst (register_of k x ?r s) = Inr u" ..
  from reg assms(7) have reg': "fst (register k (db_ok x) (fresh_salt x)
      (b_username (req_body r)) (Some pw) (store s)) = Inr u"
    by simp
  from authenticate_after_register_wrong [OF reg' assms(12,11)] assms(5,7,9,10,13,14)
  have rej: "authenticate k (db_ok x') (b_username (req_body ?r')) (b_password (req_body ?r'))
      (store s1) = Inl InvalidCredentials"
    by (simp add: s1_def h)
  from assms(16) have "server_inv s1"
    unfolding s1_def by (rule server_inv_handle)
  then have "\<forall>v \<in> set (users (store s1)). u_id v < next_oid (store s1)"
    by (auto simp: server_inv_def db_inv_defs)
  then have "next_oid (store s1) \<notin> u_id ` set (users (store s1))" by auto
  with post_login_rejected [OF assms(15) rej] show ?thesis
    unfolding s1_def [symmetric] by (auto simp: h')
qed

theorem wrong_password_rejected_witness:
  "server_inv init_server
   \<and> demo_kdf (fresh_salt all_up) ''pq'' \<noteq> demo_kdf (fresh_salt all_up) ''pw''
   \<and> reply (fst (handle demo_kdf demo_config all_up
        (post ''/login'' None (credentials ''ann'' ''pq''))
        (snd (handle demo_kdf demo_config all_up
           (post ''/register'' None (credentials ''ann'' ''pw'')) init_server))))
       = Status 401"
  using wrong_password_rejected [of "post ''/register'' None (credentials ''ann'' ''pw'')"
      "post ''/login'' None (credentials ''ann'' ''pq'')" "''pw''" "''pq''" demo_kdf all_up
      init_server all_up demo_config]
  by (simp add: findByUsername_def findOne_def init_server_def empty_db_def
        server_inv_init [unfolded init_server_def empty_db_def])

section \<open>Federated login\<close>

text \<open>
  C8. A federated login is idempotent under repetition: running the Google
  or the Facebook verify callback a second time with the same profile returns
  the user of the first run and leaves the store as the first run left it.
\<close>

theorem federated_login_idempotent:
  "google_verify True pr (snd (google_verify True pr d)) = google_verify True pr d
   \<and> facebook_verify True pr (snd (facebook_verify True pr d)) = facebook_verify True pr d"
proof -
  have "distinct (map fst (google_conditions pr))"
    and "distinct (map fst (facebook_conditions pr))"
    by (simp_all add: google_conditions_def facebook_conditions_def)
  then show ?thesis
    by (auto simp: google_verify_def facebook_verify_def User_findOrCreate_twice
          intro!: prod_eqI)
qed

theorem federated_login_idempotent_witness:
  "fst (google_verify True ann (snd (google_verify True ann empty_db)))
     = Inr (from_conditions 0 (google_conditions ann))
   \<and> length (users (snd (google_verify True ann (snd (google_verify True ann empty_db))))) = 1"
  using federated_login_idempotent [of ann empty_db]
  by (simp add: eval_defs)

text \<open>
  C9. The provider id does not identify the user. The verify callback looks
  the user up by display name \<^emph>\<open>and\<close> provider id, so when the holder of one
  provider account logs in under two display names, the two logins return
  users with different ids that carry the same \<^verbatim>\<open>googleId\<close>, both stored.
\<close>

theorem provider_id_not_unique:
  assumes "db_inv d" and "displayName pr' \<noteq> displayName pr"
    and "profile_id pr' = profile_id pr"
    and "fst (google_verify True pr d) = Inr u"
    and "fst (google_verify True pr' (snd (google_verify True pr d))) = Inr u'"
  shows "u_id u' \<noteq> u_id u \<and> googleId u' = googleId u
       \<and> u \<in> set (users (snd (google_verify True pr' (snd (google_verify True pr d)))))
       \<and> u' \<in> set (users (snd (google_verify True pr' (snd (google_verify True pr d)))))"
proof -
  define d1 where "d1 = snd (google_verify True pr d)"
  define d2 where "d2 = snd (google_verify True pr' d1)"
  have dist: "distinct (map fst (google_conditions q))" for q
    by (simp add: google_conditions_def)
  from assms(4) have u: "u = fst (fst (findOrCreate (google_conditions pr) d))"
    and d1: "d1 = snd (findOrCreate (google_conditions pr) d)"
    by (simp_all add: d1_def google_verify_def User_findOrCreate_def)
  from assms(5) have u': "u' = fst (fst (findOrCreate (google_conditions pr') d1))"
    and d2: "d2 = snd (findOrCreate (google_conditions pr') d1)"
    by (simp_all add: d1_def d2_def google_verify_def User_findOrCreate_def)
  have mu: "matches (google_conditions pr) u"
    unfolding u by (rule findOrCreate_result_matches [OF dist])
  have mu': "matches (google_conditions pr') u'"
    unfolding u' by (rule findOrCreate_result_matches [OF dist])
  have "u \<in> set (users d1)"
    unfolding u d1 by (rule findOrCreate_result_stored)
  then have in2: "u \<in> set (users d2)"
    by (auto simp: d2 findOrCreate_users split: option.splits)
  have in2': "u' \<in> set (users d2)"
    unfolding u' d2 by (rule findOrCreate_result_stored)
  from assms(1) have "db_inv d2"
    by (simp add: d1 d2 db_inv_findOrCreate)
  then have "distinct (map u_id (users d2))" by (simp add: db_inv_def)
  moreover from mu mu' assms(2) have "u \<noteq> u'"
    by (auto simp: matches_def google_conditions_def)
  ultimately have "u_id u' \<noteq> u_id u"
    using in2 in2' by (auto simp: distinct_map dest: inj_onD)
  moreover from mu mu' assms(3) have "googleId u' = googleId u"
    by (simp add: matches_def google_conditions_def)
  ultimately show ?thesis
    using in2 in2' by (simp add: d1_def d2_def)
qed

theorem provider_id_not_unique_witness:
  "db_inv empty_db \<and> displayName ann_renamed \<noteq> displayName ann
   \<and> profile_id ann_renamed = profile_id ann
   \<and> map googleId (users (snd (google_verify True ann_renamed
        (snd (google_verify True ann empty_db))))) = [Some ''g-1'', Some ''g-1'']
   \<and> map u_id (users (snd (google_verify True ann_renamed
        (snd (google_verify True ann empty_db))))) = [0, 1]"
  using provider_id_not_unique [of empty_db ann_renamed ann
      "from_conditions 0 (google_conditions ann)"
      "from_conditions 1 (google_conditions ann_renamed)"]
  by (simp add: eval_defs db_inv_empty [unfolded empty_db_def])

section \<open>The board\<close>

text \<open>
  C10. A submitted secret is visible to every logged-in user. When a client
  with an authenticated session posts a secret and the store accepts it, the
  reply redirects to \<^verbatim>\<open>/secrets\<close>, and a following \<^verbatim>\<open>GET /secrets\<close> of any
  client with an authenticated session renders the earlier secrets followed
  by the new one, which carries the text of the form and the identity of the
  poster's session.
\<close>

theorem submitted_secret_visible_to_all:
  assumes "req_method r = POST" and "req_path r = ''/submit''"
    and "req_method r' = GET" and "req_path r' = ''/secrets''"
    and "restore (cookie r) (sessions s) = Some su"
    and "restore (cookie r') (sessions s) = Some su'"
    and "db_ok x" and "db_ok x'"
  shows "reply (fst (handle k cfg x r s)) = Redirect ''/secrets''
       \<and> reply (fst (handle k cfg x' r' (snd (handle k cfg x r s))))
           = Render ''secrets''
               (Secrets (secrets (store s) @ [submitted_doc r su (next_oid (store s))]))"
proof -
  let ?r = "session_middleware r s"
  from assms(1,2) have h: "handle k cfg x r s = post_submit x ?r s"
    by (simp add: handle_route)
  from assms(5,7) have sub: "post_submit x ?r s =
      respond (Redirect ''/secrets'')
        (s\<lparr>store := (store s)\<lparr>next_oid := Suc (next_oid (store s)),
              secrets := secrets (store s) @ [submitted_doc ?r su (next_oid (store s))]\<rparr>\<rparr>)"
    by (intro post_submit_saved) simp_all
  have doc: "submitted_doc ?r su i = submitted_doc r su i" for i
    by (simp add: submitted_doc_def)
  from assms(3,4,6,8) show ?thesis
    by (simp add: h sub doc handle_route get_secrets_cases)
qed

theorem submitted_secret_visible_to_all_witness:
  "reply (fst (handle demo_kdf demo_config all_up (get ''/secrets'' (Some 1))
      (snd (handle demo_kdf demo_config all_up (post ''/submit'' (Some 0) (secret_form ''hush''))
         \<lparr>store = empty_db,
          sessions = \<lparr>bindings = [(0, \<lparr>su_userId = 4\<rparr>), (1, \<lparr>su_userId = 5\<rparr>)],
                      next_token = 2\<rparr>\<rparr>))))
     = Render ''secrets'' (Secrets [\<lparr>s_id = 0, secret = Some ''hush'', userId = Some 4\<rparr>])"
  using submitted_secret_visible_to_all [of "post ''/submit'' (Some 0) (secret_form ''hush'')"
      "get ''/secrets'' (Some 1)"
      "\<lparr>store = empty_db,
        sessions = \<lparr>bindings = [(0, \<lparr>su_userId = 4\<rparr>), (1, \<lparr>su_userId = 5\<rparr>)],
                    next_token = 2\<rparr>\<rparr>"
      "\<lparr>su_userId = 4\<rparr>" "\<lparr>su_userId = 5\<rparr>" all_up all_up demo_kdf demo_config]
  by (simp add: restore_def deserializeUser_def submitted_doc_def empty_db_def)

section \<open>The password gate\<close>

text \<open>
  C13. \<^verbatim>\<open>POST /password\<close> renders the super secret message exactly when the
  submitted \<^verbatim>\<open>superPassword\<close> is strictly equal to the configured value, and
  redirects to \<^verbatim>\<open>/password\<close> otherwise. The handler asks for no session, sets
  no cookie and changes no state.
\<close>

theorem password_gate:
  assumes "req_method r = POST" and "req_path r = ''/password''"
  shows "handle k cfg x r s =
     respond (if strict_eq (SUPER_SECRET_PASSWORD cfg) (b_superPassword (req_body r))
              then Render ''superSecret'' (Content (SUPER_SECRET_MESSAGE cfg))
              else Redirect ''/password'') s"
  using assms by (simp add: handle_route post_password_cases)

theorem password_gate_witness:
  "handle demo_kdf demo_config all_up (post ''/password'' None (gate_form ''sesame'')) init_server
     = respond (Render ''superSecret'' (Content (Some ''42''))) init_server
   \<and> handle demo_kdf demo_config all_up (post ''/password'' None (gate_form ''guess'')) init_server
     = respond (Redirect ''/password'') init_server"
  using password_gate [of "post ''/password'' None (gate_form ''sesame'')" demo_kdf demo_config
      all_up init_server]
    password_gate [of "post ''/password'' None (gate_form ''guess'')" demo_kdf demo_config
      all_up init_server]
  by (simp add: demo_config_def)

section \<open>Logout\<close>

text \<open>
  C12. Logout invalidates the session. After a \<^verbatim>\<open>GET /logout\<close> that the session
  store performs, the reply redirects to the home page, the cookie of the
  request is bound to no identity, and a \<^verbatim>\<open>GET /secrets\<close> with that cookie is
  redirected to \<^verbatim>\<open>/login\<close>.
\<close>

theorem logout_invalidates_session:
  assumes "req_method r = GET" and "req_path r = ''/logout''" and "session_ok x"
    and "req_method r' = GET" and "req_path r' = ''/secrets''" and "cookie r' = cookie r"
  shows "reply (fst (handle k cfg x r s)) = Redirect ''/''
       \<and> restore (cookie r) (sessions (snd (handle k cfg x r s))) = None
       \<and> reply (fst (handle k cfg x' r' (snd (handle k cfg x r s)))) = Redirect ''/login''"
proof -
  let ?r = "session_middleware r s"
  from assms(1,2) have h: "handle k cfg x r s = get_logout x ?r s"
    by (simp add: handle_route)
  from assms(3) have gone: "restore (cookie r) (sessions (snd (get_logout x ?r s))) = None"
    using get_logout_restore [of x ?r s] by simp
  from assms(3) have "reply (fst (get_logout x ?r s)) = Redirect ''/''"
    by (simp add: get_logout_ok)
  with gone assms(4-6) show ?thesis
    by (simp add: h handle_route get_secrets_cases)
qed

theorem logout_invalidates_session_witness:
  "reply (fst (handle demo_kdf demo_config all_up (get ''/secrets'' (Some 0))
      (snd (handle demo_kdf demo_config all_up (get ''/logout'' (Some 0))
         (snd (handle demo_kdf demo_config all_up
            (post ''/register'' None (credentials ''ann'' ''pw'')) init_server))))))
     = Redirect ''/login''"
  using logout_invalidates_session [of "get ''/logout'' (Some 0)" all_up
      "get ''/secrets'' (Some 0)" demo_kdf demo_config
      "snd (handle demo_kdf demo_config all_up
         (post ''/register'' None (credentials ''ann'' ''pw'')) init_server)" all_up]
  by simp

section \<open>Invariants\<close>

text \<open>
  C6. Every request preserves the server invariant: object ids are below the
  id counter and distinct within each collection, no stored user carries a
  plaintext password, session tokens are below the token counter and bound at
  most once, and every identity in a session and every author of a secret is
  an id the server generated. This holds for every route, every form and
  every outcome of the store, the session store and the provider.
\<close>

theorem handle_preserves_invariant:
  assumes "server_inv s"
  shows "server_inv (snd (handle k cfg x r s))"
  using assms
  by (cases "route_of (req_method r) (req_path r)")
     (simp_all add: handle_no_route handle_route server_inv_dispatch)

theorem handle_preserves_invariant_witness:
  "server_inv init_server
   \<and> server_inv (snd (handle demo_kdf demo_config all_up
        (post ''/login'' None (credentials ''ann'' ''pw'')) init_server))"
  using handle_preserves_invariant [of init_server demo_kdf demo_config all_up
      "post ''/login'' None (credentials ''ann'' ''pw'')"]
  by simp

text \<open>
  C16. No two clients ever share a session: in every world reachable from the
  initial one by requests of clients that send the cookie they hold and keep
  the cookie they are sent, a token held by two clients is held by one and
  the same client, and it is a token the server has issued.
\<close>

theorem sessions_never_shared:
  assumes "reachable k cfg w"
    and "map_of (jar w) a = Some t" and "map_of (jar w) b = Some t"
  shows "a = b \<and> t < next_token (sessions (srv w))"
proof -
  from assms(1) have inv: "world_inv w" by (rule reachable_world_inv)
  then have "inj_on snd (set (jar w))" by (simp add: world_inv_def distinct_map)
  moreover from assms(2,3) have "(a, t) \<in> set (jar w)" and "(b, t) \<in> set (jar w)"
    by (auto dest: map_of_SomeD)
  ultimately have "a = b" by (force simp: inj_on_def)
  with inv assms(2) show ?thesis by (simp add: map_of_jar_below)
qed

theorem sessions_never_shared_witness:
  "reachable demo_kdf demo_config
     (snd (exec demo_kdf demo_config (send 1 ''/register'' (credentials ''ann'' ''pw''))
        init_world))
   \<and> map_of (jar (snd (exec demo_kdf demo_config
        (send 1 ''/register'' (credentials ''ann'' ''pw'')) init_world))) 1 = Some 0"
proof -
  let ?w = "snd (exec demo_kdf demo_config (send 1 ''/register'' (credentials ''ann'' ''pw''))
    init_world)"
  have r: "reachable demo_kdf demo_config ?w"
    by (rule reachable.step [OF reachable.init step.request])
  have j: "map_of (jar ?w) 1 = Some 0"
    by (simp add: eval_defs world_defs)
  from sessions_never_shared [OF r j j] r j show ?thesis by simp
qed

text \<open>
  C17. No plaintext password is ever stored: in every reachable world each
  stored user has an empty \<^verbatim>\<open>password\<close> field. The password of a registration
  reaches the store only as salt and derived key, and the document that
  \<^verbatim>\<open>POST /login\<close> builds from the form is never saved.
\<close>

theorem no_plaintext_password_stored:
  assumes "reachable k cfg w" and "u \<in> set (users (store (srv w)))"
  shows "password u = None"
proof -
  from assms(1) have "world_inv w" by (rule reachable_world_inv)
  then have "no_plaintext (store (srv w))"
    by (simp add: world_inv_def server_inv_def db_inv_def)
  with assms(2) show ?thesis by (simp add: no_plaintext_def)
qed

theorem no_plaintext_password_stored_witness:
  "reachable demo_kdf demo_config
     (snd (exec demo_kdf demo_config (send 1 ''/register'' (credentials ''ann'' ''pw''))
        init_world))
   \<and> map password (users (store (srv (snd (exec demo_kdf demo_config
        (send 1 ''/register'' (credentials ''ann'' ''pw'')) init_world))))) = [None]"
proof -
  let ?w = "snd (exec demo_kdf demo_config (send 1 ''/register'' (credentials ''ann'' ''pw''))
    init_world)"
  have r: "reachable demo_kdf demo_config ?w"
    by (rule reachable.step [OF reachable.init step.request])
  have u: "users (store (srv ?w)) = [registered_doc demo_kdf ''na'' (Some ''ann'') ''pw'' 0]"
    by (simp add: eval_defs world_defs registered_doc_def)
  from no_plaintext_password_stored [OF r, of "registered_doc demo_kdf ''na'' (Some ''ann'') ''pw'' 0"]
    r u show ?thesis by simp
qed

text \<open>
  C19. The author of a secret need not be a stored user. Whatever the key
  derivation and the configuration, three requests lead to a world whose
  board holds a secret whose \<^verbatim>\<open>userId\<close> is the id of no stored user: a
  registration, a rejected login of a second client, and a \<^verbatim>\<open>POST /submit\<close>
  with the cookie that the rejected login left behind.
\<close>

theorem secret_author_may_dangle:
  "\<exists>w sc. reachable k cfg w \<and> sc \<in> set (secrets (store (srv w)))
        \<and> users (store (srv w)) \<noteq> []
        \<and> userId sc \<notin> Some ` u_id ` set (users (store (srv w)))"
proof -
  let ?as = "[send 1 ''/register'' (credentials ''ann'' ''pw''),
              send 2 ''/login'' (credentials ''bob'' ''pw''),
              send 2 ''/submit'' (secret_form ''hush'')]"
  let ?w = "snd (run k cfg ?as init_world)"
  have "reachable k cfg ?w"
    by (rule reachable_run [OF reachable.init])
  moreover have "map userId (secrets (store (srv ?w))) = [Some 1]"
    and "map u_id (users (store (srv ?w))) = [0]"
    by (simp_all add: eval_defs world_defs)
  ultimately show ?thesis
    by (intro exI [of _ ?w] exI [of _ "hd (secrets (store (srv ?w)))"])
       (auto simp: map_eq_Cons_conv)
qed

theorem secret_author_may_dangle_witness:
  "\<exists>w sc. reachable demo_kdf demo_config w \<and> sc \<in> set (secrets (store (srv w)))
        \<and> userId sc \<notin> Some ` u_id ` set (users (store (srv w)))"
  using secret_author_may_dangle [of demo_kdf demo_config] by blast

section \<open>Handlers without an authentication check\<close>

text \<open>
  C24. \<^verbatim>\<open>POST /submit\<close> does not check the session. Without an authenticated
  session the handler reads \<^verbatim>\<open>req.user.userId\<close> of an undefined \<^verbatim>\<open>req.user\<close>; the
  request is answered 500, nothing is stored and no state changes.
\<close>

theorem submit_without_session_fails:
  assumes "req_method r = POST" and "req_path r = ''/submit''"
    and "restore (cookie r) (sessions s) = None"
  shows "handle k cfg x r s = respond (Status 500) s"
  using assms by (simp add: handle_route post_submit_unauthenticated)

theorem submit_without_session_fails_witness:
  "handle demo_kdf demo_config all_up (post ''/submit'' None (secret_form ''hush'')) init_server
     = respond (Status 500) init_server"
  using submit_without_session_fails [of "post ''/submit'' None (secret_form ''hush'')"
      init_server demo_kdf demo_config all_up]
  by simp

text \<open>
  C25. \<^verbatim>\<open>GET /logout\<close> does not check the session either: without an
  authenticated session it redirects to the home page, not to \<^verbatim>\<open>/login\<close>, and
  leaves the state as it was.
\<close>

theorem logout_without_session:
  assumes "req_method r = GET" and "req_path r = ''/logout''"
    and "restore (cookie r) (sessions s) = None" and "session_ok x"
  shows "handle k cfg x r s = respond (Redirect ''/'') s"
  using assms
  by (simp add: handle_route get_logout_ok drop_binding_unbound)

theorem logout_without_session_witness:
  "handle demo_kdf demo_config all_up (get ''/logout'' (Some 3)) init_server
     = respond (Redirect ''/'') init_server"
  using logout_without_session [of "get ''/logout'' (Some 3)" init_server all_up
      demo_kdf demo_config]
  by (simp add: init_server_def)

section \<open>Effects of one request on the rest of the system\<close>

text \<open>
  C11. A request never touches the session of another client: in a state that
  satisfies the server invariant, a token other than the cookie of the
  request is bound after the request to the identity it was bound to before,
  whatever the route and the outcome.
\<close>

theorem other_sessions_untouched:
  assumes "server_inv s" and "restore (Some t) (sessions s) = Some su"
    and "cookie r \<noteq> Some t"
  shows "restore (Some t) (sessions (snd (handle k cfg x r s))) = Some su"
proof -
  from assms(1,2) have "t < next_token (sessions s)"
    by (auto simp: server_inv_def intro: restore_below)
  with keeps_others_handle [of r s k cfg x] assms(2,3) show ?thesis
    by (simp add: keeps_othersD)
qed

theorem other_sessions_untouched_witness:
  "restore (Some 0) (sessions (snd (handle demo_kdf demo_config all_up
      (post ''/login'' None (credentials ''bob'' ''pw''))
      (snd (handle demo_kdf demo_config all_up
         (post ''/register'' None (credentials ''ann'' ''pw'')) init_server)))))
     = Some \<lparr>su_userId = 0\<rparr>"
proof -
  let ?s = "snd (handle demo_kdf demo_config all_up
    (post ''/register'' None (credentials ''ann'' ''pw'')) init_server)"
  have "server_inv ?s" by (simp add: server_inv_handle)
  moreover have "restore (Some 0) (sessions ?s) = Some \<lparr>su_userId = 0\<rparr>"
    by (simp add: eval_defs)
  ultimately show ?thesis
    using other_sessions_untouched [of ?s 0 "\<lparr>su_userId = 0\<rparr>"
        "post ''/login'' None (credentials ''bob'' ''pw'')" demo_kdf demo_config all_up]
    by simp
qed

text \<open>
  C22. Users and secrets are append-only: after any sequence of requests of
  any clients the users and the secrets the run started with are still in
  the store, unchanged and in their positions, as a prefix of the
  collections the run ends with.
\<close>

theorem board_append_only:
  "prefix (secrets (store (srv w))) (secrets (store (srv (snd (run k cfg as w)))))
   \<and> prefix (users (store (srv w))) (users (store (srv (snd (run k cfg as w)))))"
  using extends_run [of w k cfg as] by (simp add: extends_def)

theorem board_append_only_witness:
  "prefix (secrets (store (srv init_world)))
     (secrets (store (srv (snd (run demo_kdf demo_config
        [send 1 ''/register'' (credentials ''ann'' ''pw'')] init_world)))))"
  using board_append_only [of init_world demo_kdf demo_config
      "[send 1 ''/register'' (credentials ''ann'' ''pw'')]"]
  by simp

section \<open>Registration\<close>

text \<open>
  C26. A duplicate registration is refused: when a stored user already holds
  the username with a credential, \<^verbatim>\<open>POST /register\<close> redirects to \<^verbatim>\<open>/register\<close>,
  sets no cookie, stores no user and leaves all sessions as they were.
\<close>

theorem duplicate_registration_refused:
  assumes "req_method r = POST" and "req_path r = ''/register''"
    and "u \<in> set (users (store s))" and "username u = b_username (req_body r)"
    and "hash u \<noteq> None"
    and "truthy (b_username (req_body r))" and "truthy (b_password (req_body r))"
    and "db_ok x"
  shows "fst (handle k cfg x r s) = \<lparr>reply = Redirect ''/register'', set_cookie = None\<rparr>
       \<and> users (store (snd (handle k cfg x r s))) = users (store s)
       \<and> sessions (snd (handle k cfg x r s)) = sessions s"
proof -
  let ?r = "session_middleware r s"
  from assms(3-8) have dup: "fst (register_of k x ?r s) = Inl DuplicateUsername"
    by (auto intro!: register_duplicate [of _ _ u] simp: has_credential_def)
  from assms(1,2) have "handle k cfg x r s = post_register k x ?r s"
    by (simp add: handle_route)
  with dup register_error_keeps_docs [OF dup] show ?thesis
    by (simp add: post_register_refused)
qed

theorem duplicate_registration_refused_witness:
  "fst (handle demo_kdf demo_config all_up (post ''/register'' None (credentials ''ann'' ''pq''))
      (snd (handle demo_kdf demo_config all_up
         (post ''/register'' None (credentials ''ann'' ''pw'')) init_server)))
     = \<lparr>reply = Redirect ''/register'', set_cookie = None\<rparr>"
proof -
  let ?s = "snd (handle demo_kdf demo_config all_up
    (post ''/register'' None (credentials ''ann'' ''pw'')) init_server)"
  have "users (store ?s) = [registered_doc demo_kdf ''na'' (Some ''ann'') ''pw'' 0]"
    by (simp add: eval_defs registered_doc_def)
  then show ?thesis
    using duplicate_registration_refused [of "post ''/register'' None (credentials ''ann'' ''pq'')"
        "registered_doc demo_kdf ''na'' (Some ''ann'') ''pw'' 0" ?s all_up demo_kdf demo_config]
    by (simp add: registered_doc_def)
qed

text \<open>
  C27. A registration can be shadowed by a federated account. When the first
  stored user with the username is an account without a credential (one a
  provider login created under that display name), \<^verbatim>\<open>POST /register\<close> stores
  the new user but answers 401, because the login that follows looks the
  name up and finds the older document; every later \<^verbatim>\<open>POST /login\<close> with the
  registered credentials is answered 401 as well.
\<close>

theorem registration_shadowed_by_federated_account:
  assumes "req_method r = POST" and "req_path r = ''/register''"
    and "req_method r' = POST" and "req_path r' = ''/login''"
    and "req_body r' = req_body r"
    and "findByUsername (b_username (req_body r)) (store s) = Some v"
    and "\<forall>u \<in> set (users (store s)). username u = b_username (req_body r) \<longrightarrow> hash u = None"
    and "truthy (b_username (req_body r))"
    and "b_password (req_body r) = Some pw" and "pw \<noteq> []"
    and "db_ok x" and "db_ok x'" and "session_ok x'"
  shows "reply (fst (handle k cfg x r s)) = Status 401
       \<and> length (users (store (snd (handle k cfg x r s)))) = Suc (length (users (store s)))
       \<and> reply (fst (handle k cfg x' r' (snd (handle k cfg x r s)))) = Status 401"
proof -
  let ?r = "session_middleware r s"
  define s1 where "s1 = snd (handle k cfg x r s)"
  let ?r' = "session_middleware r' s1"
  from assms(1,2) have h: "handle k cfg x r s = post_register k x ?r s"
    by (simp add: handle_route)
  from assms(3,4) have h': "handle k cfg x' r' s1 = post_login k x' ?r' s1"
    by (simp add: handle_route)
  from assms(7-11) have "\<exists>u. fst (register_of k x ?r s) = Inr u"
    by (auto simp: register_Inr_iff has_credential_def)
  then obtain u where reg: "fst (register_of k x ?r s) = Inr u" ..
  from assms(6) have old: "findByUsername (b_username (req_body ?r)) (store s) = Some v"
    by simp
  note rej = authenticate_after_register_shadowed [OF reg old]
  from rej have "authenticate_local k x ?r (s\<lparr>store := snd (register_of k x ?r s)\<rparr>)
      = (Inl (Status 401), s\<lparr>store := snd (register_of k x ?r s)\<rparr>)"
    by (intro authenticate_local_rejects) simp
  with reg have first: "reply (fst (handle k cfg x r s)) = Status 401"
    by (simp add: h post_register_registered)
  from reg have len: "length (users (store s1)) = Suc (length (users (store s)))"
    by (simp add: s1_def h register_users)
  from rej assms(5,11,12) have "authenticate k (db_ok x') (b_username (req_body ?r'))
      (b_password (req_body ?r')) (store s1) = Inl InvalidCredentials"
    by (simp add: s1_def h)
  from post_login_rejected(1) [OF assms(13) this] first len show ?thesis
    unfolding s1_def [symmetric] by (simp add: h')
qed

theorem registration_shadowed_by_federated_account_witness:
  "map (\<lambda>a. reply (fst a))
     [handle demo_kdf demo_config all_up (post ''/register'' None (credentials ''Ann'' ''pw''))
        (snd (handle demo_kdf demo_config (consent ann) (get ''/auth/google/secrets'' None)
           init_server)),
      handle demo_kdf demo_config all_up (post ''/login'' None (credentials ''Ann'' ''pw''))
        (snd (handle demo_kdf demo_config all_up
           (post ''/register'' None (credentials ''Ann'' ''pw''))
           (snd (handle demo_kdf demo_config (consent ann) (get ''/auth/google/secrets'' None)
              init_server))))]
   = [Status 401, Status 401]"
proof -
  let ?s = "snd (handle demo_kdf demo_config (consent ann) (get ''/auth/google/secrets'' None)
    init_server)"
  have "users (store ?s) = [from_conditions 0 (google_conditions ann)]"
    by (simp add: eval_defs)
  then have "findByUsername (Some ''Ann'') (store ?s)
        = Some (from_conditions 0 (google_conditions ann))"
    and "\<forall>u \<in> set (users (store ?s)). hash u = None"
    by (simp_all add: eval_defs)
  then show ?thesis
    using registration_shadowed_by_federated_account
      [of "post ''/register'' None (credentials ''Ann'' ''pw'')"
        "post ''/login'' None (credentials ''Ann'' ''pw'')" ?s
        "from_conditions 0 (google_conditions ann)" "''pw''" all_up all_up
        demo_kdf demo_config]
    by simp
qed

text \<open>
  C28. The password gate opens when nothing is configured: if the
  environment defines no \<^verbatim>\<open>SUPER_SECRET_PASSWORD\<close> and the form carries no
  \<^verbatim>\<open>superPassword\<close> field, both sides of the comparison are undefined, the
  comparison succeeds and the super secret page is rendered.
\<close>

theorem gate_opens_when_unset:
  assumes "req_method r = POST" and "req_path r = ''/password''"
    and "SUPER_SECRET_PASSWORD cfg = None" and "b_superPassword (req_body r) = None"
  shows "reply (fst (handle k cfg x r s))
       = Render ''superSecret'' (Content (SUPER_SECRET_MESSAGE cfg))"
  using assms by (simp add: handle_route post_password_cases)

theorem gate_opens_when_unset_witness:
  "reply (fst (handle demo_kdf (demo_config\<lparr>SUPER_SECRET_PASSWORD := None\<rparr>) all_up
      (post ''/password'' None empty_body) init_server))
     = Render ''superSecret'' (Content (Some ''42''))"
  using gate_opens_when_unset [of "post ''/password'' None empty_body"
      "demo_config\<lparr>SUPER_SECRET_PASSWORD := None\<rparr>" demo_kdf all_up init_server]
  by (simp add: demo_config_def)

section \<open>Sessions\<close>



text \<open>
  C21. Every cookie is fresh and names a session: in a state that satisfies
  the server invariant, a token that a response sets was bound to no
  identity before the request, is bound to one after it, and is below the
  token counter of the new state.
\<close>

theorem cookie_is_fresh:
  assumes "server_inv s" and "set_cookie (fst (handle k cfg x r s)) = Some t"
  shows "restore (Some t) (sessions s) = None
       \<and> restore (Some t) (sessions (snd (handle k cfg x r s))) \<noteq> None
       \<and> t < next_token (sessions (snd (handle k cfg x r s)))"
proof -
  from issues_fresh_handle [of s k cfg x r] assms(2)
  have "next_token (sessions s) \<le> t" and "t < next_token (sessions (snd (handle k cfg x r s)))"
    by (auto simp: issues_fresh_def)
  moreover from assms(1) this(1) have "restore (Some t) (sessions s) = None"
    by (cases "restore (Some t) (sessions s)")
       (auto simp: server_inv_def dest: restore_below)
  moreover from binds_cookie_handle [of k cfg x r s] assms(2)
  have "restore (Some t) (sessions (snd (handle k cfg x r s))) \<noteq> None"
    by (simp add: binds_cookie_def)
  ultimately show ?thesis by simp
qed

theorem cookie_is_fresh_witness:
  "server_inv init_server
   \<and> set_cookie (fst (handle demo_kdf demo_config all_up
        (post ''/register'' None (credentials ''ann'' ''pw'')) init_server)) = Some 0
   \<and> restore (Some 0) (sessions init_server) = None"
proof -
  have "set_cookie (fst (handle demo_kdf demo_config all_up
      (post ''/register'' None (credentials ''ann'' ''pw'')) init_server)) = Some 0"
    by (simp add: eval_defs)
  with cookie_is_fresh [of init_server demo_kdf demo_config all_up
      "post ''/register'' None (credentials ''ann'' ''pw'')" 0]
  show ?thesis by simp
qed

section \<open>Provider callbacks\<close>

text \<open>
  C30. A provider callback with a profile logs the holder in. When the
  provider returns a profile on \<^verbatim>\<open>/auth/google/secrets\<close> or
  \<^verbatim>\<open>/auth/facebook/secrets\<close> and the store and the session store are up, the
  reply redirects to \<^verbatim>\<open>/secrets\<close> and sets a new cookie bound to a stored user
  that carries the display name and the provider id of the profile.
\<close>

theorem federated_callback_opens_session:
  assumes "req_method r = GET" and "req_path r = callback_path pv"
    and "oauth x = Some pr" and "db_ok x" and "session_ok x"
  shows "\<exists>u. u \<in> set (users (store (snd (handle k cfg x r s))))
           \<and> username u = displayName pr \<and> provider_field pv u = profile_id pr
           \<and> fst (handle k cfg x r s)
               = \<lparr>reply = Redirect ''/secrets'', set_cookie = Some (next_token (sessions s))\<rparr>
           \<and> restore (Some (next_token (sessions s))) (sessions (snd (handle k cfg x r s)))
               = Some (serializeUser u)"
proof -
  from verify_user [of pv pr "store s"] obtain u
    where u: "fst (verify pv True pr (store s)) = Inr u" "username u = displayName pr"
      "provider_field pv u = profile_id pr" "u \<in> set (users (snd (verify pv True pr (store s))))"
    by blast
  from u(1) assms(4) have v: "fst (verify pv (db_ok x) pr (store s)) = Inr u" by simp
  note cb = oauth_callback_login [OF assms(3) v assms(5), of "session_middleware r s"]
  from cb u(2-4) assms(4) show ?thesis
    by (intro exI [of _ u]) (simp add: handle_callback [OF assms(1,2)] response.equality)
qed

theorem federated_callback_opens_session_witness:
  "fst (handle demo_kdf demo_config (consent ann) (get ''/auth/google/secrets'' None) init_server)
     = \<lparr>reply = Redirect ''/secrets'', set_cookie = Some 0\<rparr>"
  using federated_callback_opens_session [of "get ''/auth/google/secrets'' None" Google
      "consent ann" ann demo_kdf demo_config init_server]
  by (auto simp: callback_path_def init_server_def empty_sessions_def)

text \<open>
  C31. A provider callback without a profile (consent refused or the code
  exchange failed) redirects to \<^verbatim>\<open>/login\<close>, sets no cookie and changes no
  state.
\<close>

theorem federated_callback_denied:
  assumes "req_method r = GET" and "req_path r = callback_path pv" and "oauth x = None"
  shows "handle k cfg x r s = respond (Redirect ''/login'') s"
  using assms(3) by (simp add: handle_callback [OF assms(1,2)] oauth_callback_denied)

theorem federated_callback_denied_witness:
  "handle demo_kdf demo_config all_up (get ''/auth/facebook/secrets'' None) init_server
     = respond (Redirect ''/login'') init_server"
  using federated_callback_denied [of "get ''/auth/facebook/secrets'' None" Facebook all_up
      demo_kdf demo_config init_server]
  by (simp add: callback_path_def)

section \<open>Error branches\<close>

text \<open>
  C34. A failed logout is never answered: when \<^verbatim>\<open>req.logout\<close> reports an error
  the handler only logs it, so the request gets no response and the state is
  unchanged.
\<close>

theorem logout_error_never_answers:
  assumes "req_method r = GET" and "req_path r = ''/logout''" and "\<not> session_ok x"
  shows "handle k cfg x r s = respond NoReply s"
  using assms by (simp add: handle_route get_logout_failed)

theorem logout_error_never_answers_witness:
  "handle demo_kdf demo_config (all_up\<lparr>session_ok := False\<rparr>) (get ''/logout'' (Some 0))
      init_server
     = respond NoReply init_server"
  using logout_error_never_answers [of "get ''/logout'' (Some 0)" "all_up\<lparr>session_ok := False\<rparr>"
      demo_kdf demo_config init_server]
  by simp

text \<open>
  C35. When the session store refuses the login of \<^verbatim>\<open>POST /login\<close> the reply
  is the relative redirect \<^verbatim>\<open>register\<close>, which a browser resolves against
  \<^verbatim>\<open>/login\<close> to \<^verbatim>\<open>/register\<close>; no cookie is set, the credentials are never checked
  and users, secrets and sessions are unchanged.
\<close>

theorem login_with_session_store_down:
  assumes "req_method r = POST" and "req_path r = ''/login''" and "\<not> session_ok x"
  shows "fst (handle k cfg x r s) = \<lparr>reply = Redirect ''register'', set_cookie = None\<rparr>
       \<and> resolve (req_path r) ''register'' = ''/register''
       \<and> users (store (snd (handle k cfg x r s))) = users (store s)
       \<and> secrets (store (snd (handle k cfg x r s))) = secrets (store s)
       \<and> sessions (snd (handle k cfg x r s)) = sessions s"
  using assms by (simp add: handle_route post_login_session_down)

theorem login_with_session_store_down_witness:
  "fst (handle demo_kdf demo_config (all_up\<lparr>session_ok := False\<rparr>)
      (post ''/login'' None (credentials ''ann'' ''pw'')) init_server)
     = \<lparr>reply = Redirect ''register'', set_cookie = None\<rparr>"
  using login_with_session_store_down [of "post ''/login'' None (credentials ''ann'' ''pw'')"
      "all_up\<lparr>session_ok := False\<rparr>" demo_kdf demo_config init_server]
  by simp

section \<open>Pages\<close>

text \<open>
  C36. With an authenticated session the guarded pages are served:
  \<^verbatim>\<open>GET /submit\<close> and \<^verbatim>\<open>GET /password\<close> render their forms, and \<^verbatim>\<open>GET /secrets\<close>
  renders all stored secrets in insertion order, of every author, or
  redirects to the home page when the store cannot be read. None of them
  changes the state.
\<close>

theorem guarded_pages_serve_sessions:
  assumes "req_method r = GET" and "restore (cookie r) (sessions s) = Some su"
  shows "(req_path r = ''/submit'' \<longrightarrow>
            handle k cfg x r s = respond (Render ''submit'' NoData) s)
       \<and> (req_path r = ''/password'' \<longrightarrow>
            handle k cfg x r s = respond (Render ''password'' NoData) s)
       \<and> (req_path r = ''/secrets'' \<longrightarrow>
            handle k cfg x r s =
              respond (if db_ok x then Render ''secrets'' (Secrets (secrets (store s)))
                       else Redirect ''/'') s)"
  using assms
  by (simp add: handle_route get_submit_cases get_password_cases get_secrets_cases)

theorem guarded_pages_serve_sessions_witness:
  "handle demo_kdf demo_config (all_up\<lparr>db_ok := False\<rparr>) (get ''/secrets'' (Some 0))
      \<lparr>store = empty_db, sessions = \<lparr>bindings = [(0, \<lparr>su_userId = 4\<rparr>)], next_token = 1\<rparr>\<rparr>
     = respond (Redirect ''/'')
         \<lparr>store = empty_db, sessions = \<lparr>bindings = [(0, \<lparr>su_userId = 4\<rparr>)], next_token = 1\<rparr>\<rparr>"
  using guarded_pages_serve_sessions [of "get ''/secrets'' (Some 0)"
      "\<lparr>store = empty_db, sessions = \<lparr>bindings = [(0, \<lparr>su_userId = 4\<rparr>)], next_token = 1\<rparr>\<rparr>"
      "\<lparr>su_userId = 4\<rparr>" demo_kdf demo_config "all_up\<lparr>db_ok := False\<rparr>"]
  by (simp add: restore_def deserializeUser_def)

text \<open>
  C37. The public pages are served to everyone: \<^verbatim>\<open>GET /\<close>, \<^verbatim>\<open>GET /register\<close> and
  \<^verbatim>\<open>GET /login\<close> render the views \<^verbatim>\<open>home\<close>, \<^verbatim>\<open>register\<close> and \<^verbatim>\<open>login\<close> whatever the
  session, and \<^verbatim>\<open>GET /auth/google\<close> and \<^verbatim>\<open>GET /auth/facebook\<close> send the browser
  to the provider; none of them sets a cookie or changes the state.
\<close>

theorem public_pages:
  assumes "req_method r = GET"
    and "(req_path r, rp) \<in> {(''/'', Render ''home'' NoData),
           (''/register'', Render ''register'' NoData), (''/login'', Render ''login'' NoData),
           (''/auth/google'', ToProvider Google), (''/auth/facebook'', ToProvider Facebook)}"
  shows "handle k cfg x r s = respond rp s"
  using assms
  by (auto simp: handle_route get_root_def get_register_def get_login_def get_auth_google_def
        get_auth_facebook_def)

theorem public_pages_witness:
  "handle demo_kdf demo_config all_up (get ''/login'' (Some 5)) init_server
     = respond (Render ''login'' NoData) init_server"
  using public_pages [of "get ''/login'' (Some 5)" "Render ''login'' NoData" demo_kdf
      demo_config all_up init_server]
  by simp

section \<open>Executions\<close>





section \<open>The server implements the abstract board\<close>



text \<open>
  C18. Every reachable world abstracts to a state that the abstract machine
  reaches from the empty board; in particular every secret on the board of a
  reachable world is signed with an identity.
\<close>

theorem reachable_refines_board:
  assumes "reachable k cfg w"
  shows "areachable (abstraction (srv w))
       \<and> (\<forall>sc \<in> set (secrets (store (srv w))). userId sc \<noteq> None)"
proof -
  from assms have a: "areachable (abstraction (srv w))" by (rule reachable_areachable)
  then have "signed (abstraction (srv w))" by (rule areachable_signed)
  with a show ?thesis by (force simp: signed_def abs_posts_def)
qed

theorem reachable_refines_board_witness:
  "areachable (abstraction (srv (snd (exec demo_kdf demo_config
      (send 1 ''/register'' (credentials ''ann'' ''pw'')) init_world))))"
  using reachable_refines_board [of demo_kdf demo_config
      "snd (exec demo_kdf demo_config (send 1 ''/register'' (credentials ''ann'' ''pw''))
         init_world)"]
    reachable.step [OF reachable.init step.request, of demo_kdf demo_config
      "send 1 ''/register'' (credentials ''ann'' ''pw'')"]
  by blast

text \<open>
  C14. Only a submission of a logged-in session writes the board: if a
  request changes the secrets, it is a \<^verbatim>\<open>POST /submit\<close> whose cookie is bound to
  an identity, and the change is one new secret at the end, with the text of
  the form and that identity as author.
\<close>

theorem secret_signed_by_session:
  assumes "secrets (store (snd (handle k cfg x r s))) \<noteq> secrets (store s)"
  shows "\<exists>su. restore (cookie r) (sessions s) = Some su
           \<and> req_method r = POST \<and> req_path r = ''/submit''
           \<and> secrets (store (snd (handle k cfg x r s)))
               = secrets (store s) @ [submitted_doc r su (next_oid (store s))]"
proof (cases "route_of (req_method r) (req_path r)")
  case None
  with assms show ?thesis by (simp add: handle_no_route)
next
  case (Some rt)
  let ?r = "session_middleware r s"
  from assms Some have rt: "rt = PostSubmit"
    and ch: "secrets (store (snd (post_submit x ?r s))) \<noteq> secrets (store s)"
    by (auto simp: handle_route dispatch_secrets split: if_splits)
  from ch obtain su where su: "restore (cookie r) (sessions s) = Some su" and "db_ok x"
    by (auto simp: post_submit_secrets split: option.splits if_splits)
  then have "secrets (store (snd (post_submit x ?r s)))
      = secrets (store s) @ [submitted_doc r su (next_oid (store s))]"
    by (simp add: post_submit_secrets submitted_doc_def)
  with Some rt su show ?thesis
    by (simp add: handle_route route_of_PostSubmit)
qed

theorem secret_signed_by_session_witness:
  "secrets (store (snd (handle demo_kdf demo_config all_up
      (post ''/submit'' (Some 0) (secret_form ''hush''))
      \<lparr>store = empty_db, sessions = \<lparr>bindings = [(0, \<lparr>su_userId = 4\<rparr>)], next_token = 1\<rparr>\<rparr>)))
     = [\<lparr>s_id = 0, secret = Some ''hush'', userId = Some 4\<rparr>]"
proof -
  let ?s = "\<lparr>store = empty_db, sessions = \<lparr>bindings = [(0, \<lparr>su_userId = 4\<rparr>)], next_token = 1\<rparr>\<rparr>"
  let ?r = "post ''/submit'' (Some 0) (secret_form ''hush'')"
  have "secrets (store (snd (handle demo_kdf demo_config all_up ?r ?s))) \<noteq> secrets (store ?s)"
    by (simp add: eval_defs)
  from secret_signed_by_session [OF this] show ?thesis
    by (auto simp: submitted_doc_def restore_def deserializeUser_def empty_db_def)
qed

text \<open>
  C23. Users are created only by a registration or by a provider callback: a
  request that changes the stored users is a \<^verbatim>\<open>POST /register\<close> or a \<^verbatim>\<open>GET\<close> of
  one of the two callback routes. In particular \<^verbatim>\<open>POST /login\<close> never stores
  the document it builds from the form.
\<close>

theorem users_created_by_registration_only:
  assumes "users (store (snd (handle k cfg x r s))) \<noteq> users (store s)"
  shows "(req_method r = POST \<and> req_path r = ''/register'')
       \<or> (req_method r = GET
            \<and> req_path r \<in> {''/auth/google/secrets'', ''/auth/facebook/secrets''})"
proof (cases "route_of (req_method r) (req_path r)")
  case None
  with assms show ?thesis by (simp add: handle_no_route)
next
  case (Some rt)
  with assms dispatch_users [of rt k cfg x "session_middleware r s" s]
  have "rt \<in> {PostRegister, GetAuthGoogleSecrets, GetAuthFacebookSecrets}"
    by (auto simp: handle_route)
  with Some show ?thesis by (auto simp: route_of_writers)
qed

theorem users_created_by_registration_only_witness:
  "users (store (snd (handle demo_kdf demo_config all_up
      (post ''/login'' None (credentials ''ann'' ''pw'')) init_server)))
     = users (store init_server)"
  using users_created_by_registration_only [of demo_kdf demo_config all_up
      "post ''/login'' None (credentials ''ann'' ''pw'')" init_server]
  by auto

section \<open>Provider callbacks that overlap\<close>

text \<open>
  C20. Two overlapping first logins create two users. When two Google
  callbacks for the same profile, unknown to the store, both perform their
  lookup before either performs its insert, both insert: the store ends with
  two new users that carry the same \<^verbatim>\<open>googleId\<close> under different ids, and each
  callback finishes with its own.
\<close>

theorem concurrent_callbacks_duplicate_user:
  assumes "findOne (google_conditions pr) d = None"
  shows "sched (google_conditions pr) [0, 1, 0, 1] \<lparr>shared = d, pcs = [Start, Start]\<rparr>
       = \<lparr>shared = d\<lparr>next_oid := Suc (Suc (next_oid d)),
                      users := users d @
                        [from_conditions (next_oid d) (google_conditions pr),
                         from_conditions (Suc (next_oid d)) (google_conditions pr)]\<rparr>,
          pcs = [Finished (from_conditions (next_oid d) (google_conditions pr)),
                 Finished (from_conditions (Suc (next_oid d)) (google_conditions pr))]\<rparr>
       \<and> googleId (from_conditions (next_oid d) (google_conditions pr)) = profile_id pr
       \<and> googleId (from_conditions (Suc (next_oid d)) (google_conditions pr)) = profile_id pr"
  using assms
  by (simp add: sched_step_def foc_step_simps from_conditions_def google_conditions_def)

theorem concurrent_callbacks_duplicate_user_witness:
  "map googleId (users (shared (sched (google_conditions ann) [0, 1, 0, 1]
      \<lparr>shared = empty_db, pcs = [Start, Start]\<rparr>))) = [Some ''g-1'', Some ''g-1'']"
  using concurrent_callbacks_duplicate_user [of ann empty_db]
  by (simp add: findOne_def empty_db_def ann_def from_conditions_def google_conditions_def)

text \<open>
  C32. Callbacks that do not overlap share the user. When the first callback
  finishes before the second starts, the outcome is that of the verify
  callback run once: both callbacks finish with the same user and the store
  is the one a single \<^verbatim>\<open>findOrCreate\<close> leaves.
\<close>

theorem sequential_callbacks_share_user:
  "\<exists>u. fst (google_verify True pr d) = Inr u
       \<and> sched (google_conditions pr) [0, 0, 1, 1] \<lparr>shared = d, pcs = [Start, Start]\<rparr>
           = \<lparr>shared = snd (google_verify True pr d), pcs = [Finished u, Finished u]\<rparr>"
proof (cases "findOne (google_conditions pr) d")
  case None
  let ?c = "google_conditions pr"
  let ?d1 = "d\<lparr>next_oid := Suc (next_oid d), users := users d @ [from_conditions (next_oid d) ?c]\<rparr>"
  have "distinct (map fst ?c)" by (simp add: google_conditions_def)
  from findOne_after_findOrCreate [OF this, of d] None
  have "findOne ?c ?d1 = Some (from_conditions (next_oid d) ?c)"
    by (simp add: findOrCreate_created)
  with None show ?thesis
    by (simp add: sched_step_def foc_step_simps google_verify_def User_findOrCreate_def
          findOrCreate_created)
next
  case (Some u)
  then show ?thesis
    by (simp add: sched_step_def foc_step_simps google_verify_def User_findOrCreate_def
          findOrCreate_found)
qed

theorem sequential_callbacks_share_user_witness:
  "map googleId (users (shared (sched (google_conditions ann) [0, 0, 1, 1]
      \<lparr>shared = empty_db, pcs = [Start, Start]\<rparr>))) = [Some ''g-1'']"
  using sequential_callbacks_share_user [of ann empty_db]
  by (auto simp: eval_defs)

text \<open>
  C33. Whatever the schedule, overlapping callbacks keep the store invariant
  and create at most one user per callback.
\<close>

theorem callbacks_create_at_most_one_user_each:
  assumes "db_inv (shared w)"
  shows "db_inv (shared (sched c js w))
       \<and> length (users (shared (sched c js w))) \<le> length (users (shared w)) + length (pcs w)"
proof -
  from sched_cost [of c js w] pending_le_length [of "pcs w"]
  have "length (users (shared (sched c js w))) \<le> length (users (shared w)) + length (pcs w)"
    by simp
  with assms show ?thesis by (simp add: db_inv_sched)
qed

theorem callbacks_create_at_most_one_user_each_witness:
  "db_inv empty_db
   \<and> length (users (shared (sched (google_conditions ann) [0, 1, 1, 0, 1]
        \<lparr>shared = empty_db, pcs = [Start, Start]\<rparr>))) \<le> 2"
  using callbacks_create_at_most_one_user_each [of "\<lparr>shared = empty_db, pcs = [Start, Start]\<rparr>"
      "google_conditions ann" "[0, 1, 1, 0, 1]"]
  by (simp add: empty_db_def db_inv_empty [unfolded empty_db_def] numeral_2_eq_2)

section \<open>Who holds a session for whom\<close>

text \<open>
  C2. Authentication is sound for stored users. In a state that satisfies
  the server invariant, if a response sets a cookie that is bound to the id
  of a stored user, then the request was a \<^verbatim>\<open>POST /login\<close> or a
  \<^verbatim>\<open>POST /register\<close> whose username and password the local strategy accepts
  for that user, or a provider callback whose profile the verify callback
  resolved to that user. No other route sets a cookie, and the session that
  \<^verbatim>\<open>POST /login\<close> opens for rejected credentials is a session of no stored
  user.
\<close>

theorem session_for_user_is_authenticated:
  assumes "server_inv s" and "set_cookie (fst (handle k cfg x r s)) = Some t"
    and "holds_session (snd (handle k cfg x r s)) t u"
  shows "(req_method r = POST \<and> req_path r = ''/login''
          \<and> authenticate k (db_ok x) (b_username (req_body r)) (b_password (req_body r))
               (store s) = Inr u)
       \<or> (req_method r = POST \<and> req_path r = ''/register''
          \<and> authenticate k (db_ok x) (b_username (req_body r)) (b_password (req_body r))
               (store (snd (handle k cfg x r s))) = Inr u)
       \<or> (\<exists>pv pr. req_method r = GET \<and> req_path r = callback_path pv \<and> oauth x = Some pr
            \<and> fst (verify pv (db_ok x) pr (store s)) = Inr u)"
proof (cases "route_of (req_method r) (req_path r)")
  case None
  with assms(2) show ?thesis by (simp add: handle_no_route)
next
  case (Some rt)
  let ?r = "session_middleware r s"
  note h = handle_route [OF Some]
  from assms(1) have db: "db_inv (store s)" by (rule server_invD)
  from assms(2) no_cookie_elsewhere [of rt k cfg x ?r s]
  consider "rt = PostLogin" | "rt = PostRegister"
    | "rt = GetAuthGoogleSecrets" | "rt = GetAuthFacebookSecrets"
    by (auto simp: h)
  then show ?thesis
  proof cases
    case 1
    with authenticated_post_login [OF assms(1), of k x ?r t u] assms(2,3) Some show ?thesis
      by (simp add: h route_of_PostLogin)
  next
    case 2
    with authenticated_post_register [OF db, of k x ?r t u] assms(2,3) Some show ?thesis
      by (simp add: h route_of_writers)
  next
    case 3
    with authenticated_oauth_callback [OF db, of Google x ?r t u] assms(2,3) Some
    have "req_method r = GET \<and> req_path r = callback_path Google
        \<and> (\<exists>pr. oauth x = Some pr \<and> fst (verify Google (db_ok x) pr (store s)) = Inr u)"
      by (simp add: h oauth_callback_def route_of_writers callback_path_def)
    then show ?thesis by blast
  next
    case 4
    with authenticated_oauth_callback [OF db, of Facebook x ?r t u] assms(2,3) Some
    have "req_method r = GET \<and> req_path r = callback_path Facebook
        \<and> (\<exists>pr. oauth x = Some pr \<and> fst (verify Facebook (db_ok x) pr (store s)) = Inr u)"
      by (simp add: h oauth_callback_def route_of_writers callback_path_def)
    then show ?thesis by blast
  qed
qed

theorem session_for_user_is_authenticated_witness:
  "server_inv init_server
   \<and> holds_session (snd (handle demo_kdf demo_config all_up
        (post ''/register'' None (credentials ''ann'' ''pw'')) init_server)) 0
        (registered_doc demo_kdf ''na'' (Some ''ann'') ''pw'' 0)
   \<and> authenticate demo_kdf True (Some ''ann'') (Some ''pw'')
        (store (snd (handle demo_kdf demo_config all_up
           (post ''/register'' None (credentials ''ann'' ''pw'')) init_server)))
       = Inr (registered_doc demo_kdf ''na'' (Some ''ann'') ''pw'' 0)"
proof -
  let ?r = "post ''/register'' None (credentials ''ann'' ''pw'')"
  let ?out = "handle demo_kdf demo_config all_up ?r init_server"
  have c: "set_cookie (fst ?out) = Some 0"
    by (simp add: eval_defs)
  have hs: "holds_session (snd ?out) 0 (registered_doc demo_kdf ''na'' (Some ''ann'') ''pw'' 0)"
    by (simp add: holds_session_def registered_doc_def eval_defs)
  from session_for_user_is_authenticated [OF server_inv_init c hs] hs show ?thesis
    by (simp add: callback_path_def split: provider.splits)
qed

text \<open>
  C15. An identity of no user never becomes the identity of a user. If a
  session is bound to an id that no stored user has, as the session of a
  rejected login is, then after any sequence of requests still no stored user
  has that id: new users get ids the server had not generated before. Such a
  session can read and write the board but is never the session of an
  account.
\<close>

theorem unsaved_identity_never_impersonates:
  assumes "server_inv (srv w)" and "restore c (sessions (srv w)) = Some su"
    and "su_userId su \<notin> u_id ` set (users (store (srv w)))"
  shows "su_userId su \<notin> u_id ` set (users (store (srv (snd (run k cfg as w)))))"
proof
  assume "su_userId su \<in> u_id ` set (users (store (srv (snd (run k cfg as w)))))"
  then obtain u where u: "u \<in> set (users (store (srv (snd (run k cfg as w)))))"
    and id: "u_id u = su_userId su"
    by auto
  from assms(1,2) have "su_userId su < next_oid (store (srv w))"
    by (rule restore_generated)
  with mints_run [of w k cfg as] u id have "u \<in> set (users (store (srv w)))"
    by (auto simp: mints_def)
  with assms(3) id show False by force
qed

theorem unsaved_identity_never_impersonates_witness:
  "map u_id (users (store (srv (snd (run demo_kdf demo_config
      [send 2 ''/register'' (credentials ''bob'' ''pw'')]
      (snd (exec demo_kdf demo_config (send 1 ''/login'' (credentials ''ann'' ''pw''))
         init_world))))))) = [1]"
proof -
  let ?w = "snd (exec demo_kdf demo_config (send 1 ''/login'' (credentials ''ann'' ''pw''))
    init_world)"
  have inv: "server_inv (srv ?w)"
    by (simp add: server_inv_handle init_world_def)
  have bound: "restore (Some 0) (sessions (srv ?w)) = Some \<lparr>su_userId = 0\<rparr>"
    and none: "users (store (srv ?w)) = []"
    by (simp_all add: eval_defs world_defs)
  from none have "su_userId \<lparr>su_userId = 0\<rparr> \<notin> u_id ` set (users (store (srv ?w)))"
    by simp
  from unsaved_identity_never_impersonates [OF inv bound this, of demo_kdf demo_config
      "[send 2 ''/register'' (credentials ''bob'' ''pw'')]"]
  show ?thesis
    by (simp add: eval_defs world_defs)
qed

end
